theory Spec2Isabelle
  imports Complex_Main "HOL-Library.Log_Nat" "HOL-Library.Sublist"
begin


section \<open>Geometry of the letterbox and of the crop (geminiService)\<close>

text \<open>
  \<open>resizeImage\<close> draws an image of \<open>img.width \<times> img.height\<close> pixels, scaled and centred,
  onto a square canvas of edge \<open>targetDimension\<close>; \<open>cropToOriginalAspectRatio\<close> cuts a
  rectangle out of a square image and returns it on a canvas of its own. Both compute their
  rectangle with JavaScript numbers, by the same expressions.
\<close>

subsection \<open>JavaScript numbers\<close>

text \<open>
  A JavaScript number is an IEEE 754 double: a real \<open>m * 2 powi e\<close> with an integer \<open>m\<close> of at most
  53 bits. Each arithmetic operation yields the exact result rounded to the nearest double,
  ties to the even significand. The model keeps a number as the real that it denotes and
  rounds after every operation. The exponent is not bounded: overflow to infinity, the
  subnormal numbers and \<open>NaN\<close> are outside the model, so it describes the code where every
  intermediate result is zero or has a magnitude from \<open>2 powi (- 1022)\<close> to below \<open>2 powi 1024\<close>, and
  no divisor is zero; the image sizes are positive whole numbers of pixels.

  \<open>exponent x\<close> is the \<open>e\<close> with \<open>2 powi e \<le> x < 2 powi (e + 1)\<close>, for a positive \<open>x\<close>.
\<close>

definition exponent :: "real \<Rightarrow> int" where
  "exponent x =
     (if 1 \<le> x then int (floorlog 2 (nat \<lfloor>x\<rfloor>)) - 1
      else - int (floorlog 2 (nat \<lceil>1 / x\<rceil> - 1)))"

definition round_half_even :: "real \<Rightarrow> int" where
  "round_half_even q =
     (let n = \<lfloor>q\<rfloor>; r = q - of_int n
      in if r < 1 / 2 then n else if 1 / 2 < r then n + 1 else if even n then n else n + 1)"

definition to_double :: "real \<Rightarrow> real" where
  "to_double x =
     (if x = 0 then 0
      else let ulp = 2 powi (exponent \<bar>x\<bar> - 52)
           in sgn x * of_int (round_half_even (\<bar>x\<bar> / ulp)) * ulp)"

text \<open>The operators \<open>/\<close>, \<open>*\<close> and \<open>-\<close> on numbers.\<close>

definition js_div :: "real \<Rightarrow> real \<Rightarrow> real" where
  "js_div a b = to_double (a / b)"

definition js_mul :: "real \<Rightarrow> real \<Rightarrow> real" where
  "js_mul a b = to_double (a * b)"

definition js_sub :: "real \<Rightarrow> real \<Rightarrow> real" where
  "js_sub a b = to_double (a - b)"

subsection \<open>The size of a canvas\<close>

text \<open>
  A canvas stores its \<open>width\<close> and \<open>height\<close> as unsigned 32-bit integers limited to
  non-negative numbers: an assigned number is truncated towards zero and reduced modulo
  \<open>2 ^ 32\<close>, and a result of \<open>2 ^ 31\<close> or more is replaced by the default of the attribute,
  300 for the width and 150 for the height.
\<close>

definition to_unsigned_long :: "real \<Rightarrow> nat" where
  "to_unsigned_long r = nat ((if 0 \<le> r then \<lfloor>r\<rfloor> else \<lceil>r\<rceil>) mod 2 ^ 32)"

definition canvas_dimension :: "nat \<Rightarrow> real \<Rightarrow> nat" where
  "canvas_dimension fallback r =
     (let n = to_unsigned_long r in if n < 2 ^ 31 then n else fallback)"

subsection \<open>\<open>resizeImage\<close> and \<open>cropToOriginalAspectRatio\<close>\<close>

record rect =
  rect_x :: real
  rect_y :: real
  rect_width :: real
  rect_height :: real

text \<open>The canvas that \<open>resizeImage\<close> fills, and where on it the image is drawn
  (\<open>ctx.drawImage(img, x, y, newWidth, newHeight)\<close>).\<close>

record resized =
  canvas_width :: nat
  canvas_height :: nat
  drawn :: rect

definition resizeImage_geometry :: "nat \<Rightarrow> nat \<Rightarrow> nat \<Rightarrow> resized" where
  "resizeImage_geometry img_width img_height targetDimension =
     (let aspectRatio = js_div (real img_width) (real img_height);
          newWidth = (if aspectRatio > 1 then real targetDimension
                      else js_mul (real targetDimension) aspectRatio);
          newHeight = (if aspectRatio > 1 then js_div (real targetDimension) aspectRatio
                       else real targetDimension);
          x = js_div (js_sub (real targetDimension) newWidth) 2;
          y = js_div (js_sub (real targetDimension) newHeight) 2
      in \<lparr>canvas_width = canvas_dimension 300 (real targetDimension),
          canvas_height = canvas_dimension 150 (real targetDimension),
          drawn = \<lparr>rect_x = x, rect_y = y, rect_width = newWidth, rect_height = newHeight\<rparr>\<rparr>)"

text \<open>The canvas that \<open>cropToOriginalAspectRatio\<close> returns, and the rectangle of the square
  image that is copied onto it
  (\<open>ctx.drawImage(img, x, y, contentWidth, contentHeight, 0, 0, contentWidth, contentHeight)\<close>).\<close>

record cropped =
  out_width :: nat
  out_height :: nat
  source :: rect

definition cropToOriginalAspectRatio_geometry :: "nat \<Rightarrow> nat \<Rightarrow> nat \<Rightarrow> cropped" where
  "cropToOriginalAspectRatio_geometry originalWidth originalHeight targetDimension =
     (let aspectRatio = js_div (real originalWidth) (real originalHeight);
          contentWidth = (if aspectRatio > 1 then real targetDimension
                          else js_mul (real targetDimension) aspectRatio);
          contentHeight = (if aspectRatio > 1 then js_div (real targetDimension) aspectRatio
                           else real targetDimension);
          x = js_div (js_sub (real targetDimension) contentWidth) 2;
          y = js_div (js_sub (real targetDimension) contentHeight) 2
      in \<lparr>out_width = canvas_dimension 300 contentWidth,
          out_height = canvas_dimension 150 contentHeight,
          source = \<lparr>rect_x = x, rect_y = y, rect_width = contentWidth,
                    rect_height = contentHeight\<rparr>\<rparr>)"

definition MAX_DIMENSION :: nat where
  "MAX_DIMENSION = 1024"


section \<open>Values shared by the service and the application\<close>

text \<open>A browser \<open>File\<close>: its bytes, its name and its MIME type.\<close>

datatype file_obj = File (file_bits: string) (file_name: string) (file_type: string)

text \<open>
  What a promise is rejected with, or what is thrown: an \<open>Error\<close> object with its message,
  or some other value (a \<open>FileReader\<close> error event, for instance), which
  \<open>err instanceof Error\<close> tells apart.
\<close>

datatype js_error = Error (message: string) | Thrown string

fun errorMessage :: "js_error \<Rightarrow> string" where
  "errorMessage (Error m) = m"
| "errorMessage (Thrown v) = ''An unknown error occurred.''"

text \<open>\<open>await p\<close> followed by the rest of an async function: a rejection of \<open>p\<close> leaves the
  function at once, with that error.\<close>

definition await :: "'e + 'a \<Rightarrow> ('a \<Rightarrow> 'e + 'b) \<Rightarrow> 'e + 'b" where
  "await p rest = (case p of Inl e \<Rightarrow> Inl e | Inr x \<Rightarrow> rest x)"

record dimensions =
  width :: nat
  height :: nat

text \<open>\<open>Number.prototype.toString\<close> on a non-negative whole number, as used on
  \<open>Date.now()\<close> and on \<open>sessions.length + 1\<close>.\<close>

definition digit_char :: "nat \<Rightarrow> char" where
  "digit_char d = ''0123456789'' ! d"

fun toString :: "nat \<Rightarrow> string" where
  "toString n = (if n < 10 then [digit_char n] else toString (n div 10) @ [digit_char (n mod 10)])"

declare toString.simps [simp del]

section \<open>The generative service (geminiService)\<close>

subsection \<open>Request parts and the response\<close>

record blob =
  mimeType :: string
  data :: string

datatype part = InlineDataPart blob | TextPart string

text \<open>The response of \<open>generateContent\<close>, with every level that the code reads through
  \<open>?.\<close> optional.\<close>

record response_part =
  inlineData :: "blob option"
  part_text :: "string option"

record content =
  parts :: "response_part list option"

record candidate =
  content :: "content option"

record response =
  candidates :: "candidate list option"

text \<open>
  What the service reaches outside itself for. The canvas and the image decoder decide the
  pixels of \<open>resizeImage\<close> and of \<open>cropToOriginalAspectRatio\<close> (their geometry is modelled
  above); \<open>FileReader.readAsDataURL\<close>, the model's \<open>generateContent\<close>,
  \<open>fetch(url).blob()\<close> and \<open>getImageDimensions\<close> of \<open>utils/fileUtils\<close> are calls whose
  outcome the caller only receives. Each either resolves or rejects.
\<close>

record boundary =
  resizeImage :: "file_obj \<Rightarrow> nat \<Rightarrow> js_error + file_obj"
  readAsDataURL :: "file_obj \<Rightarrow> js_error + string"
  generateContent :: "part list \<Rightarrow> js_error + response"
  cropToOriginalAspectRatio :: "string \<Rightarrow> nat \<Rightarrow> nat \<Rightarrow> nat \<Rightarrow> js_error + string"
  fetchBlob :: "string \<Rightarrow> js_error + string"
  getImageDimensions :: "file_obj \<Rightarrow> js_error + dimensions"

subsection \<open>\<open>fileToPart\<close>\<close>

text \<open>\<open>dataUrl.split(',')\<close>.\<close>

fun split_on :: "char \<Rightarrow> string \<Rightarrow> string list" where
  "split_on c [] = [[]]"
| "split_on c (x # xs) =
     (if x = c then [] # split_on c xs
      else (case split_on c xs of y # ys \<Rightarrow> (x # y) # ys | [] \<Rightarrow> [[x]]))"

text \<open>
  The first group of \<open>arr[0].match(/:(.*?);/)\<close>: from the leftmost colon that is followed
  by a semicolon with no line terminator in between, the text up to that semicolon.
\<close>

definition line_terminator :: "char \<Rightarrow> bool" where
  "line_terminator c = (c = CHR 0x0A \<or> c = CHR 0x0D)"

fun mimeMatch :: "string \<Rightarrow> string option" where
  "mimeMatch [] = None"
| "mimeMatch (c # cs) =
     (if c = CHR '':'' then
        (let group = takeWhile (\<lambda>d. d \<noteq> CHR '';'' \<and> \<not> line_terminator d) cs
         in case drop (length group) cs of
              d # rest \<Rightarrow> if d = CHR '';'' then Some group else mimeMatch cs
            | [] \<Rightarrow> mimeMatch cs)
      else mimeMatch cs)"

definition fileToPart :: "boundary \<Rightarrow> file_obj \<Rightarrow> js_error + part" where
  "fileToPart b f =
     await (readAsDataURL b f) (\<lambda>dataUrl.
       let arr = split_on CHR '','' dataUrl in
       if length arr < 2 then Inl (Error ''Invalid data URL'')
       else (case mimeMatch (arr ! 0) of
               None \<Rightarrow> Inl (Error ''Could not parse MIME type from data URL'')
             | Some m \<Rightarrow>
                 if m = [] then Inl (Error ''Could not parse MIME type from data URL'')
                 else Inr (InlineDataPart \<lparr>mimeType = m, data = arr ! 1\<rparr>)))"

definition fileToDataUrl :: "boundary \<Rightarrow> file_obj \<Rightarrow> js_error + string" where
  "fileToDataUrl b f = readAsDataURL b f"

subsection \<open>The instruction text\<close>

text \<open>A template literal, line by line: every line of the blocks below ends with a line feed.\<close>

definition template_lines :: "string list \<Rightarrow> string" where
  "template_lines ls = concat (map (\<lambda>l. l @ [CHR 0x0A]) ls)"

definition prompt_base :: "string \<Rightarrow> string" where
  \<open>prompt_base userPrompt = template_lines
    [''**Role and Goal:**'',
     ''You are an expert AI photo-editor specializing in realistic architectural and landscape modifications. Your task is to edit the provided image based on the user's instructions.'',
     '''',
     ''**Primary Directive: EDIT, DO NOT REPLACE.**'',
     ''This is your most important instruction. You must treat this as an image editing task, not an image generation task.'',
     ''-   **Preserve the Original:** Maintain the original image's composition, camera angle, lighting, and core structures.'',
     ''-   **Do Not Alter:** Do not change the fundamental shape of the house, roofline, window placements, door placements, or any other element not explicitly mentioned in the user's request.'',
     ''-   **Ignore Padding:** The base image may have black padding around it; this padding should be ignored and is not part of the scene to be edited.'',
     '''',
     ''**User's Edit Instructions:**'',
     ''Apply the following changes to the image: "'' @ userPrompt @ ''"'']\<close>

definition prompt_sketch :: "string" where
  \<open>prompt_sketch = template_lines
    ['''',
     ''**Critical Instruction: Sketch-Based Editing ONLY.**'',
     ''The user has provided a sketch on top of the image. This sketch indicates the *only* areas you are allowed to modify.'',
     ''-   You MUST confine ALL edits *exclusively* to the areas indicated by the sketch.'',
     ''-   Do NOT alter any other part of the image. The rest of the image must remain identical to the original.'',
     ''-   The user's text prompt should be interpreted as instructions for *what* to do within the sketched areas. For example, if the prompt says "add a flowerbed" and the user has drawn a circle on the lawn, you must create the flowerbed only inside that circle.'',
     ''-   Integrate these sketched elements realistically into the scene, matching the existing style and lighting.'']\<close>

definition prompt_product :: "string" where
  \<open>prompt_product = template_lines
    ['''',
     ''**Product Placement Instructions:**'',
     ''The user has provided a second image containing a specific element to add.'',
     ''-   You MUST photorealistically integrate this exact element into the main scene.'',
     ''-   Ensure the added element's scale, lighting, and perspective are seamlessly blended into the scene to look natural.'']\<close>

definition prompt_background :: "string \<Rightarrow> string" where
  \<open>prompt_background userPrompt = template_lines
    ['''',
     ''**Critical Task: Background Replacement**'',
     ''The user has provided a new background image. Your primary task is to perform a professional-grade photo composition.'',
     '''',
     ''**Image Roles:**'',
     ''-   **Main Image (first image):** Contains the primary subject (e.g., a house, a person, an object).'',
     ''-   **Background Image (third image provided):** This is the new environment.'',
     '''',
     ''**Step-by-Step Composition Directive:**'',
     ''1.  **Isolate the Subject:** Accurately identify and isolate the main subject from the first image. Ignore its original background.'',
     ''2.  **Analyze the New Environment:** Scrutinize the provided background image. Pay close attention to:'',
     ''    -   **Lighting Source & Direction:** Where is the sun or primary light? What direction are the shadows falling?'',
     ''    -   **Color Temperature:** Is the light warm (golden hour) or cool (overcast day)?'',
     ''    -   **Atmosphere:** Is it sunny, foggy, nighttime?'',
     ''3.  **Integrate and Harmonize:**'',
     ''    -   Place the isolated subject realistically into the new background.'',
     ''    -   **Crucially, you MUST re-light the subject.** Adjust its highlights, shadows, and color grading to perfectly match the lighting conditions of the new background. The subject must look like it truly belongs in the new scene, not like it was cut and pasted.'',
     ''    -   Ensure shadows cast *by* the subject onto the new background are consistent with the environment's light source.'',
     ''4.  **Scale and Perspective:** Adjust the subject's size and perspective to be believable within the new scene.'',
     ''5.  **Final Blend:** Seamlessly blend the edges of the subject into the background to create a photorealistic final image. The user's text prompt ("'' @ userPrompt @ ''") should guide any additional stylistic modifications *after* the composition is complete.'']\<close>

definition prompt_final :: "string" where
  \<open>prompt_final = template_lines
    ['''',
     ''**Final Output Requirements:**'',
     ''-   The output must be a single, high-quality, photorealistic image that is an edited version of the original.'',
     ''-   It should ONLY contain the modified image. No text, logos, or other artifacts.'']\<close>

definition rotation_prompt :: "string \<Rightarrow> string" where
  \<open>rotation_prompt direction_text = template_lines
    [''**Role and Goal:** You are an expert AI architectural visualizer. Your function is to generate a photorealistic rendering of a building from a different camera angle, maintaining absolute fidelity to the design shown in the input image.'',
     '''',
     ''**Core Task: Incremental Camera Rotation**'',
     ''The input image is a single viewpoint of a building. Your task is to generate a new photorealistic image showing the *exact same building and its surroundings*, but with the camera viewpoint rotated **precisely 45 degrees to the '' @ direction_text @ ''** from the current view.'',
     '''',
     ''**Critical Directives for Continuity and Accuracy:**'',
     ''-   **Treat Input as Ground Truth:** The provided image is the current state. Your output must be a direct continuation of this view. If the input image is already a rotated view, your task is to rotate it *further*.'',
     ''-   **Unalterable Architecture:** The building's design, style, materials, textures, and colors are immutable. You MUST NOT alter any existing architectural elements (walls, rooflines, windows, doors, etc.).'',
     ''-   **Realistic Extrapolation:** The primary challenge is to realistically render the parts of the building and environment that become visible after the 45-degree rotation. These newly visible sections MUST be a logical and consistent extension of the visible architecture. For example, a brick wall must continue as a brick wall. A window pattern should continue logically.'',
     ''-   **Consistent Environment:** Maintain the identical lighting conditions (time of day, shadow direction), weather, and landscaping style from the input image. The world around the building does not change, only the camera's position.'',
     ''-   **Ignore Padding:** The input image may have black padding. This is an artifact and must be completely ignored. It is not part of the scene.'',
     '''',
     ''**Final Output Requirements:**'',
     ''-   The output MUST be a single, high-quality, photorealistic image of the building from the new 45-degree viewpoint.'',
     ''-   The image should be clean, without any text, watermarks, or other artifacts.'',
     ''-   Ensure the perspective shift is accurate and feels like a real camera movement.'']\<close>

datatype direction = Left | Right

fun direction_string :: "direction \<Rightarrow> string" where
  "direction_string Left = ''left''"
| "direction_string Right = ''right''"

subsection \<open>\<open>redesignRoom\<close>\<close>

text \<open>
  The request of \<open>redesignRoom\<close>: the list \<open>parts\<close> and the text \<open>prompt\<close>, from the first
  \<open>fileToPart\<close> to \<open>parts.push(textPart)\<close>. The result is the pair of both.
\<close>

definition redesign_request ::
  "boundary \<Rightarrow> file_obj \<Rightarrow> string \<Rightarrow> file_obj option \<Rightarrow> file_obj option \<Rightarrow> bool
     \<Rightarrow> js_error + (part list \<times> string)" where
  "redesign_request b resizedRoomImage userPrompt productImage backgroundImage isSketched =
     await (fileToPart b resizedRoomImage) (\<lambda>roomPart.
     let parts0 = [roomPart];
         prompt0 = prompt_base userPrompt;
         prompt1 = (if isSketched then prompt0 @ prompt_sketch else prompt0)
     in
     await (case productImage of
              None \<Rightarrow> Inr (parts0, prompt1)
            | Some product \<Rightarrow>
                await (fileToPart b product) (\<lambda>productPart.
                  Inr (parts0 @ [productPart], prompt1 @ prompt_product)))
       (\<lambda>(parts1, prompt2).
     await (case backgroundImage of
              None \<Rightarrow> Inr (parts1, prompt2)
            | Some background \<Rightarrow>
                await (fileToPart b background) (\<lambda>backgroundPart.
                  Inr (parts1 @ [backgroundPart], prompt2 @ prompt_background userPrompt)))
       (\<lambda>(parts2, prompt3).
     let prompt4 = prompt3 @ prompt_final
     in Inr (parts2 @ [TextPart prompt4], prompt4))))"

text \<open>\<open>response.candidates?.[0]?.content?.parts?.find(part => part.inlineData)\<close>\<close>

definition imagePartFromResponse :: "response \<Rightarrow> response_part option" where
  "imagePartFromResponse r =
     (case candidates r of
        None \<Rightarrow> None
      | Some cs \<Rightarrow>
          (case cs of
             [] \<Rightarrow> None
           | c # _ \<Rightarrow>
               (case content c of
                  None \<Rightarrow> None
                | Some ct \<Rightarrow>
                    (case parts ct of
                       None \<Rightarrow> None
                     | Some ps \<Rightarrow> find (\<lambda>p. inlineData p \<noteq> None) ps))))"

record redesign_result =
  finalImageUrl :: string
  debugImageUrl :: string
  finalPrompt :: string

text \<open>The first half of \<open>redesignRoom\<close>, up to the model's response.\<close>

definition redesign_submit ::
  "boundary \<Rightarrow> file_obj \<Rightarrow> string \<Rightarrow> file_obj option \<Rightarrow> file_obj option \<Rightarrow> bool
     \<Rightarrow> js_error + (string \<times> string \<times> response)" where
  "redesign_submit b imageToProcess userPrompt productImage backgroundImage isSketched =
     await (resizeImage b imageToProcess MAX_DIMENSION) (\<lambda>resizedRoomImage.
     await (fileToDataUrl b resizedRoomImage) (\<lambda>debugUrl.
     await (redesign_request b resizedRoomImage userPrompt productImage backgroundImage
              isSketched) (\<lambda>(request_parts, prompt_text).
     await (generateContent b request_parts) (\<lambda>resp.
     Inr (debugUrl, prompt_text, resp)))))"

definition redesignRoom ::
  "boundary \<Rightarrow> file_obj \<Rightarrow> nat \<Rightarrow> nat \<Rightarrow> string \<Rightarrow> file_obj option \<Rightarrow> file_obj option \<Rightarrow> bool
     \<Rightarrow> js_error + redesign_result" where
  "redesignRoom b imageToProcess originalWidth originalHeight userPrompt productImage
       backgroundImage isSketched =
     await (redesign_submit b imageToProcess userPrompt productImage backgroundImage isSketched)
       (\<lambda>(debugUrl, prompt_text, resp).
     (case imagePartFromResponse resp of
        Some p \<Rightarrow>
          (case inlineData p of
             Some d \<Rightarrow>
               await (cropToOriginalAspectRatio b
                        (''data:'' @ mimeType d @ '';base64,'' @ data d)
                        originalWidth originalHeight MAX_DIMENSION) (\<lambda>finalUrl.
               Inr \<lparr>finalImageUrl = finalUrl, debugImageUrl = debugUrl,
                    finalPrompt = prompt_text\<rparr>)
           | None \<Rightarrow> Inl (Error ''The AI model did not return an image. Please try again.''))
      | None \<Rightarrow> Inl (Error ''The AI model did not return an image. Please try again.'')))"

subsection \<open>\<open>generateRotatedView\<close>\<close>

definition rotate_submit :: "boundary \<Rightarrow> file_obj \<Rightarrow> direction \<Rightarrow> js_error + response" where
  "rotate_submit b currentImage dir =
     await (resizeImage b currentImage MAX_DIMENSION) (\<lambda>resizedImage.
     await (fileToPart b resizedImage) (\<lambda>imagePart.
     generateContent b [imagePart, TextPart (rotation_prompt (direction_string dir))]))"

definition generateRotatedView ::
  "boundary \<Rightarrow> file_obj \<Rightarrow> nat \<Rightarrow> nat \<Rightarrow> direction \<Rightarrow> js_error + string" where
  "generateRotatedView b currentImage originalWidth originalHeight dir =
     await (rotate_submit b currentImage dir) (\<lambda>resp.
     (case imagePartFromResponse resp of
        Some p \<Rightarrow>
          (case inlineData p of
             Some d \<Rightarrow>
               cropToOriginalAspectRatio b
                 (''data:'' @ mimeType d @ '';base64,'' @ data d)
                 originalWidth originalHeight MAX_DIMENSION
           | None \<Rightarrow> Inl (Error ''The AI model did not return an image for rotation.''))
      | None \<Rightarrow> Inl (Error ''The AI model did not return an image for rotation.'')))"

text \<open>Every part of a response, of any candidate, that carries inline image data.\<close>

definition inline_image_parts :: "response \<Rightarrow> response_part list" where
  "inline_image_parts r =
     filter (\<lambda>p. inlineData p \<noteq> None)
       (concat (map (\<lambda>c. case content c of
                            None \<Rightarrow> []
                          | Some ct \<Rightarrow> (case parts ct of None \<Rightarrow> [] | Some ps \<Rightarrow> ps))
                    (case candidates r of None \<Rightarrow> [] | Some cs \<Rightarrow> cs)))"

section \<open>The session store (storageService)\<close>

text \<open>\<open>DesignSession\<close> of \<open>types.ts\<close>. Its fields carry the prefix \<open>session_\<close>: \<open>id\<close> is
  the identity function of HOL, and the application state below has fields of the same names.\<close>

record designSession =
  session_id :: string
  session_name :: string
  session_timestamp :: nat
  session_thumbnail :: string
  session_sceneImage :: file_obj
  session_originalDimensions :: dimensions
  session_generations :: "file_obj list"

text \<open>
  IndexedDB as the two functions see it: \<open>window.indexedDB\<close> may be missing; the open
  request ends in \<open>onerror\<close> or in \<open>onsuccess\<close> with the database; \<open>db.transaction\<close> throws
  or gives the object store; the \<open>getAll\<close> request ends in \<open>onerror\<close> or in \<open>onsuccess\<close>
  with \<open>request.result\<close>, which the code tests for truthiness.
\<close>

record object_store =
  getAll :: "js_error + designSession list option"

record database =
  transaction :: "js_error + object_store"

record browser_window =
  indexedDB :: "(js_error + database) option"

definition openDB :: "browser_window \<Rightarrow> js_error + database" where
  "openDB w =
     (case indexedDB w of
        None \<Rightarrow> Inl (Error ''IndexedDB is not supported by this browser.'')
      | Some request \<Rightarrow> request)"

text \<open>
  \<open>loadSessionsFromDB\<close>: what \<open>await openDB()\<close> and \<open>db.transaction\<close> throw is caught by the
  \<open>try\<close> around them, and the function returns \<open>[]\<close>; the promise of the \<open>getAll\<close> request
  is returned without \<open>await\<close>, so its rejection passes to the caller. The sort is stable
  and puts the larger timestamp first.
\<close>

definition loadSessionsFromDB :: "browser_window \<Rightarrow> js_error + designSession list" where
  "loadSessionsFromDB w =
     (case openDB w of
        Inl e \<Rightarrow> Inr []
      | Inr db \<Rightarrow>
          (case transaction db of
             Inl e \<Rightarrow> Inr []
           | Inr store \<Rightarrow>
               (case getAll store of
                  Inl e \<Rightarrow> Inl e
                | Inr None \<Rightarrow> Inr []
                | Inr (Some result) \<Rightarrow>
                    Inr (sort_key (\<lambda>s. - int (session_timestamp s)) result))))"

section \<open>The application state and its handlers (App)\<close>

text \<open>
  The \<open>useState\<close> cells of \<open>App\<close> that the handlers below read or write. A handler is
  modelled as a function from the state of the render in which it is invoked to the state
  after all of its \<open>set\<dots>\<close> calls, run in one piece; the clock readings of \<open>Date.now()\<close>
  are arguments. The handlers read the state through their closures: where a closure is
  older than the render, the model says so. This is the case for the effect that loads the
  sessions, and for \<open>handleRotateView\<close>: it is memoised with
  \<open>useCallback(\<dots>, [currentWorkingImage, originalDimensions, activeSessionId])\<close>, so React keeps
  the function of an earlier render until one of these three changes, and with it the
  \<open>history\<close> and the \<open>historyIndex\<close> of that render, which its \<open>addImageToHistory\<close>
  reads. The last three fields of the state hold what the hook has stored: the dependencies
  of the render in which the function was created, and that render's \<open>history\<close> and
  \<open>historyIndex\<close>. All other memoised handlers list every cell that they read among their
  dependencies (\<open>handleGenerate\<close> reads \<open>sketchedImage\<close> only as \<open>!!sketchedImage\<close>, which
  cannot change without \<open>currentWorkingImage\<close>), so they see the state of the current
  render.
\<close>

record app_state =
  sessions :: "designSession list"
  activeSessionId :: "string option"
  sessionsLoaded :: bool
  sceneImage :: "file_obj option"
  productImage :: "file_obj option"
  backgroundImage :: "file_obj option"
  sketchedImage :: "file_obj option"
  history :: "file_obj list"
  historyIndex :: int
  prompt :: string
  originalDimensions :: "dimensions option"
  isLoading :: bool
  error :: "string option"
  debugImageUrl_state :: "string option"
  debugPrompt :: "string option"
  isDrawingModalOpen :: bool
  isAddProductModalOpen :: bool
  isAddBackgroundModalOpen :: bool
  rotateView_deps :: "file_obj option \<times> dimensions option \<times> string option"
  rotateView_history :: "file_obj list"
  rotateView_historyIndex :: int

definition initial_state :: app_state where
  "initial_state =
     \<lparr>sessions = [], activeSessionId = None, sessionsLoaded = False, sceneImage = None,
      productImage = None, backgroundImage = None, sketchedImage = None, history = [],
      historyIndex = - 1, prompt = [], originalDimensions = None, isLoading = False,
      error = None, debugImageUrl_state = None, debugPrompt = None,
      isDrawingModalOpen = False, isAddProductModalOpen = False,
      isAddBackgroundModalOpen = False, rotateView_deps = (None, None, None),
      rotateView_history = [], rotateView_historyIndex = - 1\<rparr>"

text \<open>\<open>xs[i] ?? null\<close> and \<open>xs.slice(0, e)\<close> for whole numbers \<open>i\<close> and \<open>e\<close>.\<close>

definition index_at :: "'a list \<Rightarrow> int \<Rightarrow> 'a option" where
  "index_at xs i = (if 0 \<le> i \<and> i < int (length xs) then Some (xs ! nat i) else None)"

definition slice_to :: "'a list \<Rightarrow> int \<Rightarrow> 'a list" where
  "slice_to xs e = (if e < 0 then take (nat (int (length xs) + e)) xs else take (nat e) xs)"

definition currentGeneratedImage :: "app_state \<Rightarrow> file_obj option" where
  "currentGeneratedImage st = index_at (history st) (historyIndex st)"

text \<open>\<open>sketchedImage || currentGeneratedImage || sceneImage\<close>\<close>

definition currentWorkingImage :: "app_state \<Rightarrow> file_obj option" where
  "currentWorkingImage st =
     (case sketchedImage st of
        Some f \<Rightarrow> Some f
      | None \<Rightarrow> (case currentGeneratedImage st of Some f \<Rightarrow> Some f | None \<Rightarrow> sceneImage st))"

definition clearWorkingState :: "app_state \<Rightarrow> app_state" where
  "clearWorkingState st =
     st\<lparr>sceneImage := None, productImage := None, backgroundImage := None,
        sketchedImage := None, history := [], historyIndex := - 1, prompt := [],
        error := None, isLoading := False, debugImageUrl_state := None, debugPrompt := None,
        originalDimensions := None\<rparr>"

definition handleNewProject :: "app_state \<Rightarrow> app_state" where
  "handleNewProject st = (clearWorkingState st)\<lparr>activeSessionId := None\<rparr>"

text \<open>\<open>handleSelectSession\<close> looks the session up in the \<open>sessions\<close> of its closure.\<close>

definition handleSelectSession_in :: "designSession list \<Rightarrow> string \<Rightarrow> app_state \<Rightarrow> app_state" where
  "handleSelectSession_in closure_sessions sessionId st =
     (case find (\<lambda>s. session_id s = sessionId) closure_sessions of
        None \<Rightarrow> st
      | Some session \<Rightarrow>
          (clearWorkingState st)
            \<lparr>sceneImage := Some (session_sceneImage session),
             originalDimensions := Some (session_originalDimensions session),
             history := session_generations session,
             historyIndex := int (length (session_generations session)) - 1,
             activeSessionId := Some (session_id session)\<rparr>)"

definition handleSelectSession :: "string \<Rightarrow> app_state \<Rightarrow> app_state" where
  "handleSelectSession sessionId st = handleSelectSession_in (sessions st) sessionId st"

definition handleDeleteSession :: "string \<Rightarrow> app_state \<Rightarrow> app_state" where
  "handleDeleteSession sessionId st =
     (let remainingSessions = filter (\<lambda>s. session_id s \<noteq> sessionId) (sessions st);
          st1 = st\<lparr>sessions := remainingSessions\<rparr>
      in if activeSessionId st = Some sessionId then
           (case remainingSessions of
              first # _ \<Rightarrow>
                (handleSelectSession (session_id first) st)\<lparr>sessions := remainingSessions\<rparr>
            | [] \<Rightarrow> handleNewProject st1)
         else st1)"

text \<open>
  The effect that runs once after the first render: its \<open>handleSelectSession\<close> is the one
  of the first render, whose \<open>sessions\<close> is the initial empty list.
\<close>

definition sessions_loaded :: "designSession list \<Rightarrow> app_state \<Rightarrow> app_state" where
  "sessions_loaded loadedSessions st =
     (let st1 = st\<lparr>sessions := loadedSessions\<rparr>;
          st2 = (case loadedSessions of
                   first # _ \<Rightarrow> handleSelectSession_in [] (session_id first) st1
                 | [] \<Rightarrow> st1)
      in st2\<lparr>sessionsLoaded := True\<rparr>)"

text \<open>
  \<open>handleSceneImageUpload\<close>: \<open>now_id\<close> and \<open>now_timestamp\<close> are the two readings of
  \<open>Date.now()\<close>. When the thumbnail cannot be read, \<open>onload\<close> never runs and nothing changes.
\<close>

definition handleSceneImageUpload ::
  "boundary \<Rightarrow> nat \<Rightarrow> nat \<Rightarrow> file_obj \<Rightarrow> app_state \<Rightarrow> app_state" where
  "handleSceneImageUpload b now_id now_timestamp f st =
     (case getImageDimensions b f of
        Inl err \<Rightarrow>
          st\<lparr>error := Some ''Could not read image dimensions. Please try a different image.''\<rparr>
      | Inr dims \<Rightarrow>
          (case readAsDataURL b f of
             Inl err \<Rightarrow> st
           | Inr thumbnailUrl \<Rightarrow>
               (let newSession =
                      \<lparr>session_id = toString now_id,
                       session_name = ''Design '' @ toString (length (sessions st) + 1),
                       session_timestamp = now_timestamp,
                       session_thumbnail = thumbnailUrl,
                       session_sceneImage = f,
                       session_originalDimensions = dims,
                       session_generations = []\<rparr>
                in st\<lparr>sessions := newSession # sessions st,
                      activeSessionId := Some (session_id newSession),
                      sceneImage := Some f,
                      originalDimensions := Some dims,
                      history := [],
                      historyIndex := - 1,
                      prompt := [],
                      sketchedImage := None,
                      productImage := None,
                      backgroundImage := None,
                      error := None\<rparr>)))"

definition exterior_url :: string where
  "exterior_url =
     ''https://storage.googleapis.com/aistudio-web-public-prod/prompts/v1/exterior.jpeg''"

definition sample_prompt :: string where
  "sample_prompt =
     ''Add a modern stone pathway, plant vibrant flowerbeds along the front, and add a large oak tree on the right.''"

text \<open>
  \<open>handleInstantStart\<close>: \<open>await handleSceneImageUpload(file)\<close> returns once the dimensions
  are read, so \<open>setPrompt\<close> of the sample text runs before the thumbnail's \<open>onload\<close>.
\<close>

definition handleInstantStart :: "boundary \<Rightarrow> nat \<Rightarrow> nat \<Rightarrow> app_state \<Rightarrow> app_state" where
  "handleInstantStart b now_id now_timestamp st =
     (let st0 = st\<lparr>error := None\<rparr>
      in case fetchBlob b exterior_url of
           Inl err \<Rightarrow>
             st0\<lparr>error := Some (''Could not load default image. Details: '' @ errorMessage err)\<rparr>
         | Inr bits \<Rightarrow>
             handleSceneImageUpload b now_id now_timestamp
               (File bits ''exterior.jpeg'' ''image/jpeg'') (st0\<lparr>prompt := sample_prompt\<rparr>))"

text \<open>\<open>if (activeSessionId)\<close> holds for a string that is not empty.\<close>

definition update_active_session ::
  "(designSession \<Rightarrow> designSession) \<Rightarrow> app_state \<Rightarrow> designSession list" where
  "update_active_session change st =
     (case activeSessionId st of
        None \<Rightarrow> sessions st
      | Some active \<Rightarrow>
          if active = [] then sessions st
          else map (\<lambda>s. if session_id s = active then change s else s) (sessions st))"

text \<open>
  \<open>addImageToHistory\<close> is created anew in every render and reads \<open>history\<close> and
  \<open>historyIndex\<close> of that render: \<open>closure_history\<close> and \<open>closure_historyIndex\<close>. The
  \<open>sessions\<close> are updated from their latest value (\<open>setSessions(prevSessions => \<dots>)\<close>). For
  a caller that runs in the current render the two are the cells of the state.
\<close>

definition addImageToHistory_in ::
  "file_obj list \<Rightarrow> int \<Rightarrow> file_obj \<Rightarrow> app_state \<Rightarrow> app_state" where
  "addImageToHistory_in closure_history closure_historyIndex newImage st =
     (let newHistory = slice_to closure_history (closure_historyIndex + 1) @ [newImage]
      in st\<lparr>history := newHistory,
            historyIndex := int (length newHistory) - 1,
            sessions := update_active_session (\<lambda>s. s\<lparr>session_generations := newHistory\<rparr>) st\<rparr>)"

definition addImageToHistory :: "file_obj \<Rightarrow> app_state \<Rightarrow> app_state" where
  "addImageToHistory newImage st =
     addImageToHistory_in (history st) (historyIndex st) newImage st"

text \<open>The \<open>try\<close> block of \<open>handleGenerate\<close> after \<open>redesignRoom\<close> has settled, with its
  \<open>catch\<close> and \<open>finally\<close>; \<open>st\<close> is the state in which the handler was invoked.\<close>

definition handleGenerate_settled ::
  "boundary \<Rightarrow> nat \<Rightarrow> app_state \<Rightarrow> js_error + redesign_result \<Rightarrow> app_state" where
  "handleGenerate_settled b now st outcome =
     (let st1 = st\<lparr>isLoading := True, error := None\<rparr>
      in case await outcome (\<lambda>r. await (fetchBlob b (finalImageUrl r)) (\<lambda>bits. Inr (r, bits))) of
           Inl err \<Rightarrow>
             st1\<lparr>error := Some (''Failed to generate the image. '' @ errorMessage err),
                 isLoading := False\<rparr>
         | Inr (r, bits) \<Rightarrow>
             (addImageToHistory
                (File bits (''generated-scene-'' @ toString now @ ''.jpeg'') ''image/jpeg'') st1)
               \<lparr>sketchedImage := None,
                productImage := None,
                backgroundImage := None,
                prompt := [],
                debugImageUrl_state := Some (debugImageUrl r),
                debugPrompt := Some (finalPrompt r),
                isLoading := False\<rparr>)"

definition handleGenerate :: "boundary \<Rightarrow> nat \<Rightarrow> app_state \<Rightarrow> app_state" where
  "handleGenerate b now st =
     (case (currentWorkingImage st, originalDimensions st) of
        (Some imageToProcess, Some dims) \<Rightarrow>
          if prompt st = [] then
            st\<lparr>error := Some ''Please upload an image of your property and provide a design prompt.''\<rparr>
          else
            handleGenerate_settled b now st
              (redesignRoom b imageToProcess (width dims) (height dims) (prompt st)
                 (productImage st) (backgroundImage st) (sketchedImage st \<noteq> None))
      | _ \<Rightarrow>
          st\<lparr>error := Some ''Please upload an image of your property and provide a design prompt.''\<rparr>)"

text \<open>
  \<open>handleRotateView\<close>: \<open>currentWorkingImage\<close>, \<open>originalDimensions\<close> and \<open>activeSessionId\<close>
  are its dependencies, so the function that runs has those of the current render; its
  \<open>addImageToHistory\<close> is the one of the render in which the function was created.
\<close>

definition handleRotateView :: "boundary \<Rightarrow> nat \<Rightarrow> direction \<Rightarrow> app_state \<Rightarrow> app_state" where
  "handleRotateView b now dir st =
     (case (currentWorkingImage st, originalDimensions st) of
        (Some imageToRotate, Some dims) \<Rightarrow>
          (let st1 = st\<lparr>isLoading := True, error := None\<rparr>
           in case await (generateRotatedView b imageToRotate (width dims) (height dims) dir)
                     (\<lambda>finalUrl. fetchBlob b finalUrl) of
                Inl err \<Rightarrow>
                  st1\<lparr>error := Some (''Failed to generate the rotated view. '' @ errorMessage err),
                      isLoading := False\<rparr>
              | Inr bits \<Rightarrow>
                  (addImageToHistory_in (rotateView_history st) (rotateView_historyIndex st)
                     (File bits (''rotated-scene-'' @ toString now @ ''.jpeg'') ''image/jpeg'') st1)
                    \<lparr>isLoading := False\<rparr>)
      | _ \<Rightarrow> st\<lparr>error := Some ''An image must be present to create a rotated view.''\<rparr>)"

definition handleRevertToOriginal :: "app_state \<Rightarrow> app_state" where
  "handleRevertToOriginal st =
     st\<lparr>history := [],
        historyIndex := - 1,
        sketchedImage := None,
        sessions := update_active_session (\<lambda>s. s\<lparr>session_generations := []\<rparr>) st\<rparr>"

text \<open>\<open>handleSaveSketch\<close> has no \<open>catch\<close>: when the fetch fails no state is set.\<close>

definition handleSaveSketch :: "boundary \<Rightarrow> nat \<Rightarrow> string \<Rightarrow> app_state \<Rightarrow> app_state" where
  "handleSaveSketch b now dataUrl st =
     (case fetchBlob b dataUrl of
        Inl err \<Rightarrow> st
      | Inr bits \<Rightarrow>
          st\<lparr>sketchedImage := Some (File bits (''sketch-'' @ toString now @ ''.png'') ''image/png''),
             isDrawingModalOpen := False\<rparr>)"

definition handleSaveCanvasEdit :: "boundary \<Rightarrow> file_obj \<Rightarrow> app_state \<Rightarrow> app_state" where
  "handleSaveCanvasEdit b newFile st =
     (case getImageDimensions b newFile of
        Inl e \<Rightarrow> st\<lparr>error := Some ''Failed to process edited image.''\<rparr>
      | Inr dims \<Rightarrow>
          st\<lparr>sceneImage := Some newFile,
             originalDimensions := Some dims,
             sketchedImage := None,
             history := [],
             historyIndex := - 1,
             sessions :=
               update_active_session
                 (\<lambda>s. s\<lparr>session_sceneImage := newFile, session_originalDimensions := dims,
                         session_generations := []\<rparr>) st\<rparr>)"

definition handleUndo :: "app_state \<Rightarrow> app_state" where
  "handleUndo st = (if historyIndex st \<ge> 0 then st\<lparr>historyIndex := historyIndex st - 1\<rparr> else st)"

definition handleRedo :: "app_state \<Rightarrow> app_state" where
  "handleRedo st =
     (if historyIndex st < int (length (history st)) - 1
      then st\<lparr>historyIndex := historyIndex st + 1\<rparr> else st)"

definition handleRemoveSketch :: "app_state \<Rightarrow> app_state" where
  "handleRemoveSketch st = st\<lparr>sketchedImage := None\<rparr>"

definition handleRemoveProduct :: "app_state \<Rightarrow> app_state" where
  "handleRemoveProduct st = st\<lparr>productImage := None\<rparr>"

definition handleRemoveBackground :: "app_state \<Rightarrow> app_state" where
  "handleRemoveBackground st = st\<lparr>backgroundImage := None\<rparr>"

definition handleAddCustomProduct :: "file_obj \<Rightarrow> app_state \<Rightarrow> app_state" where
  "handleAddCustomProduct f st = st\<lparr>productImage := Some f, isAddProductModalOpen := False\<rparr>"

definition handleAddCustomBackground :: "file_obj \<Rightarrow> app_state \<Rightarrow> app_state" where
  "handleAddCustomBackground f st =
     st\<lparr>backgroundImage := Some f, isAddBackgroundModalOpen := False\<rparr>"

subsection \<open>The render after an update\<close>

text \<open>
  After the updates of a handler React renders \<open>App\<close> again (the updates of one handler are
  taken to be rendered together). \<open>useCallback\<close> compares the dependencies of
  \<open>handleRotateView\<close> with the stored ones: when they are the same it returns the stored
  function, otherwise it stores the function of this render, with this render's \<open>history\<close>
  and \<open>historyIndex\<close>.
\<close>

definition rotateView_dependencies ::
  "app_state \<Rightarrow> file_obj option \<times> dimensions option \<times> string option" where
  "rotateView_dependencies st = (currentWorkingImage st, originalDimensions st, activeSessionId st)"

definition memoise :: "app_state \<Rightarrow> app_state" where
  "memoise st =
     st\<lparr>rotateView_deps := rotateView_dependencies st,
        rotateView_history := history st,
        rotateView_historyIndex := historyIndex st\<rparr>"

definition render :: "app_state \<Rightarrow> app_state" where
  "render st = (if rotateView_dependencies st = rotateView_deps st then st else memoise st)"

subsection \<open>Reachable states\<close>

text \<open>What can happen to the application: the sessions arrive from the store, the user
  triggers a handler, or React renders. The buttons' \<open>disabled\<close> flags are not modelled, so
  every handler may run in every state, also before the render of the previous update.
  React compares dependencies with \<open>Object.is\<close>, and the values of the model carry no
  object identity: two files or two dimension objects that are equal as values may be
  distinct objects, for which React stores the function anew. A render may therefore also
  store the function when the dependencies are equal as values (\<open>reachable_memoise\<close>).\<close>

datatype event =
    SessionsLoaded "designSession list"
  | NewProject
  | SelectSession string
  | DeleteSession string
  | SceneImageUpload boundary nat nat file_obj
  | InstantStart boundary nat nat
  | Generate boundary nat
  | RotateView boundary nat direction
  | RevertToOriginal
  | SaveSketch boundary nat string
  | SaveCanvasEdit boundary file_obj
  | Undo
  | Redo
  | RemoveSketch
  | RemoveProduct
  | RemoveBackground
  | AddCustomProduct file_obj
  | AddCustomBackground file_obj
  | SetPrompt string
  | OpenDrawingModal
  | OpenAddProductModal
  | OpenAddBackgroundModal

fun fire :: "event \<Rightarrow> app_state \<Rightarrow> app_state" where
  "fire (SessionsLoaded loaded) st = sessions_loaded loaded st"
| "fire NewProject st = handleNewProject st"
| "fire (SelectSession sid) st = handleSelectSession sid st"
| "fire (DeleteSession sid) st = handleDeleteSession sid st"
| "fire (SceneImageUpload b n1 n2 f) st = handleSceneImageUpload b n1 n2 f st"
| "fire (InstantStart b n1 n2) st = handleInstantStart b n1 n2 st"
| "fire (Generate b n) st = handleGenerate b n st"
| "fire (RotateView b n d) st = handleRotateView b n d st"
| "fire RevertToOriginal st = handleRevertToOriginal st"
| "fire (SaveSketch b n url) st = handleSaveSketch b n url st"
| "fire (SaveCanvasEdit b f) st = handleSaveCanvasEdit b f st"
| "fire Undo st = handleUndo st"
| "fire Redo st = handleRedo st"
| "fire RemoveSketch st = handleRemoveSketch st"
| "fire RemoveProduct st = handleRemoveProduct st"
| "fire RemoveBackground st = handleRemoveBackground st"
| "fire (AddCustomProduct f) st = handleAddCustomProduct f st"
| "fire (AddCustomBackground f) st = handleAddCustomBackground f st"
| "fire (SetPrompt p) st = st\<lparr>prompt := p\<rparr>"
| "fire OpenDrawingModal st = st\<lparr>isDrawingModalOpen := True\<rparr>"
| "fire OpenAddProductModal st = st\<lparr>isAddProductModalOpen := True\<rparr>"
| "fire OpenAddBackgroundModal st = st\<lparr>isAddBackgroundModalOpen := True\<rparr>"

inductive reachable :: "app_state \<Rightarrow> bool" where
  reachable_initial: "reachable initial_state"
| reachable_fire: "reachable st \<Longrightarrow> reachable (fire ev st)"
| reachable_render: "reachable st \<Longrightarrow> reachable (render st)"
| reachable_memoise: "reachable st \<Longrightarrow> reachable (memoise st)"

subsection \<open>The cursor's range\<close>

definition cursor_in_range :: "app_state \<Rightarrow> bool" where
  "cursor_in_range st =
     (- 1 \<le> historyIndex st \<and> historyIndex st \<le> int (length (history st)) - 1)"

section \<open>Concrete inputs\<close>

text \<open>A response that carries one image, and one that carries only text.\<close>

definition example_image_response :: response where
  "example_image_response =
     \<lparr>candidates = Some [\<lparr>content = Some \<lparr>parts = Some
        [\<lparr>inlineData = Some \<lparr>mimeType = ''image/png'', data = ''iVBORw0KGgo=''\<rparr>,
          part_text = None\<rparr>]\<rparr>\<rparr>]\<rparr>"

definition example_text_response :: response where
  "example_text_response =
     \<lparr>candidates = Some [\<lparr>content = Some \<lparr>parts = Some
        [\<lparr>inlineData = None, part_text = Some ''I cannot edit this image.''\<rparr>]\<rparr>\<rparr>]\<rparr>"

text \<open>A browser in which every call succeeds, and the model answers with the given response.\<close>

definition example_boundary :: "response \<Rightarrow> boundary" where
  "example_boundary resp =
     \<lparr>resizeImage = (\<lambda>f n. Inr (File (file_bits f) (file_name f) ''image/jpeg'')),
      readAsDataURL = (\<lambda>f. Inr (''data:'' @ file_type f @ '';base64,'' @ file_bits f)),
      generateContent = (\<lambda>ps. Inr resp),
      cropToOriginalAspectRatio = (\<lambda>url w h s. Inr url),
      fetchBlob = (\<lambda>url. Inr url),
      getImageDimensions = (\<lambda>f. Inr \<lparr>width = 512, height = 256\<rparr>)\<rparr>"

definition example_scene :: file_obj where
  "example_scene = File ''AAAA'' ''house.png'' ''image/png''"

definition example_product :: file_obj where
  "example_product = File ''BBBB'' ''bench.png'' ''image/png''"

definition example_background :: file_obj where
  "example_background = File ''CCCC'' ''beach.jpeg'' ''image/jpeg''"

definition example_sketch :: file_obj where
  "example_sketch = File ''DDDD'' ''sketch-7.png'' ''image/png''"

text \<open>One session with three generated images, the last one on screen, as rendered.\<close>

definition example_generations :: "file_obj list" where
  "example_generations =
     [File ''G1'' ''generated-scene-1.jpeg'' ''image/jpeg'',
      File ''G2'' ''generated-scene-2.jpeg'' ''image/jpeg'',
      File ''G3'' ''rotated-scene-3.jpeg'' ''image/jpeg'']"

definition example_session :: designSession where
  "example_session =
     \<lparr>session_id = ''1762160400000'', session_name = ''Design 1'',
      session_timestamp = 1762160400000, session_thumbnail = ''data:image/png;base64,AAAA'',
      session_sceneImage = example_scene,
      session_originalDimensions = \<lparr>width = 512, height = 256\<rparr>,
      session_generations = example_generations\<rparr>"

definition example_state :: app_state where
  "example_state =
     initial_state
       \<lparr>sessions := [example_session], activeSessionId := Some ''1762160400000'',
        sessionsLoaded := True, sceneImage := Some example_scene,
        history := example_generations, historyIndex := 2,
        prompt := ''add a stone path'',
        originalDimensions := Some \<lparr>width = 512, height = 256\<rparr>,
        rotateView_deps :=
          (Some (File ''G3'' ''rotated-scene-3.jpeg'' ''image/jpeg''),
           Some \<lparr>width = 512, height = 256\<rparr>, Some ''1762160400000''),
        rotateView_history := example_generations, rotateView_historyIndex := 2\<rparr>"

text \<open>The image that a rotation at clock reading 8 brings back from
  \<open>example_image_response\<close>.\<close>

definition example_rotated :: file_obj where
  "example_rotated =
     File ''data:image/png;base64,iVBORw0KGgo='' ''rotated-scene-8.jpeg'' ''image/jpeg''"

text \<open>From \<open>example_state\<close> the user saves a sketch and then steps back twice; React renders
  after each of the three.\<close>

definition sketched_then_undone :: app_state where
  "sketched_then_undone =
     render (fire Undo (render (fire Undo (render
       (fire (SaveSketch (example_boundary example_image_response) 7 ''DDDD'') example_state)))))"

section \<open>Auxiliary facts\<close>

lemma await_Inr_iff: "await p rest = Inr y \<longleftrightarrow> (\<exists>x. p = Inr x \<and> rest x = Inr y)"
  by (cases p) (simp_all add: await_def)

lemma await_Inr: "await (Inr x) rest = rest x"
  by (simp add: await_def)

lemma await_Inl: "await (Inl e) rest = Inl e"
  by (simp add: await_def)

lemma example_boundary_simps:
  "resizeImage (example_boundary resp) f n = Inr (File (file_bits f) (file_name f) ''image/jpeg'')"
  "readAsDataURL (example_boundary resp) f = Inr (''data:'' @ file_type f @ '';base64,'' @ file_bits f)"
  "generateContent (example_boundary resp) ps = Inr resp"
  "cropToOriginalAspectRatio (example_boundary resp) url w h s = Inr url"
  "fetchBlob (example_boundary resp) url = Inr url"
  "getImageDimensions (example_boundary resp) f = Inr \<lparr>width = 512, height = 256\<rparr>"
  by (simp_all add: example_boundary_def)

lemma example_state_fields:
  "history example_state = example_generations"
  "historyIndex example_state = 2"
  "sessions example_state = [example_session]"
  "activeSessionId example_state = Some ''1762160400000''"
  "sceneImage example_state = Some example_scene"
  "sketchedImage example_state = None"
  "productImage example_state = None"
  "backgroundImage example_state = None"
  "prompt example_state = ''add a stone path''"
  "originalDimensions example_state = Some \<lparr>width = 512, height = 256\<rparr>"
  "rotateView_history example_state = example_generations"
  "rotateView_historyIndex example_state = 2"
  by (simp_all add: example_state_def initial_state_def)

section \<open>Rounding to a double\<close>

text \<open>
  \<open>exponent\<close> names the binade of a positive real. On the positive reals \<open>to_double\<close> is
  monotone, stays in the closed binade of its argument, leaves every \<open>m * 2 powi k\<close> with
  \<open>0 < m < 2 ^ 53\<close> as it is, and moves its argument by at most the \<open>2 ^ 53\<close>-th part of
  it.
\<close>

lemma exponent_bounds:
  assumes "0 < x"
  shows "2 powi (exponent x) \<le> x" and "x < 2 powi (exponent x + 1)"
proof -
  have both: "2 powi (exponent x) \<le> x \<and> x < 2 powi (exponent x + 1)"
  proof (cases "1 \<le> x")
    case True
    define n where "n = nat \<lfloor>x\<rfloor>"
    have n: "0 < n" "real n \<le> x" "x < real n + 1"
      using True by (simp_all add: n_def)
    from floorlog_bounds [of n 2] n(1)
    have b: "2 ^ (floorlog 2 n - 1) \<le> n" "n < 2 ^ floorlog 2 n" by simp_all
    have pos: "0 < floorlog 2 n" using n(1) by (simp add: floorlog_def)
    have e: "exponent x = int (floorlog 2 n - 1)"
      using True pos by (simp add: exponent_def n_def)
    have "real (2 ^ (floorlog 2 n - 1)) \<le> real n" using b(1) by (simp only: of_nat_le_iff)
    then have "(2::real) ^ (floorlog 2 n - 1) \<le> real n" by simp
    with n(2) have lo: "(2::real) ^ (floorlog 2 n - 1) \<le> x" by linarith
    have "n + 1 \<le> 2 ^ floorlog 2 n" using b(2) by simp
    then have "real (n + 1) \<le> real (2 ^ floorlog 2 n)" by (simp only: of_nat_le_iff)
    then have "real n + 1 \<le> (2::real) ^ floorlog 2 n" by simp
    with n(3) have hi: "x < (2::real) ^ floorlog 2 n" by linarith
    have e1: "exponent x + 1 = int (floorlog 2 n)" using e pos by simp
    have p0: "(2::real) powi (exponent x) = 2 ^ (floorlog 2 n - 1)"
      by (simp only: e power_int_of_nat)
    have p1: "(2::real) powi (exponent x + 1) = 2 ^ floorlog 2 n"
      by (simp only: e1 power_int_of_nat)
    from lo hi show ?thesis unfolding p0 p1 by simp
  next
    case False
    with assms have y: "1 < 1 / x" by simp
    define n where "n = nat \<lceil>1 / x\<rceil> - 1"
    have c: "2 \<le> \<lceil>1 / x\<rceil>" using y by linarith
    then have n: "0 < n" "real n < 1 / x" "1 / x \<le> real n + 1"
      by (simp_all add: n_def) linarith+
    from floorlog_bounds [of n 2] n(1)
    have b: "2 ^ (floorlog 2 n - 1) \<le> n" "n < 2 ^ floorlog 2 n" by simp_all
    have pos: "0 < floorlog 2 n" using n(1) by (simp add: floorlog_def)
    have e: "exponent x = - int (floorlog 2 n)"
      using False by (simp add: exponent_def n_def)
    have "n + 1 \<le> 2 ^ floorlog 2 n" using b(2) by simp
    then have "real (n + 1) \<le> real (2 ^ floorlog 2 n)" by (simp only: of_nat_le_iff)
    then have "real n + 1 \<le> (2::real) ^ floorlog 2 n" by simp
    with n(3) have "1 / x \<le> (2::real) ^ floorlog 2 n" by linarith
    then have lo: "1 / (2::real) ^ floorlog 2 n \<le> x"
      using assms by (simp add: field_simps)
    have "real (2 ^ (floorlog 2 n - 1)) \<le> real n" using b(1) by (simp only: of_nat_le_iff)
    then have "(2::real) ^ (floorlog 2 n - 1) \<le> real n" by simp
    with n(2) have "(2::real) ^ (floorlog 2 n - 1) < 1 / x" by linarith
    then have hi: "x < 1 / (2::real) ^ (floorlog 2 n - 1)"
      using assms by (simp add: field_simps)
    have e1: "exponent x + 1 = - int (floorlog 2 n - 1)" using e pos by simp
    have p0: "(2::real) powi (exponent x) = 1 / 2 ^ floorlog 2 n"
      by (simp only: e power_int_minus_divide power_int_of_nat)
    have p1: "(2::real) powi (exponent x + 1) = 1 / 2 ^ (floorlog 2 n - 1)"
      by (simp only: e1 power_int_minus_divide power_int_of_nat)
    from lo hi show ?thesis unfolding p0 p1 by simp
  qed
  from both show "2 powi (exponent x) \<le> x" and "x < 2 powi (exponent x + 1)" by simp_all
qed

lemma pow2_less_iff: "(2::real) powi m < 2 powi n \<longleftrightarrow> m < n"
proof
  assume l: "(2::real) powi m < 2 powi n"
  show "m < n"
  proof (rule ccontr)
    assume "\<not> m < n"
    then have "n \<le> m" by simp
    then have "(2::real) powi n \<le> 2 powi m" by (intro power_int_increasing) simp_all
    with l show False by simp
  qed
next
  assume "m < n"
  then show "(2::real) powi m < 2 powi n" by (intro power_int_strict_increasing) simp_all
qed

lemma pow2_le_iff: "(2::real) powi m \<le> 2 powi n \<longleftrightarrow> m \<le> n"
  using pow2_less_iff [of n m] by (simp add: not_less [symmetric])

lemma exponent_eqI:
  assumes "2 powi e \<le> x" and "x < 2 powi (e + 1)"
  shows "exponent x = e"
proof -
  have "0 < (2::real) powi e" by simp
  with assms(1) have pos: "0 < x" by linarith
  note b = exponent_bounds [OF pos]
  have "(2::real) powi e < 2 powi (exponent x + 1)" using assms(1) b(2) by simp
  then have 1: "e < exponent x + 1" by (simp only: pow2_less_iff)
  have "(2::real) powi (exponent x) < 2 powi (e + 1)" using assms(2) b(1) by simp
  then have 2: "exponent x < e + 1" by (simp only: pow2_less_iff)
  from 1 2 show ?thesis by simp
qed

lemma round_half_even_cases:
  "round_half_even q = \<lfloor>q\<rfloor> \<or> round_half_even q = \<lfloor>q\<rfloor> + 1"
  by (simp add: round_half_even_def Let_def)

lemma round_half_even_lower: "of_int n \<le> q \<Longrightarrow> n \<le> round_half_even q"
proof -
  assume "of_int n \<le> q"
  then have "n \<le> \<lfloor>q\<rfloor>" by (simp add: le_floor_iff)
  with round_half_even_cases [of q] show ?thesis by auto
qed

lemma round_half_even_of_int: "round_half_even (of_int n) = n"
  by (simp add: round_half_even_def)

lemma round_half_even_upper:
  assumes "q \<le> of_int n"
  shows "round_half_even q \<le> n"
proof (cases "q = of_int n")
  case True
  then show ?thesis by (simp add: round_half_even_of_int)
next
  case False
  with assms have "q < of_int n" by simp
  then have "\<lfloor>q\<rfloor> < n" by (simp add: floor_less_iff)
  with round_half_even_cases [of q] show ?thesis by auto
qed

lemma round_half_even_error: "\<bar>of_int (round_half_even q) - q\<bar> \<le> 1 / 2"
proof -
  have "of_int \<lfloor>q\<rfloor> \<le> q" "q < of_int \<lfloor>q\<rfloor> + 1" by linarith+
  then show ?thesis by (auto simp add: round_half_even_def Let_def)
qed

lemma round_half_even_mono:
  assumes "q \<le> q'"
  shows "round_half_even q \<le> round_half_even q'"
proof (cases "\<lfloor>q\<rfloor> = \<lfloor>q'\<rfloor>")
  case True
  with assms show ?thesis by (auto simp add: round_half_even_def Let_def)
next
  case False
  with assms have "\<lfloor>q\<rfloor> + 1 \<le> \<lfloor>q'\<rfloor>" using floor_mono [OF assms] by simp
  moreover have "round_half_even q \<le> \<lfloor>q\<rfloor> + 1" using round_half_even_cases [of q] by auto
  moreover have "\<lfloor>q'\<rfloor> \<le> round_half_even q'" using round_half_even_cases [of q'] by auto
  ultimately show ?thesis by simp
qed

lemma to_double_pos:
  "0 < x \<Longrightarrow>
   to_double x = of_int (round_half_even (x / 2 powi (exponent x - 52))) * 2 powi (exponent x - 52)"
  by (simp add: to_double_def Let_def)

lemma scaled_bounds:
  assumes "0 < x"
  shows "2 ^ 52 \<le> x / 2 powi (exponent x - 52)" and "x / 2 powi (exponent x - 52) < 2 ^ 53"
proof -
  have u: "(2::real) powi (exponent x - 52) * 2 ^ 52 = 2 powi (exponent x)"
    "(2::real) powi (exponent x - 52) * 2 ^ 53 = 2 powi (exponent x + 1)"
    by (simp_all add: power_int_diff power_int_add)
  have pos: "0 < (2::real) powi (exponent x - 52)" by simp
  show "2 ^ 52 \<le> x / 2 powi (exponent x - 52)"
    using exponent_bounds(1) [OF assms] u(1) pos by (simp add: pos_le_divide_eq mult.commute)
  show "x / 2 powi (exponent x - 52) < 2 ^ 53"
    using exponent_bounds(2) [OF assms] u(2) pos by (simp add: pos_divide_less_eq mult.commute)
qed

lemma to_double_binade:
  assumes "0 < x"
  shows "2 powi (exponent x) \<le> to_double x" and "to_double x \<le> 2 powi (exponent x + 1)"
proof -
  let ?u = "(2::real) powi (exponent x - 52)"
  let ?n = "round_half_even (x / ?u)"
  have pos: "0 < ?u" by simp
  have "(2::int) ^ 52 \<le> ?n"
    using scaled_bounds(1) [OF assms] by (intro round_half_even_lower) simp
  then have "(2::real) ^ 52 \<le> of_int ?n" by (metis of_int_le_iff of_int_numeral of_int_power)
  then have "2 ^ 52 * ?u \<le> of_int ?n * ?u" using pos by (simp only: mult_le_cancel_right_pos)
  moreover have "2 ^ 52 * ?u = 2 powi (exponent x)" by (simp add: power_int_diff)
  ultimately show "2 powi (exponent x) \<le> to_double x" by (simp only: to_double_pos [OF assms])
  have "?n \<le> (2::int) ^ 53"
    using scaled_bounds(2) [OF assms] by (intro round_half_even_upper) simp
  then have "of_int ?n \<le> (2::real) ^ 53" by (metis of_int_le_iff of_int_numeral of_int_power)
  then have "of_int ?n * ?u \<le> 2 ^ 53 * ?u" using pos by (simp only: mult_le_cancel_right_pos)
  moreover have "2 ^ 53 * ?u = 2 powi (exponent x + 1)" by (simp add: power_int_diff power_int_add)
  ultimately show "to_double x \<le> 2 powi (exponent x + 1)" by (simp only: to_double_pos [OF assms])
qed

lemma exponent_mono:
  assumes "0 < x" and "x \<le> y"
  shows "exponent x \<le> exponent y"
proof -
  have "0 < y" using assms by simp
  from exponent_bounds(1) [OF assms(1)] exponent_bounds(2) [OF \<open>0 < y\<close>] assms(2)
  have "(2::real) powi (exponent x) < 2 powi (exponent y + 1)" by simp
  then show ?thesis by (simp add: pow2_less_iff)
qed

lemma to_double_mono:
  assumes "0 < x" and "x \<le> y"
  shows "to_double x \<le> to_double y"
proof (cases "exponent x = exponent y")
  case True
  have y: "0 < y" using assms by simp
  let ?u = "(2::real) powi (exponent x - 52)"
  have pos: "0 < ?u" by simp
  have "x / ?u \<le> y / ?u" using assms(2) pos by (simp add: divide_right_mono)
  then have "round_half_even (x / ?u) \<le> round_half_even (y / ?u)" by (rule round_half_even_mono)
  then have "of_int (round_half_even (x / ?u)) * ?u \<le> of_int (round_half_even (y / ?u)) * ?u"
    using pos by simp
  then show ?thesis by (simp only: to_double_pos [OF assms(1)] to_double_pos [OF y] True)
next
  case False
  have y: "0 < y" using assms by simp
  from False exponent_mono [OF assms] have "exponent x + 1 \<le> exponent y" by simp
  then have "(2::real) powi (exponent x + 1) \<le> 2 powi (exponent y)" by (simp add: pow2_le_iff)
  with to_double_binade(2) [OF assms(1)] to_double_binade(1) [OF y] show ?thesis by linarith
qed

lemma to_double_exact:
  assumes "0 < m" and "m < 2 ^ 53"
  shows "to_double (of_int m * 2 powi k) = of_int m * 2 powi k"
proof -
  let ?x = "of_int m * (2::real) powi k"
  have x: "0 < ?x" using assms(1) by simp
  let ?e = "exponent ?x"
  have "of_int m < (2::real) ^ 53" using assms(2) by (metis of_int_less_iff of_int_numeral of_int_power)
  then have "?x < 2 ^ 53 * 2 powi k" by simp
  also have "\<dots> = 2 powi (53 + k)" by (simp add: power_int_add)
  finally have "(2::real) powi ?e < 2 powi (53 + k)" using exponent_bounds(1) [OF x] by simp
  then have "?e < 53 + k" by (simp only: pow2_less_iff)
  then have d: "0 \<le> k - ?e + 52" by simp
  have "?x / 2 powi (?e - 52) = of_int m * 2 powi (k - ?e + 52)"
    by (simp add: power_int_diff power_int_add field_simps)
  also have "\<dots> = of_int m * 2 ^ nat (k - ?e + 52)" using d by (simp add: power_int_def)
  also have "\<dots> = of_int (m * 2 ^ nat (k - ?e + 52))" by simp
  finally have q: "?x / 2 powi (?e - 52) = of_int (m * 2 ^ nat (k - ?e + 52))" .
  have "to_double ?x = of_int (m * 2 ^ nat (k - ?e + 52)) * 2 powi (?e - 52)"
    by (simp only: to_double_pos [OF x] q round_half_even_of_int)
  also have "\<dots> = ?x / 2 powi (?e - 52) * 2 powi (?e - 52)" by (simp only: q)
  also have "\<dots> = ?x" by simp
  finally show ?thesis .
qed

lemma to_double_nat: "n < 2 ^ 53 \<Longrightarrow> to_double (real n) = real n"
proof (cases "n = 0")
  case True
  then show ?thesis by (simp add: to_double_def)
next
  case False
  assume "n < 2 ^ 53"
  then have "int n < 2 ^ 53" by (metis of_nat_less_iff of_nat_numeral of_nat_power)
  with False to_double_exact [of "int n" 0] show ?thesis by simp
qed

lemma to_double_error:
  assumes "0 < x"
  shows "\<bar>to_double x - x\<bar> \<le> x / 2 ^ 53"
proof -
  let ?u = "(2::real) powi (exponent x - 52)"
  have pos: "0 < ?u" by simp
  have "\<bar>of_int (round_half_even (x / ?u)) - x / ?u\<bar> \<le> 1 / 2" by (rule round_half_even_error)
  then have "\<bar>of_int (round_half_even (x / ?u)) - x / ?u\<bar> * ?u \<le> 1 / 2 * ?u"
    using pos by (simp only: mult_le_cancel_right_pos)
  moreover have "\<bar>of_int (round_half_even (x / ?u)) - x / ?u\<bar> * ?u = \<bar>to_double x - x\<bar>"
  proof -
    have "\<bar>of_int (round_half_even (x / ?u)) - x / ?u\<bar> * ?u
            = \<bar>(of_int (round_half_even (x / ?u)) - x / ?u) * ?u\<bar>"
      using pos by (simp add: abs_mult)
    also have "(of_int (round_half_even (x / ?u)) - x / ?u) * ?u = to_double x - x"
      by (simp add: to_double_pos [OF assms] left_diff_distrib)
    finally show ?thesis .
  qed
  moreover have "1 / 2 * ?u \<le> x / 2 ^ 53"
  proof -
    have "1 / 2 * ?u = 2 powi (exponent x) / 2 ^ 53" by (simp add: power_int_diff)
    also have "\<dots> \<le> x / 2 ^ 53" using exponent_bounds(1) [OF assms] by (simp add: divide_right_mono)
    finally show ?thesis .
  qed
  ultimately show ?thesis by linarith
qed

lemma to_double_0: "to_double 0 = 0"
  by (simp add: to_double_def)

lemma to_double_nonneg: "0 \<le> x \<Longrightarrow> 0 \<le> to_double x"
proof (cases "x = 0")
  case True
  then show ?thesis by (simp add: to_double_0)
next
  case False
  assume "0 \<le> x"
  with False have x: "0 < x" by simp
  have "0 < (2::real) powi (exponent x)" by simp
  with to_double_binade(1) [OF x] show ?thesis by linarith
qed

lemma to_double_le:
  assumes "0 < x" and "x \<le> real n" and "n < 2 ^ 53"
  shows "to_double x \<le> real n"
  using to_double_mono [OF assms(1,2)] to_double_nat [OF assms(3)] by simp

lemma to_double_ge:
  assumes "0 < m" and "m < 2 ^ 53" and "of_int m * 2 powi k \<le> x"
  shows "of_int m * 2 powi k \<le> to_double x"
proof -
  have "0 < of_int m * (2::real) powi k" using assms(1) by simp
  from to_double_mono [OF this assms(3)] to_double_exact [OF assms(1,2), of k]
  show ?thesis by simp
qed

lemma to_double_ge_1: "1 \<le> x \<Longrightarrow> 1 \<le> to_double x"
  using to_double_ge [of 1 0 x] by simp

lemma to_double_eval:
  assumes "2 powi e \<le> x" and "x < 2 powi (e + 1)"
    and "round_half_even (x / 2 powi (e - 52)) = n"
  shows "to_double x = of_int n * 2 powi (e - 52)"
proof -
  have "0 < (2::real) powi e" by simp
  with assms(1) have pos: "0 < x" by linarith
  show ?thesis
    by (simp only: to_double_pos [OF pos] exponent_eqI [OF assms(1,2)] assms(3))
qed

section \<open>Round trip of the geometry\<close>

lemma canvas_dimension_floor:
  assumes "0 \<le> c" and "c \<le> 1024"
  shows "canvas_dimension fallback c = nat \<lfloor>c\<rfloor>"
proof -
  have "\<lfloor>c\<rfloor> \<le> 1024" using assms(2) by (simp add: floor_le_iff)
  moreover have "0 \<le> \<lfloor>c\<rfloor>" using assms(1) by simp
  ultimately have "\<lfloor>c\<rfloor> mod 2 ^ 32 = \<lfloor>c\<rfloor>" by simp
  moreover have "nat \<lfloor>c\<rfloor> < 2 ^ 31"
  proof -
    have "nat \<lfloor>c\<rfloor> \<le> 1024" using \<open>\<lfloor>c\<rfloor> \<le> 1024\<close> by (simp add: nat_le_iff)
    then show ?thesis by simp
  qed
  ultimately show ?thesis using assms(1) by (simp add: canvas_dimension_def to_unsigned_long_def)
qed

lemma floor_near_quotient:
  fixes c :: real and n d :: nat
  assumes "0 < d" and "d < 2 ^ 32" and "\<bar>c - real n / real d\<bar> \<le> 1 / 2 ^ 42"
  shows "\<lfloor>c\<rfloor> = int (n div d) \<or> \<lfloor>c\<rfloor> = int (n div d) - 1"
proof -
  define k where "k = n div d"
  define r where "r = n mod d"
  define y where "y = real r / real d"
  define t where "t = 1 / real d"
  define eps where "eps = (1::real) / 2 ^ 42"
  have n: "n = k * d + r" and r: "r < d" using assms(1) by (simp_all add: k_def r_def)
  have dpos: "0 < real d" using assms(1) by simp
  have q: "real n / real d = real k + y"
    using dpos by (simp add: n y_def field_simps)
  have "r + 1 \<le> d" using r by simp
  then have "real (r + 1) \<le> real d" by (simp only: of_nat_le_iff)
  then have "real r + 1 \<le> real d" by simp
  then have y1: "y \<le> 1 - t" using dpos by (simp add: y_def t_def field_simps)
  have y0: "0 \<le> y" by (simp add: y_def)
  have "real d < 2 ^ 32" using assms(2) by (metis of_nat_less_iff of_nat_numeral of_nat_power)
  then have "real d < 2 ^ 42" by simp
  then have et: "eps < t" using dpos by (simp add: eps_def t_def field_simps)
  have e1: "eps < 1" by (simp add: eps_def)
  have "\<bar>c - (real k + y)\<bar> \<le> eps" using assms(3) by (simp only: q eps_def)
  then have "c - (real k + y) \<le> eps" "- (c - (real k + y)) \<le> eps"
    by (simp_all only: abs_le_iff)
  with y0 y1 et e1 have lo: "real k - 1 < c" and hi: "c < real k + 1" by linarith+
  from lo have "of_int (int k - 1) \<le> c" by simp
  then have "int k - 1 \<le> \<lfloor>c\<rfloor>" by (simp only: le_floor_iff)
  moreover from hi have "c < of_int (int k + 1)" by simp
  then have "\<lfloor>c\<rfloor> < int k + 1" by (simp only: floor_less_iff)
  ultimately show ?thesis unfolding k_def by linarith
qed

lemma real_of_nat_less_pow: "n < 2 ^ k \<Longrightarrow> real n < 2 ^ k"
  by (metis of_nat_less_iff of_nat_numeral of_nat_power)

lemma abs_scale: "\<bar>1024 * x\<bar> = 1024 * \<bar>x::real\<bar>"
  by (simp add: abs_mult)

lemma aspect_error:
  assumes "0 < w" and "0 < h"
  shows "\<bar>js_div (real w) (real h) - real w / real h\<bar> \<le> (real w / real h) / 2 ^ 53"
    and "0 < js_div (real w) (real h)"
proof -
  have pos: "0 < real w / real h" using assms by simp
  show "\<bar>js_div (real w) (real h) - real w / real h\<bar> \<le> (real w / real h) / 2 ^ 53"
    unfolding js_div_def by (rule to_double_error [OF pos])
  have "0 < (2::real) powi (exponent (real w / real h))" by simp
  with to_double_binade(1) [OF pos] show "0 < js_div (real w) (real h)"
    unfolding js_div_def by linarith
qed

lemma aspect_landscape:
  assumes "0 < h" and "h < w" and "h < 2 ^ 32"
  shows "1 < js_div (real w) (real h)"
proof -
  have hpos: "0 < real h" using assms(1) by simp
  have "h + 1 \<le> w" using assms(2) by simp
  then have "real (h + 1) \<le> real w" by (simp only: of_nat_le_iff)
  then have "real h + 1 \<le> real w" by simp
  then have "(real h + 1) / real h \<le> real w / real h"
    using hpos by (intro divide_right_mono) simp_all
  moreover have "(real h + 1) / real h = 1 + 1 / real h"
    using hpos by (simp add: add_divide_distrib)
  ultimately have 1: "1 + 1 / real h \<le> real w / real h" by simp
  have "real h < 2 ^ 32" using assms(3) by (rule real_of_nat_less_pow)
  then have 2: "1 / 2 ^ 32 < 1 / real h" using hpos by (simp add: field_simps)
  have "of_int (2 ^ 32 + 1) * 2 powi (- 32) = (1::real) + 1 / 2 ^ 32"
    by (simp add: power_int_minus_divide)
  with 1 2 have "of_int (2 ^ 32 + 1) * 2 powi (- 32) \<le> real w / real h"
    by linarith
  then have "of_int (2 ^ 32 + 1) * 2 powi (- 32) \<le> js_div (real w) (real h)"
    unfolding js_div_def by (intro to_double_ge) simp_all
  moreover have "(1::real) < of_int (2 ^ 32 + 1) * 2 powi (- 32)"
    by (simp add: power_int_minus_divide)
  ultimately show ?thesis by linarith
qed

lemma aspect_portrait:
  assumes "0 < w" and "w \<le> h"
  shows "js_div (real w) (real h) \<le> 1"
proof -
  have "0 < real w / real h" "real w / real h \<le> real 1" using assms by simp_all
  then have "to_double (real w / real h) \<le> real 1" by (rule to_double_le) simp
  then show ?thesis by (simp add: js_div_def)
qed

text \<open>The shorter edge of a landscape image: \<open>targetDimension / aspectRatio\<close>.\<close>

lemma short_edge_landscape:
  assumes "0 < h" and "h < w" and "w < 2 ^ 32"
  defines "a \<equiv> js_div (real w) (real h)"
  defines "c \<equiv> js_div 1024 a"
  shows "\<bar>c - real (1024 * h) / real w\<bar> \<le> 1 / 2 ^ 42"
    and "0 < c" and "c \<le> 1024" and "w \<le> 1024 * h \<Longrightarrow> 1 \<le> c"
proof -
  have w: "0 < w" and h32: "h < 2 ^ 32" using assms(1,2,3) by simp_all
  define r where "r = real w / real h"
  have rpos: "0 < r" and r1: "1 < r" using assms(1,2) by (simp_all add: r_def)
  have a1: "1 < a" unfolding a_def by (rule aspect_landscape [OF assms(1,2) h32])
  have ae: "\<bar>a - r\<bar> \<le> r / 2 ^ 53"
    unfolding a_def r_def by (rule aspect_error(1) [OF w assms(1)])
  define y where "y = 1024 / a"
  have ypos: "0 < y" and y1024: "y \<le> 1024" using a1 by (simp_all add: y_def field_simps)
  have c: "c = to_double y" by (simp add: c_def y_def js_div_def)
  have ce: "\<bar>c - y\<bar> \<le> y / 2 ^ 53" unfolding c by (rule to_double_error [OF ypos])
  have "y / 2 ^ 53 \<le> 1024 / 2 ^ 53" using y1024 by (simp add: divide_right_mono)
  with ce have ce': "\<bar>c - y\<bar> \<le> 1 / 2 ^ 43" by simp
  have ye: "\<bar>y - 1024 / r\<bar> \<le> 1 / 2 ^ 43"
  proof -
    have "y - 1024 / r = 1024 * (r - a) / (a * r)"
      using a1 rpos by (simp add: y_def field_simps)
    then have "\<bar>y - 1024 / r\<bar> = \<bar>1024 * (r - a)\<bar> / \<bar>a * r\<bar>"
      by (simp only: abs_divide)
    also have "\<bar>1024 * (r - a)\<bar> = 1024 * \<bar>r - a\<bar>" by (rule abs_scale)
    also have "\<bar>a * r\<bar> = a * r" using a1 rpos by simp
    finally have "\<bar>y - 1024 / r\<bar> = 1024 * \<bar>r - a\<bar> / (a * r)" .
    also have "\<dots> \<le> 1024 * (r / 2 ^ 53) / (a * r)"
    proof -
      have "\<bar>r - a\<bar> \<le> r / 2 ^ 53" using ae by (simp add: abs_minus_commute)
      then have "1024 * \<bar>r - a\<bar> \<le> 1024 * (r / 2 ^ 53)" by simp
      moreover have "0 < a * r" using a1 rpos by simp
      ultimately show ?thesis by (simp only: divide_right_mono less_imp_le)
    qed
    also have "\<dots> = (1 / 2 ^ 43) / a" using rpos a1 by (simp add: field_simps)
    also have "\<dots> \<le> 1 / 2 ^ 43" using a1 by (simp add: field_simps)
    finally show ?thesis .
  qed
  have "1024 / r = real (1024 * h) / real w" using assms(1) w by (simp add: r_def)
  with ye have ye': "\<bar>y - real (1024 * h) / real w\<bar> \<le> 1 / 2 ^ 43" by simp
  have "\<bar>c - real (1024 * h) / real w\<bar> \<le> \<bar>c - y\<bar> + \<bar>y - real (1024 * h) / real w\<bar>"
    by linarith
  with ce' ye' show "\<bar>c - real (1024 * h) / real w\<bar> \<le> 1 / 2 ^ 42" by simp
  have "0 < (2::real) powi (exponent y)" by simp
  with to_double_binade(1) [OF ypos] show "0 < c" unfolding c by linarith
  have "to_double y \<le> real 1024" using ypos y1024 by (intro to_double_le) simp_all
  then show "c \<le> 1024" by (simp add: c)
  show "1 \<le> c" if "w \<le> 1024 * h"
  proof -
    have "real w \<le> real (1024 * h)" using that by (simp only: of_nat_le_iff)
    then have "r \<le> real 1024" using assms(1) by (simp add: r_def field_simps)
    then have "to_double r \<le> real 1024" using rpos by (intro to_double_le) simp_all
    then have "a \<le> 1024" by (simp add: a_def r_def js_div_def)
    then have "1 \<le> y" using a1 by (simp add: y_def field_simps)
    then show ?thesis unfolding c by (rule to_double_ge_1)
  qed
qed

text \<open>The shorter edge of a portrait or square image: \<open>targetDimension * aspectRatio\<close>.\<close>

lemma short_edge_portrait:
  assumes "0 < w" and "w \<le> h" and "h < 2 ^ 32"
  defines "a \<equiv> js_div (real w) (real h)"
  defines "c \<equiv> js_mul 1024 a"
  shows "\<bar>c - real (1024 * w) / real h\<bar> \<le> 1 / 2 ^ 42"
    and "0 < c" and "c \<le> 1024" and "h \<le> 1024 * w \<Longrightarrow> 1 \<le> c"
proof -
  have h: "0 < h" using assms(1,2) by simp
  define r where "r = real w / real h"
  have rpos: "0 < r" and r1: "r \<le> 1" using assms(1,2) by (simp_all add: r_def)
  have a1: "a \<le> 1" unfolding a_def by (rule aspect_portrait [OF assms(1,2)])
  have apos: "0 < a" unfolding a_def by (rule aspect_error(2) [OF assms(1) h])
  have ae: "\<bar>a - r\<bar> \<le> r / 2 ^ 53"
    unfolding a_def r_def by (rule aspect_error(1) [OF assms(1) h])
  define y where "y = 1024 * a"
  have ypos: "0 < y" and y1024: "y \<le> 1024" using a1 apos by (simp_all add: y_def)
  have c: "c = to_double y" by (simp add: c_def y_def js_mul_def)
  have ce: "\<bar>c - y\<bar> \<le> y / 2 ^ 53" unfolding c by (rule to_double_error [OF ypos])
  have "y / 2 ^ 53 \<le> 1024 / 2 ^ 53" using y1024 by (simp add: divide_right_mono)
  with ce have ce': "\<bar>c - y\<bar> \<le> 1 / 2 ^ 43" by simp
  have ye: "\<bar>y - 1024 * r\<bar> \<le> 1 / 2 ^ 43"
  proof -
    have "y - 1024 * r = 1024 * (a - r)" by (simp add: y_def right_diff_distrib)
    then have "\<bar>y - 1024 * r\<bar> = 1024 * \<bar>a - r\<bar>" by (simp only: abs_scale)
    also have "\<dots> \<le> 1024 * (r / 2 ^ 53)" using ae by simp
    also have "\<dots> \<le> 1024 * (1 / 2 ^ 53)" using r1 by (simp add: divide_right_mono)
    finally show ?thesis by simp
  qed
  have "1024 * r = real (1024 * w) / real h" by (simp add: r_def)
  with ye have ye': "\<bar>y - real (1024 * w) / real h\<bar> \<le> 1 / 2 ^ 43" by simp
  have "\<bar>c - real (1024 * w) / real h\<bar> \<le> \<bar>c - y\<bar> + \<bar>y - real (1024 * w) / real h\<bar>"
    by linarith
  with ce' ye' show "\<bar>c - real (1024 * w) / real h\<bar> \<le> 1 / 2 ^ 42" by simp
  have "0 < (2::real) powi (exponent y)" by simp
  with to_double_binade(1) [OF ypos] show "0 < c" unfolding c by linarith
  have "to_double y \<le> real 1024" using ypos y1024 by (intro to_double_le) simp_all
  then show "c \<le> 1024" by (simp add: c)
  show "1 \<le> c" if "h \<le> 1024 * w"
  proof -
    have "real h \<le> real (1024 * w)" using that by (simp only: of_nat_le_iff)
    then have "of_int 1 * 2 powi (- 10) \<le> r"
      using h by (simp add: r_def field_simps power_int_minus_divide)
    then have "of_int 1 * 2 powi (- 10) \<le> to_double r" by (intro to_double_ge) simp_all
    then have "1 / 1024 \<le> a" by (simp add: a_def r_def js_div_def power_int_minus_divide)
    then have "1 \<le> y" by (simp add: y_def)
    then show ?thesis unfolding c by (rule to_double_ge_1)
  qed
qed

lemma canvas_dimension_1024:
  "canvas_dimension fallback 1024 = 1024"
  using canvas_dimension_floor [of 1024 fallback] by simp

lemma js_offset_nonneg:
  assumes "c \<le> 1024"
  shows "0 \<le> js_div (js_sub 1024 c) 2"
proof -
  have "0 \<le> to_double (1024 - c)" using assms by (intro to_double_nonneg) simp
  then have "0 \<le> to_double (to_double (1024 - c) / 2)" by (intro to_double_nonneg) simp
  then show ?thesis by (simp add: js_div_def js_sub_def)
qed

lemma js_offset_zero: "js_div (js_sub 1024 1024) 2 = 0"
  by (simp add: js_div_def js_sub_def to_double_0)

lemma floor_within:
  assumes "0 \<le> c"
  shows "real (nat \<lfloor>c\<rfloor>) \<le> c" and "c < real (nat \<lfloor>c\<rfloor>) + 1"
proof -
  have "0 \<le> \<lfloor>c\<rfloor>" using assms by simp
  then have "real (nat \<lfloor>c\<rfloor>) = of_int \<lfloor>c\<rfloor>" by simp
  then show "real (nat \<lfloor>c\<rfloor>) \<le> c" and "c < real (nat \<lfloor>c\<rfloor>) + 1" by linarith+
qed

lemma nat_floor_near:
  assumes "0 \<le> c" and "\<lfloor>c\<rfloor> = int k \<or> \<lfloor>c\<rfloor> = int k - 1"
  shows "nat \<lfloor>c\<rfloor> = k \<or> nat \<lfloor>c\<rfloor> + 1 = k"
proof -
  have "0 \<le> \<lfloor>c\<rfloor>" using assms(1) by simp
  with assms(2) show ?thesis by auto
qed

lemma crop_landscape:
  assumes "0 < h" and "h < w" and "w < 2 ^ 32"
  defines "c \<equiv> js_div 1024 (js_div (real w) (real h))"
  shows "source (cropToOriginalAspectRatio_geometry w h MAX_DIMENSION)
           = \<lparr>rect_x = 0, rect_y = js_div (js_sub 1024 c) 2, rect_width = 1024, rect_height = c\<rparr>"
    and "out_width (cropToOriginalAspectRatio_geometry w h MAX_DIMENSION) = 1024"
    and "out_height (cropToOriginalAspectRatio_geometry w h MAX_DIMENSION) = nat \<lfloor>c\<rfloor>"
proof -
  have h32: "h < 2 ^ 32" using assms(2,3) by simp
  have a: "1 < js_div (real w) (real h)" by (rule aspect_landscape [OF assms(1,2) h32])
  note c = short_edge_landscape [OF assms(1,2,3)]
  show "source (cropToOriginalAspectRatio_geometry w h MAX_DIMENSION)
           = \<lparr>rect_x = 0, rect_y = js_div (js_sub 1024 c) 2, rect_width = 1024, rect_height = c\<rparr>"
    using a by (simp add: cropToOriginalAspectRatio_geometry_def MAX_DIMENSION_def Let_def
        js_offset_zero c_def)
  show "out_width (cropToOriginalAspectRatio_geometry w h MAX_DIMENSION) = 1024"
    using a by (simp add: cropToOriginalAspectRatio_geometry_def MAX_DIMENSION_def Let_def
        canvas_dimension_1024)
  have "canvas_dimension 150 c = nat \<lfloor>c\<rfloor>"
    unfolding c_def using c(2,3) by (intro canvas_dimension_floor) simp_all
  then show "out_height (cropToOriginalAspectRatio_geometry w h MAX_DIMENSION) = nat \<lfloor>c\<rfloor>"
    using a by (simp add: cropToOriginalAspectRatio_geometry_def MAX_DIMENSION_def Let_def c_def)
qed

lemma crop_portrait:
  assumes "0 < w" and "w \<le> h" and "h < 2 ^ 32"
  defines "c \<equiv> js_mul 1024 (js_div (real w) (real h))"
  shows "source (cropToOriginalAspectRatio_geometry w h MAX_DIMENSION)
           = \<lparr>rect_x = js_div (js_sub 1024 c) 2, rect_y = 0, rect_width = c, rect_height = 1024\<rparr>"
    and "out_width (cropToOriginalAspectRatio_geometry w h MAX_DIMENSION) = nat \<lfloor>c\<rfloor>"
    and "out_height (cropToOriginalAspectRatio_geometry w h MAX_DIMENSION) = 1024"
proof -
  have a: "\<not> 1 < js_div (real w) (real h)"
    using aspect_portrait [OF assms(1,2)] by simp
  note c = short_edge_portrait [OF assms(1,2,3)]
  show "source (cropToOriginalAspectRatio_geometry w h MAX_DIMENSION)
           = \<lparr>rect_x = js_div (js_sub 1024 c) 2, rect_y = 0, rect_width = c, rect_height = 1024\<rparr>"
    using a by (simp add: cropToOriginalAspectRatio_geometry_def MAX_DIMENSION_def Let_def
        js_offset_zero c_def)
  show "out_height (cropToOriginalAspectRatio_geometry w h MAX_DIMENSION) = 1024"
    using a by (simp add: cropToOriginalAspectRatio_geometry_def MAX_DIMENSION_def Let_def
        canvas_dimension_1024)
  have "canvas_dimension 300 c = nat \<lfloor>c\<rfloor>"
    unfolding c_def using c(2,3) by (intro canvas_dimension_floor) simp_all
  then show "out_width (cropToOriginalAspectRatio_geometry w h MAX_DIMENSION) = nat \<lfloor>c\<rfloor>"
    using a by (simp add: cropToOriginalAspectRatio_geometry_def MAX_DIMENSION_def Let_def c_def)
qed

lemma crop_source_eq_drawn:
  "source (cropToOriginalAspectRatio_geometry w h S) = drawn (resizeImage_geometry w h S)"
  by (simp add: cropToOriginalAspectRatio_geometry_def resizeImage_geometry_def Let_def)

lemma resize_canvas:
  "canvas_width (resizeImage_geometry w h MAX_DIMENSION) = 1024"
  "canvas_height (resizeImage_geometry w h MAX_DIMENSION) = 1024"
  by (simp_all add: resizeImage_geometry_def MAX_DIMENSION_def Let_def canvas_dimension_1024)

text \<open>The facts of the round trip for a landscape image, and for a portrait or square one.\<close>

lemma restore_landscape:
  assumes "0 < h" and "h < w" and "w < 2 ^ 32"
  defines "C \<equiv> cropToOriginalAspectRatio_geometry w h MAX_DIMENSION"
  shows "rect_x (source C) = 0" and "0 \<le> rect_y (source C)"
    and "rect_width (source C) = 1024"
    and "out_width C = 1024"
    and "real (out_height C) \<le> rect_height (source C)"
    and "rect_height (source C) < real (out_height C) + 1"
    and "out_height C = 1024 * h div w \<or> out_height C + 1 = 1024 * h div w"
    and "out_height C \<le> 1024"
    and "w \<le> 1024 * h \<Longrightarrow> 1 \<le> out_height C"
proof -
  define c where "c = js_div 1024 (js_div (real w) (real h))"
  note e = short_edge_landscape [OF assms(1,2,3), folded c_def]
  note f = crop_landscape [OF assms(1,2,3), folded c_def C_def]
  have w: "0 < w" using assms(1,2) by simp
  have c0: "0 \<le> c" using e(2) by simp
  show "rect_x (source C) = 0" "rect_width (source C) = 1024" "out_width C = 1024"
    by (simp_all add: f)
  show "0 \<le> rect_y (source C)" using js_offset_nonneg [OF e(3)] by (simp add: f)
  show "real (out_height C) \<le> rect_height (source C)"
    "rect_height (source C) < real (out_height C) + 1"
    using floor_within [OF c0] by (simp_all add: f)
  have "\<lfloor>c\<rfloor> = int (1024 * h div w) \<or> \<lfloor>c\<rfloor> = int (1024 * h div w) - 1"
    using w assms(3) e(1) by (rule floor_near_quotient)
  from nat_floor_near [OF c0 this]
  show "out_height C = 1024 * h div w \<or> out_height C + 1 = 1024 * h div w"
    by (simp add: f)
  have "\<lfloor>c\<rfloor> \<le> 1024" using e(3) by (simp add: floor_le_iff)
  then show "out_height C \<le> 1024" by (simp add: f nat_le_iff)
  show "1 \<le> out_height C" if "w \<le> 1024 * h"
  proof -
    have "1 \<le> \<lfloor>c\<rfloor>" using e(4) [OF that] by (simp add: le_floor_iff)
    then have "1 \<le> nat \<lfloor>c\<rfloor>" by linarith
    then show ?thesis by (simp only: f)
  qed
qed

lemma restore_portrait:
  assumes "0 < w" and "w \<le> h" and "h < 2 ^ 32"
  defines "C \<equiv> cropToOriginalAspectRatio_geometry w h MAX_DIMENSION"
  shows "rect_y (source C) = 0" and "0 \<le> rect_x (source C)"
    and "rect_height (source C) = 1024"
    and "out_height C = 1024"
    and "real (out_width C) \<le> rect_width (source C)"
    and "rect_width (source C) < real (out_width C) + 1"
    and "out_width C = 1024 * w div h \<or> out_width C + 1 = 1024 * w div h"
    and "out_width C \<le> 1024"
    and "h \<le> 1024 * w \<Longrightarrow> 1 \<le> out_width C"
proof -
  define c where "c = js_mul 1024 (js_div (real w) (real h))"
  note e = short_edge_portrait [OF assms(1,2,3), folded c_def]
  note f = crop_portrait [OF assms(1,2,3), folded c_def C_def]
  have h: "0 < h" using assms(1,2) by simp
  have c0: "0 \<le> c" using e(2) by simp
  show "rect_y (source C) = 0" "rect_height (source C) = 1024" "out_height C = 1024"
    by (simp_all add: f)
  show "0 \<le> rect_x (source C)" using js_offset_nonneg [OF e(3)] by (simp add: f)
  show "real (out_width C) \<le> rect_width (source C)"
    "rect_width (source C) < real (out_width C) + 1"
    using floor_within [OF c0] by (simp_all add: f)
  have "\<lfloor>c\<rfloor> = int (1024 * w div h) \<or> \<lfloor>c\<rfloor> = int (1024 * w div h) - 1"
    using h assms(3) e(1) by (rule floor_near_quotient)
  from nat_floor_near [OF c0 this]
  show "out_width C = 1024 * w div h \<or> out_width C + 1 = 1024 * w div h"
    by (simp add: f)
  have "\<lfloor>c\<rfloor> \<le> 1024" using e(3) by (simp add: floor_le_iff)
  then show "out_width C \<le> 1024" by (simp add: f nat_le_iff)
  show "1 \<le> out_width C" if "h \<le> 1024 * w"
  proof -
    have "1 \<le> \<lfloor>c\<rfloor>" using e(4) [OF that] by (simp add: le_floor_iff)
    then have "1 \<le> nat \<lfloor>c\<rfloor>" by linarith
    then show ?thesis by (simp only: f)
  qed
qed

lemma round_half_even_eqI:
  assumes "of_int n - 1 / 2 < q" and "q < of_int n + 1 / 2"
  shows "round_half_even q = n"
proof -
  have lo: "n \<le> round_half_even q"
  proof (rule ccontr)
    assume "\<not> n \<le> round_half_even q"
    then have "round_half_even q \<le> n - 1" by simp
    then have "(of_int (round_half_even q) :: real) \<le> of_int (n - 1)" by (simp only: of_int_le_iff)
    then have "of_int (round_half_even q) \<le> of_int n - (1::real)" by simp
    with round_half_even_error [of q] assms(1) show False by linarith
  qed
  have hi: "round_half_even q \<le> n"
  proof (rule ccontr)
    assume "\<not> round_half_even q \<le> n"
    then have "n + 1 \<le> round_half_even q" by simp
    then have "(of_int (n + 1) :: real) \<le> of_int (round_half_even q)" by (simp only: of_int_le_iff)
    then have "of_int n + (1::real) \<le> of_int (round_half_even q)" by simp
    with round_half_even_error [of q] assms(2) show False by linarith
  qed
  from lo hi show ?thesis by simp
qed

text \<open>The doubles met at an original of 512 by 256 pixels: all are exact.\<close>

lemma short_edge_512_256: "js_div 1024 (js_div (real 512) (real 256)) = 512"
proof -
  have "js_div (real 512) (real 256) = to_double (real 2)" by (simp add: js_div_def)
  also have "\<dots> = 2" using to_double_nat [of 2] by simp
  finally have a: "js_div (real 512) (real 256) = 2" .
  have "js_div 1024 2 = to_double (real 512)" by (simp add: js_div_def)
  also have "\<dots> = 512" using to_double_nat [of 512] by simp
  finally show ?thesis by (simp only: a)
qed

text \<open>The doubles met at an original of 1024 by 744 pixels: the aspect ratio \<open>1024 / 744\<close> is
  rounded down, and the quotient of 1024 by it is the double just below 744.\<close>

lemma aspect_1024_744:
  "js_div (real 1024) (real 744) = of_int 6198502712940038 * 2 powi (- 52)"
proof -
  have "to_double (1024 / 744) = of_int 6198502712940038 * 2 powi (0 - 52)"
  proof (rule to_double_eval)
    show "(2::real) powi 0 \<le> 1024 / 744" by simp
    show "(1024::real) / 744 < 2 powi (0 + 1)" by simp
    show "round_half_even (1024 / 744 / 2 powi (0 - 52)) = 6198502712940038"
      by (rule round_half_even_eqI) (simp_all add: power_int_minus_divide)
  qed
  then show ?thesis by (simp add: js_div_def)
qed

lemma short_edge_1024_744:
  "js_div 1024 (js_div (real 1024) (real 744)) = 744 - 1 / 2 ^ 43"
proof -
  have a: "of_int 6198502712940038 * 2 powi (- 52) = (6198502712940038::real) / 2 ^ 52"
    by (simp add: power_int_minus_divide)
  have "to_double (1024 / (6198502712940038 / 2 ^ 52))
          = of_int 6544293208522751 * 2 powi (9 - 52)"
  proof (rule to_double_eval)
    show "(2::real) powi 9 \<le> 1024 / (6198502712940038 / 2 ^ 52)" by simp
    show "(1024::real) / (6198502712940038 / 2 ^ 52) < 2 powi (9 + 1)" by simp
    show "round_half_even (1024 / (6198502712940038 / 2 ^ 52) / 2 powi (9 - 52))
            = 6544293208522751"
      by (rule round_half_even_eqI) (simp_all add: power_int_minus_divide)
  qed
  moreover have "of_int 6544293208522751 * 2 powi (9 - 52) = (744::real) - 1 / 2 ^ 43"
    by (simp add: power_int_minus_divide)
  ultimately have "to_double (1024 / (6198502712940038 / 2 ^ 52)) = 744 - 1 / 2 ^ 43"
    by (simp only:)
  moreover have "js_div (real 1024) (real 744) = 6198502712940038 / 2 ^ 52"
    by (simp only: aspect_1024_744 a)
  ultimately show ?thesis by (simp only: js_div_def [of 1024])
qed

lemma offset_1024_744:
  "js_div (js_sub 1024 (744 - 1 / 2 ^ 43)) 2 = 140 + 1 / 2 ^ 44"
proof -
  have "(1024::real) - (744 - 1 / 2 ^ 43) = of_int 2462906046218241 * 2 powi (- 43)"
    by (simp add: power_int_minus_divide)
  then have "js_sub 1024 (744 - 1 / 2 ^ 43) = of_int 2462906046218241 * 2 powi (- 43)"
    using to_double_exact [of 2462906046218241 "- 43"] by (simp only: js_sub_def) simp
  moreover have "of_int 2462906046218241 * 2 powi (- 43) / 2
                   = of_int 2462906046218241 * (2::real) powi (- 44)"
    by (simp add: power_int_minus_divide)
  ultimately have "js_div (js_sub 1024 (744 - 1 / 2 ^ 43)) 2
                     = of_int 2462906046218241 * 2 powi (- 44)"
    using to_double_exact [of 2462906046218241 "- 44"] by (simp only: js_div_def) simp
  moreover have "of_int 2462906046218241 * 2 powi (- 44) = (140::real) + 1 / 2 ^ 44"
    by (simp add: power_int_minus_divide)
  ultimately show ?thesis by simp
qed

lemma floor_below_744: "\<lfloor>(744::real) - 1 / 2 ^ 43\<rfloor> = 743"
  by (simp add: floor_eq_iff)

text \<open>
  Claim C1, as stated, fails: the restored image does not have the pixel dimensions of the
  original. An original of 512 by 256 pixels, letterboxed into the square of edge 1024 and
  cropped again, comes back as 1024 by 512 pixels.
\<close>

theorem restore_dimensions_counterexample:
  "max 512 256 \<le> MAX_DIMENSION
   \<and> out_width (cropToOriginalAspectRatio_geometry 512 256 MAX_DIMENSION) = 1024
   \<and> out_height (cropToOriginalAspectRatio_geometry 512 256 MAX_DIMENSION) = 512
   \<and> \<not> (out_width (cropToOriginalAspectRatio_geometry 512 256 MAX_DIMENSION) = 512
        \<and> out_height (cropToOriginalAspectRatio_geometry 512 256 MAX_DIMENSION) = 256)"
proof -
  have "out_width (cropToOriginalAspectRatio_geometry 512 256 MAX_DIMENSION) = 1024"
    by (rule crop_landscape(2)) simp_all
  moreover have "out_height (cropToOriginalAspectRatio_geometry 512 256 MAX_DIMENSION)
        = nat \<lfloor>js_div 1024 (js_div (real 512) (real 256))\<rfloor>"
    by (rule crop_landscape(3)) simp_all
  then have "out_height (cropToOriginalAspectRatio_geometry 512 256 MAX_DIMENSION) = 512"
    by (simp only: short_edge_512_256) simp
  ultimately show ?thesis by (simp add: MAX_DIMENSION_def)
qed

text \<open>
  Claim C1, amended: for an image of \<open>w \<times> h\<close> pixels (both positive, below \<open>2\<^sup>3\<^sup>2\<close>) and the
  square of edge \<open>MAX_DIMENSION = 1024\<close>, the rectangle that \<open>cropToOriginalAspectRatio\<close> cuts
  out is exactly the rectangle on which \<open>resizeImage\<close> drew the image, so the content
  rectangle is recovered; it starts inside the \<open>1024 \<times> 1024\<close> canvas, and the returned canvas
  is that rectangle with each extent truncated to whole pixels, so no padding is left. The
  restored image has the original aspect ratio at the scale of the square, not the original
  size: its longer edge is 1024 pixels, and its shorter edge is \<open>1024 * short div long\<close>
  pixels or, where the rounding of the two divisions falls below a whole number, one pixel
  less. The shorter edge is at least one pixel when the longer original edge is at most 1024
  times the shorter one.
\<close>

theorem restore_normalize_geometry:
  assumes "0 < w" and "w < 2 ^ 32" and "0 < h" and "h < 2 ^ 32"
  shows "source (cropToOriginalAspectRatio_geometry w h MAX_DIMENSION)
           = drawn (resizeImage_geometry w h MAX_DIMENSION)
       \<and> canvas_width (resizeImage_geometry w h MAX_DIMENSION) = MAX_DIMENSION
       \<and> canvas_height (resizeImage_geometry w h MAX_DIMENSION) = MAX_DIMENSION
       \<and> 0 \<le> rect_x (source (cropToOriginalAspectRatio_geometry w h MAX_DIMENSION))
       \<and> 0 \<le> rect_y (source (cropToOriginalAspectRatio_geometry w h MAX_DIMENSION))
       \<and> real (out_width (cropToOriginalAspectRatio_geometry w h MAX_DIMENSION))
           \<le> rect_width (source (cropToOriginalAspectRatio_geometry w h MAX_DIMENSION))
       \<and> rect_width (source (cropToOriginalAspectRatio_geometry w h MAX_DIMENSION))
           < real (out_width (cropToOriginalAspectRatio_geometry w h MAX_DIMENSION)) + 1
       \<and> real (out_height (cropToOriginalAspectRatio_geometry w h MAX_DIMENSION))
           \<le> rect_height (source (cropToOriginalAspectRatio_geometry w h MAX_DIMENSION))
       \<and> rect_height (source (cropToOriginalAspectRatio_geometry w h MAX_DIMENSION))
           < real (out_height (cropToOriginalAspectRatio_geometry w h MAX_DIMENSION)) + 1
       \<and> (if h < w
          then rect_x (source (cropToOriginalAspectRatio_geometry w h MAX_DIMENSION)) = 0
             \<and> rect_width (source (cropToOriginalAspectRatio_geometry w h MAX_DIMENSION))
                 = real MAX_DIMENSION
             \<and> out_width (cropToOriginalAspectRatio_geometry w h MAX_DIMENSION) = MAX_DIMENSION
             \<and> (out_height (cropToOriginalAspectRatio_geometry w h MAX_DIMENSION)
                    = MAX_DIMENSION * h div w
                \<or> out_height (cropToOriginalAspectRatio_geometry w h MAX_DIMENSION) + 1
                    = MAX_DIMENSION * h div w)
          else rect_y (source (cropToOriginalAspectRatio_geometry w h MAX_DIMENSION)) = 0
             \<and> rect_height (source (cropToOriginalAspectRatio_geometry w h MAX_DIMENSION))
                 = real MAX_DIMENSION
             \<and> out_height (cropToOriginalAspectRatio_geometry w h MAX_DIMENSION) = MAX_DIMENSION
             \<and> (out_width (cropToOriginalAspectRatio_geometry w h MAX_DIMENSION)
                    = MAX_DIMENSION * w div h
                \<or> out_width (cropToOriginalAspectRatio_geometry w h MAX_DIMENSION) + 1
                    = MAX_DIMENSION * w div h))
       \<and> (max w h \<le> MAX_DIMENSION * min w h
            \<longrightarrow> 1 \<le> out_width (cropToOriginalAspectRatio_geometry w h MAX_DIMENSION)
              \<and> 1 \<le> out_height (cropToOriginalAspectRatio_geometry w h MAX_DIMENSION))"
proof (cases "h < w")
  case True
  note f = restore_landscape [OF assms(3) True assms(2)]
  have m: "max w h = w" "min w h = h" using True by simp_all
  have n: "MAX_DIMENSION = 1024" by (rule MAX_DIMENSION_def)
  have "max w h \<le> MAX_DIMENSION * min w h
          \<longrightarrow> 1 \<le> out_height (cropToOriginalAspectRatio_geometry w h MAX_DIMENSION)"
    using f(9) by (simp only: m n) simp
  moreover have "real (out_width (cropToOriginalAspectRatio_geometry w h MAX_DIMENSION))
           \<le> rect_width (source (cropToOriginalAspectRatio_geometry w h MAX_DIMENSION))"
    "rect_width (source (cropToOriginalAspectRatio_geometry w h MAX_DIMENSION))
           < real (out_width (cropToOriginalAspectRatio_geometry w h MAX_DIMENSION)) + 1"
    "1 \<le> out_width (cropToOriginalAspectRatio_geometry w h MAX_DIMENSION)"
    by (simp_all add: f(3,4))
  moreover have "out_height (cropToOriginalAspectRatio_geometry w h MAX_DIMENSION)
                    = MAX_DIMENSION * h div w
                \<or> out_height (cropToOriginalAspectRatio_geometry w h MAX_DIMENSION) + 1
                    = MAX_DIMENSION * h div w"
    using f(7) by (simp only: n)
  ultimately show ?thesis
    using True f(1,2,3,4,5,6)
    by (simp only: crop_source_eq_drawn [symmetric] resize_canvas if_True) (simp add: n)
next
  case False
  then have le: "w \<le> h" by simp
  note f = restore_portrait [OF assms(1) le assms(4)]
  have m: "max w h = h" "min w h = w" using le by simp_all
  have n: "MAX_DIMENSION = 1024" by (rule MAX_DIMENSION_def)
  have "max w h \<le> MAX_DIMENSION * min w h
          \<longrightarrow> 1 \<le> out_width (cropToOriginalAspectRatio_geometry w h MAX_DIMENSION)"
    using f(9) by (simp only: m n) simp
  moreover have "real (out_height (cropToOriginalAspectRatio_geometry w h MAX_DIMENSION))
           \<le> rect_height (source (cropToOriginalAspectRatio_geometry w h MAX_DIMENSION))"
    "rect_height (source (cropToOriginalAspectRatio_geometry w h MAX_DIMENSION))
           < real (out_height (cropToOriginalAspectRatio_geometry w h MAX_DIMENSION)) + 1"
    "1 \<le> out_height (cropToOriginalAspectRatio_geometry w h MAX_DIMENSION)"
    by (simp_all add: f(3,4))
  moreover have "out_width (cropToOriginalAspectRatio_geometry w h MAX_DIMENSION)
                    = MAX_DIMENSION * w div h
                \<or> out_width (cropToOriginalAspectRatio_geometry w h MAX_DIMENSION) + 1
                    = MAX_DIMENSION * w div h"
    using f(7) by (simp only: n)
  ultimately show ?thesis
    using False f(1,2,3,4,5,6)
    by (simp only: crop_source_eq_drawn [symmetric] resize_canvas if_False) (simp add: n)
qed

theorem restore_normalize_geometry_witness:
  "(0::nat) < 1024 \<and> (1024::nat) < 2 ^ 32 \<and> (0::nat) < 744 \<and> (744::nat) < 2 ^ 32
   \<and> (744::nat) < 1024 \<and> max 1024 744 \<le> MAX_DIMENSION * min 1024 744
   \<and> MAX_DIMENSION * 744 div 1024 = 744
   \<and> drawn (resizeImage_geometry 1024 744 MAX_DIMENSION)
       = \<lparr>rect_x = 0, rect_y = 140 + 1 / 2 ^ 44, rect_width = 1024,
          rect_height = 744 - 1 / 2 ^ 43\<rparr>
   \<and> source (cropToOriginalAspectRatio_geometry 1024 744 MAX_DIMENSION)
       = drawn (resizeImage_geometry 1024 744 MAX_DIMENSION)
   \<and> out_width (cropToOriginalAspectRatio_geometry 1024 744 MAX_DIMENSION) = 1024
   \<and> out_height (cropToOriginalAspectRatio_geometry 1024 744 MAX_DIMENSION) = 743
   \<and> out_height (cropToOriginalAspectRatio_geometry 1024 744 MAX_DIMENSION) + 1
       = MAX_DIMENSION * 744 div 1024"
proof -
  have s: "source (cropToOriginalAspectRatio_geometry 1024 744 MAX_DIMENSION)
       = \<lparr>rect_x = 0, rect_y = 140 + 1 / 2 ^ 44, rect_width = 1024,
          rect_height = 744 - 1 / 2 ^ 43\<rparr>"
    using crop_landscape(1) [of 744 1024]
    by (simp only: short_edge_1024_744 offset_1024_744) simp
  have h: "out_height (cropToOriginalAspectRatio_geometry 1024 744 MAX_DIMENSION) = 743"
    using crop_landscape(3) [of 744 1024]
    by (simp only: short_edge_1024_744 floor_below_744) simp
  have k: "MAX_DIMENSION * 744 div 1024 = 744" by (simp add: MAX_DIMENSION_def)
  show ?thesis
    using restore_normalize_geometry [of 1024 744] s h k
    by (simp add: MAX_DIMENSION_def)
qed

section \<open>The redesign request\<close>

lemma fileToPart_inline: "fileToPart b f = Inr p \<Longrightarrow> \<exists>d. p = InlineDataPart d"
  by (auto simp add: fileToPart_def await_Inr_iff Let_def split: if_splits option.splits)

lemma fileToPart_example:
  "fileToPart (example_boundary resp) (File ''AAAA'' n ''image/jpeg'')
     = Inr (InlineDataPart \<lparr>mimeType = ''image/jpeg'', data = ''AAAA''\<rparr>)"
  "fileToPart (example_boundary resp) (File ''BBBB'' n ''image/png'')
     = Inr (InlineDataPart \<lparr>mimeType = ''image/png'', data = ''BBBB''\<rparr>)"
  "fileToPart (example_boundary resp) (File ''CCCC'' n ''image/jpeg'')
     = Inr (InlineDataPart \<lparr>mimeType = ''image/jpeg'', data = ''CCCC''\<rparr>)"
  "fileToPart (example_boundary resp) (File ''DDDD'' n ''image/jpeg'')
     = Inr (InlineDataPart \<lparr>mimeType = ''image/jpeg'', data = ''DDDD''\<rparr>)"
  "fileToPart (example_boundary resp) (File ''G3'' n ''image/jpeg'')
     = Inr (InlineDataPart \<lparr>mimeType = ''image/jpeg'', data = ''G3''\<rparr>)"
  by (simp_all add: fileToPart_def example_boundary_simps await_Inr line_terminator_def)

text \<open>What a request that was composed consists of, for every combination of inputs.\<close>

lemma redesign_request_Inr:
  assumes "redesign_request b room u p bg sk = Inr (ps, t)"
  shows "\<exists>p0 pp pb. fileToPart b room = Inr p0
           \<and> (case p of None \<Rightarrow> pp = []
                | Some f \<Rightarrow> fileToPart b f = Inr (hd pp) \<and> length pp = 1)
           \<and> (case bg of None \<Rightarrow> pb = []
                | Some f \<Rightarrow> fileToPart b f = Inr (hd pb) \<and> length pb = 1)
           \<and> ps = [p0] @ pp @ pb @ [TextPart t]"
    and "t = prompt_base u @ (if sk then prompt_sketch else [])
             @ (if p = None then [] else prompt_product)
             @ (if bg = None then [] else prompt_background u) @ prompt_final"
proof -
  from assms obtain p0 where p0: "fileToPart b room = Inr p0"
    by (auto simp add: redesign_request_def await_Inr_iff)
  note unfold = redesign_request_def await_Inr_iff Let_def p0
  show "t = prompt_base u @ (if sk then prompt_sketch else [])
             @ (if p = None then [] else prompt_product)
             @ (if bg = None then [] else prompt_background u) @ prompt_final"
    using assms by (cases p; cases bg) (auto simp add: unfold)
  show "\<exists>p0 pp pb. fileToPart b room = Inr p0
           \<and> (case p of None \<Rightarrow> pp = []
                | Some f \<Rightarrow> fileToPart b f = Inr (hd pp) \<and> length pp = 1)
           \<and> (case bg of None \<Rightarrow> pb = []
                | Some f \<Rightarrow> fileToPart b f = Inr (hd pb) \<and> length pb = 1)
           \<and> ps = [p0] @ pp @ pb @ [TextPart t]"
  proof (cases p)
    case None
    show ?thesis
    proof (cases bg)
      case bgNone: None
      from assms None bgNone have "ps = [p0] @ [] @ [] @ [TextPart t]"
        by (auto simp add: unfold)
      with p0 None bgNone show ?thesis by (intro exI [of _ p0] exI [of _ "[]"]) simp
    next
      case (Some f)
      from assms None Some obtain x
        where "fileToPart b f = Inr x" "ps = [p0] @ [] @ [x] @ [TextPart t]"
        by (auto simp add: unfold)
      with p0 None Some show ?thesis
        by (intro exI [of _ p0] exI [of _ "[]"] exI [of _ "[x]"]) simp
    qed
  next
    case (Some g)
    show ?thesis
    proof (cases bg)
      case None
      from assms None Some obtain y
        where "fileToPart b g = Inr y" "ps = [p0] @ [y] @ [] @ [TextPart t]"
        by (auto simp add: unfold)
      with p0 None Some show ?thesis
        by (intro exI [of _ p0] exI [of _ "[y]"] exI [of _ "[]"]) simp
    next
      case bgSome: (Some f)
      from assms bgSome Some obtain x y
        where "fileToPart b g = Inr y" "fileToPart b f = Inr x"
          "ps = [p0] @ [y] @ [x] @ [TextPart t]"
        by (auto simp add: unfold)
      with p0 bgSome Some show ?thesis
        by (intro exI [of _ p0] exI [of _ "[y]"] exI [of _ "[x]"]) simp
    qed
  qed
qed

lemma redesign_request_sketch_only:
  assumes "redesign_request b room u None None True = Inr (ps, t)"
  shows "\<exists>d. fileToPart b room = Inr (InlineDataPart d) \<and> ps = [InlineDataPart d, TextPart t]"
    and "t = prompt_base u @ prompt_sketch @ prompt_final"
proof -
  from redesign_request_Inr(1) [OF assms] obtain p0
    where p: "fileToPart b room = Inr p0" and ps: "ps = [p0, TextPart t]"
    by auto
  from fileToPart_inline [OF p] p ps
  show "\<exists>d. fileToPart b room = Inr (InlineDataPart d) \<and> ps = [InlineDataPart d, TextPart t]"
    by auto
  show "t = prompt_base u @ prompt_sketch @ prompt_final"
    using redesign_request_Inr(2) [OF assms] by simp
qed

lemma redesign_request_both:
  assumes "redesign_request b room u (Some product) (Some background) sk = Inr (ps, t)"
  shows "\<exists>d1 d2 d3. fileToPart b room = Inr (InlineDataPart d1)
           \<and> fileToPart b product = Inr (InlineDataPart d2)
           \<and> fileToPart b background = Inr (InlineDataPart d3)
           \<and> ps = [InlineDataPart d1, InlineDataPart d2, InlineDataPart d3, TextPart t]"
    and "t = prompt_base u @ (if sk then prompt_sketch else []) @ prompt_product
             @ prompt_background u @ prompt_final"
proof -
  from redesign_request_Inr(1) [OF assms] obtain p0 pp pb
    where p: "fileToPart b room = Inr p0" "fileToPart b product = Inr (hd pp)"
      "fileToPart b background = Inr (hd pb)"
      and len: "length pp = 1" "length pb = 1"
      and ps: "ps = [p0] @ pp @ pb @ [TextPart t]"
    by auto
  from len obtain p1 p2 where "pp = [p1]" "pb = [p2]"
    by (cases pp; cases pb) simp_all
  with p ps have q: "fileToPart b product = Inr p1" "fileToPart b background = Inr p2"
    "ps = [p0, p1, p2, TextPart t]"
    by simp_all
  from p(1) q fileToPart_inline [OF p(1)] fileToPart_inline [OF q(1)]
    fileToPart_inline [OF q(2)]
  show "\<exists>d1 d2 d3. fileToPart b room = Inr (InlineDataPart d1)
           \<and> fileToPart b product = Inr (InlineDataPart d2)
           \<and> fileToPart b background = Inr (InlineDataPart d3)
           \<and> ps = [InlineDataPart d1, InlineDataPart d2, InlineDataPart d3, TextPart t]"
    by auto
  show "t = prompt_base u @ (if sk then prompt_sketch else []) @ prompt_product
             @ prompt_background u @ prompt_final"
    using redesign_request_Inr(2) [OF assms] by simp
qed

lemma sublist_mid: "sublist ys (xs @ ys @ zs)"
  by (rule sublist_appendI)

lemma redesign_request_example:
  "redesign_request (example_boundary resp) (File ''AAAA'' ''house.png'' ''image/jpeg'')
       ''add a pool'' None None True
     = Inr ([InlineDataPart \<lparr>mimeType = ''image/jpeg'', data = ''AAAA''\<rparr>,
             TextPart (prompt_base ''add a pool'' @ prompt_sketch @ prompt_final)],
            prompt_base ''add a pool'' @ prompt_sketch @ prompt_final)"
  "redesign_request (example_boundary resp) (File ''AAAA'' ''house.png'' ''image/jpeg'')
       ''add a pool'' (Some example_product) (Some example_background) False
     = Inr ([InlineDataPart \<lparr>mimeType = ''image/jpeg'', data = ''AAAA''\<rparr>,
             InlineDataPart \<lparr>mimeType = ''image/png'', data = ''BBBB''\<rparr>,
             InlineDataPart \<lparr>mimeType = ''image/jpeg'', data = ''CCCC''\<rparr>,
             TextPart (prompt_base ''add a pool'' @ prompt_product
                         @ prompt_background ''add a pool'' @ prompt_final)],
            prompt_base ''add a pool'' @ prompt_product
              @ prompt_background ''add a pool'' @ prompt_final)"
  by (simp_all add: redesign_request_def fileToPart_example await_Inr Let_def
      example_product_def example_background_def)

text \<open>
  Claim C3: a redesign request composed with \<open>isSketched\<close> and neither product nor
  background consists of one image part, the room's, followed by the text, and the text
  contains the sketch block. A request composed with a product and a background consists
  of three image parts, the room's, the product's and the background's in this order,
  followed by the text as the last part, and the text contains the product block and the
  background block, the product block before the background block as their parts are.
\<close>

theorem conditional_prompt_composition:
  "(redesign_request b room u None None True = Inr (ps, t) \<longrightarrow>
      (\<exists>d. fileToPart b room = Inr (InlineDataPart d) \<and> ps = [InlineDataPart d, TextPart t])
      \<and> t = prompt_base u @ prompt_sketch @ prompt_final
      \<and> sublist prompt_sketch t)
   \<and> (redesign_request b room u (Some product) (Some background) sk = Inr (ps', t') \<longrightarrow>
      (\<exists>d1 d2 d3. fileToPart b room = Inr (InlineDataPart d1)
           \<and> fileToPart b product = Inr (InlineDataPart d2)
           \<and> fileToPart b background = Inr (InlineDataPart d3)
           \<and> ps' = [InlineDataPart d1, InlineDataPart d2, InlineDataPart d3, TextPart t'])
      \<and> t' = prompt_base u @ (if sk then prompt_sketch else []) @ prompt_product
               @ prompt_background u @ prompt_final
      \<and> sublist prompt_product t' \<and> sublist (prompt_background u) t')"
proof (intro conjI impI)
  assume a: "redesign_request b room u None None True = Inr (ps, t)"
  show "\<exists>d. fileToPart b room = Inr (InlineDataPart d) \<and> ps = [InlineDataPart d, TextPart t]"
    by (rule redesign_request_sketch_only(1) [OF a])
  show "t = prompt_base u @ prompt_sketch @ prompt_final"
    by (rule redesign_request_sketch_only(2) [OF a])
  show "sublist prompt_sketch t"
    unfolding redesign_request_sketch_only(2) [OF a] by (rule sublist_mid)
next
  assume a: "redesign_request b room u (Some product) (Some background) sk = Inr (ps', t')"
  show "\<exists>d1 d2 d3. fileToPart b room = Inr (InlineDataPart d1)
           \<and> fileToPart b product = Inr (InlineDataPart d2)
           \<and> fileToPart b background = Inr (InlineDataPart d3)
           \<and> ps' = [InlineDataPart d1, InlineDataPart d2, InlineDataPart d3, TextPart t']"
    by (rule redesign_request_both(1) [OF a])
  show "t' = prompt_base u @ (if sk then prompt_sketch else []) @ prompt_product
               @ prompt_background u @ prompt_final"
    by (rule redesign_request_both(2) [OF a])
  have t': "t' = (prompt_base u @ (if sk then prompt_sketch else [])) @ prompt_product
             @ (prompt_background u @ prompt_final)"
    using redesign_request_both(2) [OF a] by simp
  show "sublist prompt_product t'" unfolding t' by (rule sublist_mid)
  have t'': "t' = (prompt_base u @ (if sk then prompt_sketch else []) @ prompt_product)
             @ prompt_background u @ prompt_final"
    using redesign_request_both(2) [OF a] by simp
  show "sublist (prompt_background u) t'" unfolding t'' by (rule sublist_mid)
qed

theorem conditional_prompt_composition_witness:
  "redesign_request (example_boundary example_image_response)
       (File ''AAAA'' ''house.png'' ''image/jpeg'') ''add a pool'' None None True
     = Inr ([InlineDataPart \<lparr>mimeType = ''image/jpeg'', data = ''AAAA''\<rparr>,
             TextPart (prompt_base ''add a pool'' @ prompt_sketch @ prompt_final)],
            prompt_base ''add a pool'' @ prompt_sketch @ prompt_final)
   \<and> sublist prompt_sketch (prompt_base ''add a pool'' @ prompt_sketch @ prompt_final)
   \<and> redesign_request (example_boundary example_image_response)
       (File ''AAAA'' ''house.png'' ''image/jpeg'') ''add a pool''
       (Some example_product) (Some example_background) False
     = Inr ([InlineDataPart \<lparr>mimeType = ''image/jpeg'', data = ''AAAA''\<rparr>,
             InlineDataPart \<lparr>mimeType = ''image/png'', data = ''BBBB''\<rparr>,
             InlineDataPart \<lparr>mimeType = ''image/jpeg'', data = ''CCCC''\<rparr>,
             TextPart (prompt_base ''add a pool'' @ prompt_product
                         @ prompt_background ''add a pool'' @ prompt_final)],
            prompt_base ''add a pool'' @ prompt_product
              @ prompt_background ''add a pool'' @ prompt_final)
   \<and> sublist prompt_product
       (prompt_base ''add a pool'' @ prompt_product
          @ prompt_background ''add a pool'' @ prompt_final)
   \<and> sublist (prompt_background ''add a pool'')
       (prompt_base ''add a pool'' @ prompt_product
          @ prompt_background ''add a pool'' @ prompt_final)"
  using conditional_prompt_composition
    [of "example_boundary example_image_response" "File ''AAAA'' ''house.png'' ''image/jpeg''"
        "''add a pool''"
        "[InlineDataPart \<lparr>mimeType = ''image/jpeg'', data = ''AAAA''\<rparr>,
          TextPart (prompt_base ''add a pool'' @ prompt_sketch @ prompt_final)]"
        "prompt_base ''add a pool'' @ prompt_sketch @ prompt_final"
        example_product example_background False
        "[InlineDataPart \<lparr>mimeType = ''image/jpeg'', data = ''AAAA''\<rparr>,
          InlineDataPart \<lparr>mimeType = ''image/png'', data = ''BBBB''\<rparr>,
          InlineDataPart \<lparr>mimeType = ''image/jpeg'', data = ''CCCC''\<rparr>,
          TextPart (prompt_base ''add a pool'' @ prompt_product
                      @ prompt_background ''add a pool'' @ prompt_final)]"
        "prompt_base ''add a pool'' @ prompt_product
           @ prompt_background ''add a pool'' @ prompt_final"]
    redesign_request_example [of example_image_response]
  by simp

section \<open>A response without an image\<close>

lemma imagePartFromResponse_none:
  assumes "inline_image_parts r = []"
  shows "imagePartFromResponse r = None"
proof (cases "candidates r")
  case None
  then show ?thesis by (simp add: imagePartFromResponse_def)
next
  case (Some cs)
  show ?thesis
  proof (cases cs)
    case Nil
    with Some show ?thesis by (simp add: imagePartFromResponse_def)
  next
    case (Cons c rest)
    show ?thesis
    proof (cases "content c")
      case None
      with Some Cons show ?thesis by (simp add: imagePartFromResponse_def)
    next
      case ct: (Some ct)
      show ?thesis
      proof (cases "parts ct")
        case None
        with Some Cons ct show ?thesis by (simp add: imagePartFromResponse_def)
      next
        case ps: (Some ps)
        from assms Some Cons ct ps have "filter (\<lambda>p. inlineData p \<noteq> None) ps = []"
          by (simp add: inline_image_parts_def)
        then have "find (\<lambda>p. inlineData p \<noteq> None) ps = None"
          by (simp add: find_None_iff filter_empty_conv)
        with Some Cons ct ps show ?thesis by (simp add: imagePartFromResponse_def)
      qed
    qed
  qed
qed

lemma redesignRoom_no_image:
  assumes "inline_image_parts resp = []"
    and "redesign_submit b img u p bg sk = Inr (dbg, t, resp)"
  shows "redesignRoom b img w h u p bg sk
           = Inl (Error ''The AI model did not return an image. Please try again.'')"
  using assms(2) imagePartFromResponse_none [OF assms(1)]
  by (simp add: redesignRoom_def await_Inr)

lemma generateRotatedView_no_image:
  assumes "inline_image_parts resp = []"
    and "rotate_submit b img d = Inr resp"
  shows "generateRotatedView b img w h d
           = Inl (Error ''The AI model did not return an image for rotation.'')"
  using assms(2) imagePartFromResponse_none [OF assms(1)]
  by (simp add: generateRotatedView_def await_Inr)

lemma handleGenerate_settled_error:
  "handleGenerate_settled b now st (Inl e)
     = st\<lparr>isLoading := False,
          error := Some (''Failed to generate the image. '' @ errorMessage e)\<rparr>"
  by (simp add: handleGenerate_settled_def await_Inl)

lemma handleGenerate_call:
  assumes "currentWorkingImage st = Some img" and "originalDimensions st = Some dims"
    and "prompt st \<noteq> []"
  shows "handleGenerate b now st
           = handleGenerate_settled b now st
               (redesignRoom b img (width dims) (height dims) (prompt st)
                  (productImage st) (backgroundImage st) (sketchedImage st \<noteq> None))"
  using assms by (simp add: handleGenerate_def)

lemma handleRotateView_error:
  assumes "currentWorkingImage st = Some img" and "originalDimensions st = Some dims"
    and "generateRotatedView b img (width dims) (height dims) d = Inl e"
  shows "handleRotateView b now d st
     = st\<lparr>isLoading := False,
          error := Some (''Failed to generate the rotated view. '' @ errorMessage e)\<rparr>"
  using assms by (simp add: handleRotateView_def await_Inl)

lemma example_working_image:
  "currentWorkingImage example_state = Some (File ''G3'' ''rotated-scene-3.jpeg'' ''image/jpeg'')"
  by (simp add: currentWorkingImage_def currentGeneratedImage_def index_at_def
      example_state_fields example_generations_def)

lemma example_no_image: "inline_image_parts example_text_response = []"
  by (simp add: inline_image_parts_def example_text_response_def)

lemma example_submit:
  "redesign_submit (example_boundary resp) (File ''G3'' ''rotated-scene-3.jpeg'' ''image/jpeg'')
       ''add a stone path'' None None False
     = Inr (''data:image/jpeg;base64,G3'',
            prompt_base ''add a stone path'' @ prompt_final, resp)"
  "rotate_submit (example_boundary resp) (File ''G3'' ''rotated-scene-3.jpeg'' ''image/jpeg'') Left
     = Inr resp"
  by (simp_all add: redesign_submit_def rotate_submit_def redesign_request_def fileToDataUrl_def
      example_boundary_simps fileToPart_example await_Inr Let_def)

text \<open>
  Claim C4: when the response of the model has no part with inline image data,
  \<open>redesignRoom\<close> and \<open>generateRotatedView\<close> both fail with their no-image error, and
  \<open>handleGenerate\<close> and \<open>handleRotateView\<close> leave the history, the cursor and the session
  list as they were and show the error.
\<close>

theorem no_image_failure:
  assumes "inline_image_parts resp = []"
  shows "(redesign_submit b img u p bg sk = Inr (dbg, t, resp) \<longrightarrow>
            redesignRoom b img w h u p bg sk
              = Inl (Error ''The AI model did not return an image. Please try again.''))
       \<and> (rotate_submit b img d = Inr resp \<longrightarrow>
            generateRotatedView b img w h d
              = Inl (Error ''The AI model did not return an image for rotation.''))
       \<and> (currentWorkingImage st = Some img \<and> originalDimensions st = Some dims
            \<and> prompt st \<noteq> []
            \<and> redesign_submit b img (prompt st) (productImage st) (backgroundImage st)
                 (sketchedImage st \<noteq> None) = Inr (dbg, t, resp) \<longrightarrow>
            history (handleGenerate b now st) = history st
            \<and> historyIndex (handleGenerate b now st) = historyIndex st
            \<and> sessions (handleGenerate b now st) = sessions st
            \<and> error (handleGenerate b now st)
                = Some ''Failed to generate the image. The AI model did not return an image. Please try again.'')
       \<and> (currentWorkingImage st = Some img \<and> originalDimensions st = Some dims
            \<and> rotate_submit b img d = Inr resp \<longrightarrow>
            history (handleRotateView b now d st) = history st
            \<and> historyIndex (handleRotateView b now d st) = historyIndex st
            \<and> sessions (handleRotateView b now d st) = sessions st
            \<and> error (handleRotateView b now d st)
                = Some ''Failed to generate the rotated view. The AI model did not return an image for rotation.'')"
proof (intro conjI impI)
  assume "redesign_submit b img u p bg sk = Inr (dbg, t, resp)"
  then show "redesignRoom b img w h u p bg sk
              = Inl (Error ''The AI model did not return an image. Please try again.'')"
    by (rule redesignRoom_no_image [OF assms])
next
  assume "rotate_submit b img d = Inr resp"
  then show "generateRotatedView b img w h d
              = Inl (Error ''The AI model did not return an image for rotation.'')"
    by (rule generateRotatedView_no_image [OF assms])
next
  assume a: "currentWorkingImage st = Some img \<and> originalDimensions st = Some dims
            \<and> prompt st \<noteq> []
            \<and> redesign_submit b img (prompt st) (productImage st) (backgroundImage st)
                 (sketchedImage st \<noteq> None) = Inr (dbg, t, resp)"
  then have call: "handleGenerate b now st
      = handleGenerate_settled b now st
          (Inl (Error ''The AI model did not return an image. Please try again.''))"
    using redesignRoom_no_image [OF assms, of b img "prompt st" "productImage st"
        "backgroundImage st" "sketchedImage st \<noteq> None" dbg t "width dims" "height dims"]
      handleGenerate_call [of st img dims b now]
    by simp
  show "history (handleGenerate b now st) = history st"
    "historyIndex (handleGenerate b now st) = historyIndex st"
    "sessions (handleGenerate b now st) = sessions st"
    "error (handleGenerate b now st)
       = Some ''Failed to generate the image. The AI model did not return an image. Please try again.''"
    unfolding call handleGenerate_settled_error by simp_all
next
  assume a: "currentWorkingImage st = Some img \<and> originalDimensions st = Some dims
            \<and> rotate_submit b img d = Inr resp"
  then have call: "handleRotateView b now d st
     = st\<lparr>isLoading := False,
          error := Some (''Failed to generate the rotated view. ''
                          @ errorMessage (Error ''The AI model did not return an image for rotation.''))\<rparr>"
    using generateRotatedView_no_image [OF assms, of b img d "width dims" "height dims"]
      handleRotateView_error [of st img dims b d _ now]
    by simp
  show "history (handleRotateView b now d st) = history st"
    "historyIndex (handleRotateView b now d st) = historyIndex st"
    "sessions (handleRotateView b now d st) = sessions st"
    "error (handleRotateView b now d st)
       = Some ''Failed to generate the rotated view. The AI model did not return an image for rotation.''"
    unfolding call by simp_all
qed

theorem no_image_failure_witness:
  "inline_image_parts example_text_response = []
   \<and> currentWorkingImage example_state
       = Some (File ''G3'' ''rotated-scene-3.jpeg'' ''image/jpeg'')
   \<and> redesign_submit (example_boundary example_text_response)
        (File ''G3'' ''rotated-scene-3.jpeg'' ''image/jpeg'') ''add a stone path'' None None False
       = Inr (''data:image/jpeg;base64,G3'', prompt_base ''add a stone path'' @ prompt_final,
              example_text_response)
   \<and> rotate_submit (example_boundary example_text_response)
        (File ''G3'' ''rotated-scene-3.jpeg'' ''image/jpeg'') Left
       = Inr example_text_response
   \<and> redesignRoom (example_boundary example_text_response)
        (File ''G3'' ''rotated-scene-3.jpeg'' ''image/jpeg'') 512 256 ''add a stone path''
        None None False
       = Inl (Error ''The AI model did not return an image. Please try again.'')
   \<and> generateRotatedView (example_boundary example_text_response)
        (File ''G3'' ''rotated-scene-3.jpeg'' ''image/jpeg'') 512 256 Left
       = Inl (Error ''The AI model did not return an image for rotation.'')
   \<and> history (handleGenerate (example_boundary example_text_response) 9 example_state)
       = example_generations
   \<and> historyIndex (handleGenerate (example_boundary example_text_response) 9 example_state) = 2
   \<and> sessions (handleGenerate (example_boundary example_text_response) 9 example_state)
       = [example_session]
   \<and> history (handleRotateView (example_boundary example_text_response) 9 Left example_state)
       = example_generations
   \<and> historyIndex (handleRotateView (example_boundary example_text_response) 9 Left
        example_state) = 2
   \<and> sessions (handleRotateView (example_boundary example_text_response) 9 Left example_state)
       = [example_session]"
  using no_image_failure [OF example_no_image,
      of "example_boundary example_text_response"
         "File ''G3'' ''rotated-scene-3.jpeg'' ''image/jpeg''" "''add a stone path''" None None
         False "''data:image/jpeg;base64,G3''" "prompt_base ''add a stone path'' @ prompt_final"
         512 256 Left example_state "\<lparr>width = 512, height = 256\<rparr>" 9]
    example_no_image example_working_image example_submit [of example_text_response]
  by (simp add: example_state_fields)

section \<open>The sketch after a generation\<close>

lemma imagePart_example:
  "imagePartFromResponse example_image_response
    = Some \<lparr>inlineData = Some \<lparr>mimeType = ''image/png'', data = ''iVBORw0KGgo=''\<rparr>,
            part_text = None\<rparr>"
  by (simp add: imagePartFromResponse_def example_image_response_def)

lemma handleGenerate_clears_sketch:
  assumes "currentWorkingImage st = Some img" and "originalDimensions st = Some dims"
    and "prompt st \<noteq> []"
    and "redesignRoom b img (width dims) (height dims) (prompt st) (productImage st)
           (backgroundImage st) (sketchedImage st \<noteq> None) = Inr r"
    and "fetchBlob b (finalImageUrl r) = Inr bits"
  shows "sketchedImage (handleGenerate b now st) = None"
  using assms
  by (simp add: handleGenerate_call [OF assms(1,2,3)] handleGenerate_settled_def await_Inr)

lemma handleRotateView_keeps_sketch:
  "sketchedImage (handleRotateView b now d st) = sketchedImage st"
  by (simp add: handleRotateView_def addImageToHistory_in_def Let_def
      split: option.splits sum.splits)

text \<open>
  Claim C5 holds for \<open>handleGenerate\<close> and fails for \<open>handleRotateView\<close>, which never sets
  \<open>sketchedImage\<close>. In the example a sketch is present and the rotation succeeds: the
  rotated image is appended to the history, the sketch is still there, and the image that
  the next edit works on is still the sketch, not the rotated image. The same state with a
  successful \<open>handleGenerate\<close> ends with the sketch cleared.
\<close>

theorem rotate_keeps_sketch:
  "history (handleRotateView (example_boundary example_image_response) 8 Left
      (example_state\<lparr>sketchedImage := Some example_sketch\<rparr>))
     = example_generations
         @ [File ''data:image/png;base64,iVBORw0KGgo='' ''rotated-scene-8.jpeg'' ''image/jpeg'']
   \<and> historyIndex (handleRotateView (example_boundary example_image_response) 8 Left
      (example_state\<lparr>sketchedImage := Some example_sketch\<rparr>)) = 3
   \<and> error (handleRotateView (example_boundary example_image_response) 8 Left
      (example_state\<lparr>sketchedImage := Some example_sketch\<rparr>)) = None
   \<and> sketchedImage (handleRotateView (example_boundary example_image_response) 8 Left
      (example_state\<lparr>sketchedImage := Some example_sketch\<rparr>)) = Some example_sketch
   \<and> currentWorkingImage (handleRotateView (example_boundary example_image_response) 8 Left
      (example_state\<lparr>sketchedImage := Some example_sketch\<rparr>)) = Some example_sketch
   \<and> sketchedImage (handleGenerate (example_boundary example_image_response) 8
      (example_state\<lparr>sketchedImage := Some example_sketch\<rparr>)) = None"
  by (simp add: handleRotateView_def handleGenerate_def handleGenerate_settled_def
      currentWorkingImage_def example_state_def initial_state_def generateRotatedView_def
      rotate_submit_def fileToPart_example example_boundary_simps await_Inr
      example_sketch_def imagePart_example addImageToHistory_def addImageToHistory_in_def
      Let_def slice_to_def example_generations_def digit_char_def toString.simps
      redesignRoom_def redesign_submit_def redesign_request_def fileToDataUrl_def)

section \<open>The history stack\<close>

lemma addImageToHistory_history:
  "history (addImageToHistory x st) = slice_to (history st) (historyIndex st + 1) @ [x]"
  by (simp add: addImageToHistory_def addImageToHistory_in_def Let_def)

lemma addImageToHistory_cursor:
  "historyIndex (addImageToHistory x st) = int (length (history (addImageToHistory x st))) - 1"
  by (simp add: addImageToHistory_def addImageToHistory_in_def Let_def)

text \<open>
  \<open>addImageToHistory\<close>, run in the render of its state: from the history \<open>[A, B, C]\<close> with
  the cursor at 2, two undos bring the cursor to 0 and leave the history as it is;
  appending \<open>D\<close> then gives the history \<open>[A, D]\<close> with the cursor at 1.
\<close>

lemma addImageToHistory_truncates:
  assumes "history st = [A, B, C]" and "historyIndex st = 2"
  shows "historyIndex (handleUndo (handleUndo st)) = 0"
    and "history (handleUndo (handleUndo st)) = [A, B, C]"
    and "history (addImageToHistory D (handleUndo (handleUndo st))) = [A, D]"
    and "historyIndex (addImageToHistory D (handleUndo (handleUndo st))) = 1"
proof -
  let ?u = "handleUndo (handleUndo st)"
  show idx: "historyIndex ?u = 0" using assms(2) by (simp add: handleUndo_def)
  show hist: "history ?u = [A, B, C]" using assms by (simp add: handleUndo_def)
  show app: "history (addImageToHistory D ?u) = [A, D]"
    by (simp add: addImageToHistory_history idx hist slice_to_def)
  show "historyIndex (addImageToHistory D ?u) = 1"
    by (simp add: addImageToHistory_cursor app)
qed

text \<open>
  \<open>example_state\<close> is what the application shows after the stored session has been loaded
  and selected and the prompt typed, each followed by its render. So it is reachable, and
  so is the state after the sketch and the two undos. In the latter the render after the
  sketch has stored \<open>handleRotateView\<close> anew, with the history of three images and the
  cursor at 2; the two undos change neither \<open>currentWorkingImage\<close> (the sketch) nor the
  dimensions nor the session id, so the stored function stays.
\<close>

lemma example_state_run:
  "render (fire (SetPrompt ''add a stone path'')
     (render (fire (SelectSession ''1762160400000'')
        (render (fire (SessionsLoaded [example_session]) initial_state)))))
   = example_state"
  by (simp add: render_def memoise_def rotateView_dependencies_def sessions_loaded_def
      handleSelectSession_def handleSelectSession_in_def clearWorkingState_def
      currentWorkingImage_def currentGeneratedImage_def index_at_def
      initial_state_def example_state_def example_session_def example_generations_def Let_def)

lemma example_state_reachable: "reachable example_state"
  unfolding example_state_run [symmetric]
  by (intro reachable_render reachable_fire reachable_initial)

lemma example_state_rendered: "render example_state = example_state"
  by (simp add: render_def rotateView_dependencies_def currentWorkingImage_def
      currentGeneratedImage_def index_at_def example_state_def initial_state_def
      example_generations_def)

lemma sketched_then_undone_state:
  "sketched_then_undone
     = example_state
         \<lparr>sketchedImage := Some example_sketch, historyIndex := 0,
          rotateView_deps :=
            (Some example_sketch, Some \<lparr>width = 512, height = 256\<rparr>, Some ''1762160400000'')\<rparr>"
  by (simp add: sketched_then_undone_def render_def memoise_def rotateView_dependencies_def
      handleSaveSketch_def handleUndo_def example_boundary_simps
      currentWorkingImage_def currentGeneratedImage_def index_at_def
      initial_state_def example_state_def example_sketch_def example_generations_def
      toString.simps digit_char_def)

lemma sketched_then_undone_reachable: "reachable sketched_then_undone"
  unfolding sketched_then_undone_def
  by (intro reachable_render reachable_fire example_state_reachable)

lemma rotate_example:
  "generateRotatedView (example_boundary example_image_response) example_sketch 512 256 Left
     = Inr ''data:image/png;base64,iVBORw0KGgo=''"
  by (simp add: generateRotatedView_def rotate_submit_def fileToPart_example
      example_boundary_simps await_Inr example_sketch_def imagePart_example)

lemma rotate_stale_state:
  "fire (RotateView (example_boundary example_image_response) 8 Left) sketched_then_undone
     = sketched_then_undone
         \<lparr>history := example_generations @ [example_rotated], historyIndex := 3,
          sessions := [example_session
             \<lparr>session_generations := example_generations @ [example_rotated]\<rparr>]\<rparr>"
  by (simp add: sketched_then_undone_state handleRotateView_def rotate_example
      example_boundary_simps await_Inr currentWorkingImage_def
      addImageToHistory_in_def update_active_session_def slice_to_def Let_def
      example_state_def initial_state_def example_rotated_def example_generations_def
      example_session_def toString.simps digit_char_def)

text \<open>
  Claim C2 holds for \<open>addImageToHistory\<close> as a function of the current render, and for an
  append by \<open>handleGenerate\<close>; it fails for an append by \<open>handleRotateView\<close>. In the example
  the history is \<open>[G1, G2, G3]\<close> with the cursor at 2, a sketch is saved, and two undos bring
  the cursor to 0. The function \<open>addImageToHistory\<close> of that render would give \<open>[G1, D]\<close>
  with the cursor at 1. A successful rotation, whose \<open>addImageToHistory\<close> is the one of the
  render after the sketch, gives the history \<open>[G1, G2, G3, D]\<close> with the cursor at 3, in
  the working state and in the stored session: \<open>G2\<close> and \<open>G3\<close> are not discarded. A
  successful \<open>handleGenerate\<close> in the same state gives two images with the cursor at 1.
\<close>

theorem rotate_appends_to_stale_history:
  "history example_state = example_generations \<and> historyIndex example_state = 2
   \<and> history sketched_then_undone = example_generations
   \<and> historyIndex sketched_then_undone = 0
   \<and> sketchedImage sketched_then_undone = Some example_sketch
   \<and> history (addImageToHistory example_rotated sketched_then_undone)
       = [File ''G1'' ''generated-scene-1.jpeg'' ''image/jpeg'', example_rotated]
   \<and> historyIndex (addImageToHistory example_rotated sketched_then_undone) = 1
   \<and> history (render (fire (RotateView (example_boundary example_image_response) 8 Left)
        sketched_then_undone))
       = [File ''G1'' ''generated-scene-1.jpeg'' ''image/jpeg'',
          File ''G2'' ''generated-scene-2.jpeg'' ''image/jpeg'',
          File ''G3'' ''rotated-scene-3.jpeg'' ''image/jpeg'', example_rotated]
   \<and> historyIndex (render (fire (RotateView (example_boundary example_image_response) 8 Left)
        sketched_then_undone)) = 3
   \<and> map session_generations
        (sessions (render (fire (RotateView (example_boundary example_image_response) 8 Left)
           sketched_then_undone)))
       = [[File ''G1'' ''generated-scene-1.jpeg'' ''image/jpeg'',
           File ''G2'' ''generated-scene-2.jpeg'' ''image/jpeg'',
           File ''G3'' ''rotated-scene-3.jpeg'' ''image/jpeg'', example_rotated]]
   \<and> error (render (fire (RotateView (example_boundary example_image_response) 8 Left)
        sketched_then_undone)) = None
   \<and> history (render (fire (RotateView (example_boundary example_image_response) 8 Left)
        sketched_then_undone))
       \<noteq> [File ''G1'' ''generated-scene-1.jpeg'' ''image/jpeg'', example_rotated]
   \<and> history (render (fire (Generate (example_boundary example_image_response) 8)
        sketched_then_undone))
       = [File ''G1'' ''generated-scene-1.jpeg'' ''image/jpeg'',
          File ''data:image/png;base64,iVBORw0KGgo='' ''generated-scene-8.jpeg'' ''image/jpeg'']
   \<and> historyIndex (render (fire (Generate (example_boundary example_image_response) 8)
        sketched_then_undone)) = 1"
proof -
  have u: "history sketched_then_undone = example_generations"
    "historyIndex sketched_then_undone = 0"
    "sketchedImage sketched_then_undone = Some example_sketch"
    by (simp_all add: sketched_then_undone_state example_state_fields)
  have a: "history (addImageToHistory example_rotated sketched_then_undone)
       = [File ''G1'' ''generated-scene-1.jpeg'' ''image/jpeg'', example_rotated]"
    by (simp add: addImageToHistory_history u slice_to_def example_generations_def)
  have a': "historyIndex (addImageToHistory example_rotated sketched_then_undone) = 1"
    by (simp add: addImageToHistory_cursor a)
  have r: "history (render (fire (RotateView (example_boundary example_image_response) 8 Left)
        sketched_then_undone)) = example_generations @ [example_rotated]"
    "historyIndex (render (fire (RotateView (example_boundary example_image_response) 8 Left)
        sketched_then_undone)) = 3"
    "map session_generations
        (sessions (render (fire (RotateView (example_boundary example_image_response) 8 Left)
           sketched_then_undone)))
       = [example_generations @ [example_rotated]]"
    "error (render (fire (RotateView (example_boundary example_image_response) 8 Left)
        sketched_then_undone)) = None"
    unfolding rotate_stale_state
    by (simp_all add: render_def memoise_def rotateView_dependencies_def
        currentWorkingImage_def sketched_then_undone_state
        example_state_def initial_state_def example_session_def)
  have g: "history (render (fire (Generate (example_boundary example_image_response) 8)
        sketched_then_undone))
       = [File ''G1'' ''generated-scene-1.jpeg'' ''image/jpeg'',
          File ''data:image/png;base64,iVBORw0KGgo='' ''generated-scene-8.jpeg'' ''image/jpeg'']"
    "historyIndex (render (fire (Generate (example_boundary example_image_response) 8)
        sketched_then_undone)) = 1"
    by (simp_all add: sketched_then_undone_state render_def memoise_def
        handleGenerate_def handleGenerate_settled_def
        currentWorkingImage_def example_state_def initial_state_def
        fileToPart_example example_boundary_simps await_Inr
        example_sketch_def imagePart_example addImageToHistory_def addImageToHistory_in_def
        Let_def slice_to_def example_generations_def digit_char_def toString.simps
        redesignRoom_def redesign_submit_def redesign_request_def fileToDataUrl_def)
  show ?thesis
    using u a a' r g
    by (simp add: example_state_fields example_generations_def example_rotated_def)
qed

section \<open>Replacing the base image\<close>

text \<open>
  Claim C6: when the dimensions of the edited file can be read, \<open>handleSaveCanvasEdit\<close>
  ends with an empty history, the cursor at \<open>-1\<close>, the new file as base image with its
  dimensions, and no sketch; the other working fields are as before. In the session list
  the active session gets the new base image, the new dimensions and empty generations, and
  nothing else changes: every session keeps its id, name, timestamp and thumbnail, and the
  other sessions are untouched.
\<close>

theorem replace_base_resets_history:
  assumes "getImageDimensions b newFile = Inr dims"
  shows "history (handleSaveCanvasEdit b newFile st) = []
       \<and> historyIndex (handleSaveCanvasEdit b newFile st) = - 1
       \<and> sceneImage (handleSaveCanvasEdit b newFile st) = Some newFile
       \<and> originalDimensions (handleSaveCanvasEdit b newFile st) = Some dims
       \<and> sketchedImage (handleSaveCanvasEdit b newFile st) = None
       \<and> activeSessionId (handleSaveCanvasEdit b newFile st) = activeSessionId st
       \<and> productImage (handleSaveCanvasEdit b newFile st) = productImage st
       \<and> backgroundImage (handleSaveCanvasEdit b newFile st) = backgroundImage st
       \<and> prompt (handleSaveCanvasEdit b newFile st) = prompt st
       \<and> map session_id (sessions (handleSaveCanvasEdit b newFile st))
           = map session_id (sessions st)
       \<and> map session_name (sessions (handleSaveCanvasEdit b newFile st))
           = map session_name (sessions st)
       \<and> map session_timestamp (sessions (handleSaveCanvasEdit b newFile st))
           = map session_timestamp (sessions st)
       \<and> map session_thumbnail (sessions (handleSaveCanvasEdit b newFile st))
           = map session_thumbnail (sessions st)
       \<and> sessions (handleSaveCanvasEdit b newFile st)
           = update_active_session
               (\<lambda>s. s\<lparr>session_sceneImage := newFile, session_originalDimensions := dims,
                       session_generations := []\<rparr>) st"
  using assms
  by (simp add: handleSaveCanvasEdit_def update_active_session_def split: option.splits)

theorem replace_base_resets_history_witness:
  "getImageDimensions (example_boundary example_image_response)
       (File ''EEEE'' ''edited-9.png'' ''image/png'') = Inr \<lparr>width = 512, height = 256\<rparr>
   \<and> history example_state \<noteq> []
   \<and> history (handleSaveCanvasEdit (example_boundary example_image_response)
        (File ''EEEE'' ''edited-9.png'' ''image/png'') example_state) = []
   \<and> historyIndex (handleSaveCanvasEdit (example_boundary example_image_response)
        (File ''EEEE'' ''edited-9.png'' ''image/png'') example_state) = - 1
   \<and> sessions (handleSaveCanvasEdit (example_boundary example_image_response)
        (File ''EEEE'' ''edited-9.png'' ''image/png'') example_state)
       = [example_session
            \<lparr>session_sceneImage := File ''EEEE'' ''edited-9.png'' ''image/png'',
             session_originalDimensions := \<lparr>width = 512, height = 256\<rparr>,
             session_generations := []\<rparr>]
   \<and> map session_id (sessions (handleSaveCanvasEdit (example_boundary example_image_response)
        (File ''EEEE'' ''edited-9.png'' ''image/png'') example_state)) = [''1762160400000'']
   \<and> map session_name (sessions (handleSaveCanvasEdit (example_boundary example_image_response)
        (File ''EEEE'' ''edited-9.png'' ''image/png'') example_state)) = [''Design 1'']"
proof -
  have d: "getImageDimensions (example_boundary example_image_response)
       (File ''EEEE'' ''edited-9.png'' ''image/png'') = Inr \<lparr>width = 512, height = 256\<rparr>"
    by (simp add: example_boundary_simps)
  show ?thesis
    using replace_base_resets_history [OF d, of example_state] d
    by (simp add: example_state_fields example_generations_def update_active_session_def
        example_session_def)
qed

section \<open>The cursor stays in range\<close>

lemma cursor_clear: "cursor_in_range (clearWorkingState st)"
  by (simp add: cursor_in_range_def clearWorkingState_def)

lemma cursor_sessions_upd: "cursor_in_range (st\<lparr>sessions := ss\<rparr>) = cursor_in_range st"
  by (simp add: cursor_in_range_def)

lemma cursor_new_project: "cursor_in_range (handleNewProject st)"
  by (simp add: cursor_in_range_def handleNewProject_def clearWorkingState_def)

lemma cursor_select_in:
  "cursor_in_range st \<Longrightarrow> cursor_in_range (handleSelectSession_in ss sid st)"
  by (simp add: cursor_in_range_def handleSelectSession_in_def clearWorkingState_def
      split: option.splits)

lemma cursor_select: "cursor_in_range st \<Longrightarrow> cursor_in_range (handleSelectSession sid st)"
  by (simp add: handleSelectSession_def cursor_select_in)

lemma cursor_delete:
  assumes "cursor_in_range st"
  shows "cursor_in_range (handleDeleteSession sid st)"
proof (cases "activeSessionId st = Some sid")
  case True
  show ?thesis
  proof (cases "filter (\<lambda>s. session_id s \<noteq> sid) (sessions st)")
    case Nil
    then show ?thesis using True
      by (simp add: handleDeleteSession_def cursor_new_project)
  next
    case (Cons first rest)
    then show ?thesis using True assms
      by (simp add: handleDeleteSession_def cursor_sessions_upd cursor_select)
  qed
next
  case False
  then show ?thesis using assms
    by (simp add: handleDeleteSession_def Let_def cursor_sessions_upd)
qed

lemma cursor_loaded: "cursor_in_range st \<Longrightarrow> cursor_in_range (sessions_loaded loaded st)"
  by (cases loaded)
     (simp_all add: sessions_loaded_def handleSelectSession_in_def cursor_in_range_def)

lemma cursor_upload:
  "cursor_in_range st \<Longrightarrow> cursor_in_range (handleSceneImageUpload b n1 n2 f st)"
  by (simp add: handleSceneImageUpload_def cursor_in_range_def Let_def split: sum.splits)

lemma cursor_prompt_upd: "cursor_in_range (st\<lparr>prompt := p\<rparr>) = cursor_in_range st"
  by (simp add: cursor_in_range_def)

lemma cursor_error_upd: "cursor_in_range (st\<lparr>error := e\<rparr>) = cursor_in_range st"
  by (simp add: cursor_in_range_def)

lemma cursor_instant:
  "cursor_in_range st \<Longrightarrow> cursor_in_range (handleInstantStart b n1 n2 st)"
  by (simp add: handleInstantStart_def Let_def cursor_upload cursor_prompt_upd cursor_error_upd
      split: sum.splits)

lemma cursor_add_in: "cursor_in_range (addImageToHistory_in h i x st)"
  by (simp add: cursor_in_range_def addImageToHistory_in_def Let_def)

lemma cursor_add: "cursor_in_range (addImageToHistory x st)"
  by (simp add: addImageToHistory_def cursor_add_in)

lemma cursor_generate_settled:
  "cursor_in_range st \<Longrightarrow> cursor_in_range (handleGenerate_settled b n st outcome)"
  using cursor_add [of _ "st\<lparr>isLoading := True, error := None\<rparr>"]
  by (simp add: handleGenerate_settled_def Let_def cursor_in_range_def
      split: sum.splits prod.splits)

lemma cursor_generate: "cursor_in_range st \<Longrightarrow> cursor_in_range (handleGenerate b n st)"
  by (simp add: handleGenerate_def cursor_generate_settled cursor_error_upd
      split: option.splits)

lemma cursor_rotate: "cursor_in_range st \<Longrightarrow> cursor_in_range (handleRotateView b n d st)"
  using cursor_add_in [of "rotateView_history st" "rotateView_historyIndex st" _
      "st\<lparr>isLoading := True, error := None\<rparr>"]
  by (simp add: handleRotateView_def Let_def cursor_in_range_def
      split: option.splits sum.splits)

lemma cursor_revert: "cursor_in_range (handleRevertToOriginal st)"
  by (simp add: cursor_in_range_def handleRevertToOriginal_def)

lemma cursor_save_sketch:
  "cursor_in_range st \<Longrightarrow> cursor_in_range (handleSaveSketch b n url st)"
  by (simp add: cursor_in_range_def handleSaveSketch_def split: sum.splits)

lemma cursor_save_canvas:
  "cursor_in_range st \<Longrightarrow> cursor_in_range (handleSaveCanvasEdit b f st)"
  by (simp add: cursor_in_range_def handleSaveCanvasEdit_def split: sum.splits)

lemma cursor_undo: "cursor_in_range st \<Longrightarrow> cursor_in_range (handleUndo st)"
  by (simp add: cursor_in_range_def handleUndo_def)

lemma cursor_redo: "cursor_in_range st \<Longrightarrow> cursor_in_range (handleRedo st)"
  by (simp add: cursor_in_range_def handleRedo_def)

lemma cursor_small:
  "cursor_in_range (handleRemoveSketch st) = cursor_in_range st"
  "cursor_in_range (handleRemoveProduct st) = cursor_in_range st"
  "cursor_in_range (handleRemoveBackground st) = cursor_in_range st"
  "cursor_in_range (handleAddCustomProduct f st) = cursor_in_range st"
  "cursor_in_range (handleAddCustomBackground f st) = cursor_in_range st"
  "cursor_in_range (st\<lparr>isDrawingModalOpen := m\<rparr>) = cursor_in_range st"
  "cursor_in_range (st\<lparr>isAddProductModalOpen := m\<rparr>) = cursor_in_range st"
  "cursor_in_range (st\<lparr>isAddBackgroundModalOpen := m\<rparr>) = cursor_in_range st"
  by (simp_all add: cursor_in_range_def handleRemoveSketch_def handleRemoveProduct_def
      handleRemoveBackground_def handleAddCustomProduct_def handleAddCustomBackground_def)

lemma cursor_fire: "cursor_in_range st \<Longrightarrow> cursor_in_range (fire ev st)"
  by (cases ev)
     (simp_all add: cursor_loaded cursor_new_project cursor_select cursor_delete cursor_upload
        cursor_instant cursor_generate cursor_rotate cursor_revert cursor_save_sketch
        cursor_save_canvas cursor_undo cursor_redo cursor_small cursor_prompt_upd)

lemma cursor_initial: "cursor_in_range initial_state"
  by (simp add: cursor_in_range_def initial_state_def)

lemma cursor_memoise: "cursor_in_range (memoise st) = cursor_in_range st"
  by (simp add: cursor_in_range_def memoise_def)

lemma cursor_render: "cursor_in_range (render st) = cursor_in_range st"
  by (simp add: render_def cursor_memoise)

lemma reachable_cursor: "reachable st \<Longrightarrow> cursor_in_range st"
  by (induction rule: reachable.induct)
     (simp_all add: cursor_initial cursor_fire cursor_memoise cursor_render)

text \<open>
  Claim C7: in every reachable state the cursor lies between \<open>-1\<close> and the last index of
  the history. There \<open>handleUndo\<close> changes nothing when the cursor is \<open>-1\<close> and otherwise
  lowers it by one; \<open>handleRedo\<close> changes nothing when the cursor is the last index and
  otherwise raises it by one; both lead to reachable states again.
\<close>

theorem cursor_bounds:
  assumes "reachable st"
  shows "- 1 \<le> historyIndex st \<and> historyIndex st \<le> int (length (history st)) - 1
       \<and> (if historyIndex st = - 1 then handleUndo st = st
          else handleUndo st = st\<lparr>historyIndex := historyIndex st - 1\<rparr>)
       \<and> (if historyIndex st = int (length (history st)) - 1 then handleRedo st = st
          else handleRedo st = st\<lparr>historyIndex := historyIndex st + 1\<rparr>)
       \<and> reachable (handleUndo st) \<and> reachable (handleRedo st)"
proof -
  have inv: "- 1 \<le> historyIndex st" "historyIndex st \<le> int (length (history st)) - 1"
    using reachable_cursor [OF assms] by (simp_all add: cursor_in_range_def)
  have undo: "if historyIndex st = - 1 then handleUndo st = st
          else handleUndo st = st\<lparr>historyIndex := historyIndex st - 1\<rparr>"
    using inv(1) by (simp add: handleUndo_def)
  have redo: "if historyIndex st = int (length (history st)) - 1 then handleRedo st = st
          else handleRedo st = st\<lparr>historyIndex := historyIndex st + 1\<rparr>"
    using inv(2) by (simp add: handleRedo_def)
  have "reachable (fire Undo st)" "reachable (fire Redo st)"
    using assms by (rule reachable_fire)+
  then show ?thesis using inv undo redo by simp
qed

text \<open>A reachable state with one generated image: upload, type a prompt, generate.\<close>

lemma example_run:
  "fire (Generate (example_boundary example_image_response) 5)
     (fire (SetPrompt ''add a pool'')
        (fire (SceneImageUpload (example_boundary example_image_response) 3 3 example_scene)
           initial_state))
   = initial_state
       \<lparr>sessions :=
          [\<lparr>session_id = ''3'', session_name = ''Design 1'', session_timestamp = 3,
            session_thumbnail = ''data:image/png;base64,AAAA'', session_sceneImage = example_scene,
            session_originalDimensions = \<lparr>width = 512, height = 256\<rparr>,
            session_generations =
              [File ''data:image/png;base64,iVBORw0KGgo='' ''generated-scene-5.jpeg''
                 ''image/jpeg'']\<rparr>],
        activeSessionId := Some ''3'',
        sceneImage := Some example_scene,
        history :=
          [File ''data:image/png;base64,iVBORw0KGgo='' ''generated-scene-5.jpeg'' ''image/jpeg''],
        historyIndex := 0,
        originalDimensions := Some \<lparr>width = 512, height = 256\<rparr>,
        debugImageUrl_state := Some ''data:image/jpeg;base64,AAAA'',
        debugPrompt := Some (prompt_base ''add a pool'' @ prompt_final)\<rparr>"
  by (simp add: handleSceneImageUpload_def handleGenerate_def handleGenerate_settled_def
      currentWorkingImage_def currentGeneratedImage_def index_at_def initial_state_def
      redesignRoom_def redesign_submit_def redesign_request_def fileToDataUrl_def
      fileToPart_example example_boundary_simps await_Inr imagePart_example
      addImageToHistory_def addImageToHistory_in_def update_active_session_def slice_to_def
      Let_def example_scene_def digit_char_def toString.simps)

theorem cursor_bounds_witness:
  "reachable
     (fire (Generate (example_boundary example_image_response) 5)
        (fire (SetPrompt ''add a pool'')
           (fire (SceneImageUpload (example_boundary example_image_response) 3 3 example_scene)
              initial_state)))
   \<and> historyIndex
       (fire (Generate (example_boundary example_image_response) 5)
          (fire (SetPrompt ''add a pool'')
             (fire (SceneImageUpload (example_boundary example_image_response) 3 3 example_scene)
                initial_state))) = 0
   \<and> length (history
       (fire (Generate (example_boundary example_image_response) 5)
          (fire (SetPrompt ''add a pool'')
             (fire (SceneImageUpload (example_boundary example_image_response) 3 3 example_scene)
                initial_state)))) = 1
   \<and> historyIndex (handleUndo
       (fire (Generate (example_boundary example_image_response) 5)
          (fire (SetPrompt ''add a pool'')
             (fire (SceneImageUpload (example_boundary example_image_response) 3 3 example_scene)
                initial_state)))) = - 1
   \<and> historyIndex (handleRedo
       (fire (Generate (example_boundary example_image_response) 5)
          (fire (SetPrompt ''add a pool'')
             (fire (SceneImageUpload (example_boundary example_image_response) 3 3 example_scene)
                initial_state)))) = 0"
proof -
  let ?st = "fire (Generate (example_boundary example_image_response) 5)
        (fire (SetPrompt ''add a pool'')
           (fire (SceneImageUpload (example_boundary example_image_response) 3 3 example_scene)
              initial_state))"
  have r: "reachable ?st"
    by (intro reachable_fire reachable_initial)
  have i: "historyIndex ?st = 0" and l: "length (history ?st) = 1"
    unfolding example_run by simp_all
  from cursor_bounds [OF r] i l
  have "handleUndo ?st = ?st\<lparr>historyIndex := historyIndex ?st - 1\<rparr>" "handleRedo ?st = ?st"
    by simp_all
  then have "historyIndex (handleUndo ?st) = - 1" "historyIndex (handleRedo ?st) = 0"
    using i by simp_all
  with r i l show ?thesis by simp
qed

section \<open>Session ids\<close>

lemma digit_char_inj:
  assumes "a < 10" and "b < 10" and "digit_char a = digit_char b"
  shows "a = b"
proof -
  have d: "distinct ''0123456789''" by simp
  have "a < length ''0123456789''" "b < length ''0123456789''" using assms(1,2) by simp_all
  with d assms(3) show ?thesis unfolding digit_char_def by (simp only: nth_eq_iff_index_eq)
qed

lemma toString_unfold:
  "toString n = (if n < 10 then [digit_char n] else toString (n div 10) @ [digit_char (n mod 10)])"
  by (rule toString.simps)

lemma toString_nonempty: "toString n \<noteq> []"
  by (subst toString_unfold) simp

lemma toString_last: "last (toString n) = digit_char (n mod 10)"
  by (subst toString_unfold) simp

lemma toString_butlast: "butlast (toString n) = (if n < 10 then [] else toString (n div 10))"
  by (subst toString_unfold) simp

lemma toString_inj: "toString m = toString n \<Longrightarrow> m = n"
proof (induction m arbitrary: n rule: toString.induct)
  case (1 m)
  from "1.prems" have "last (toString m) = last (toString n)" by simp
  then have "digit_char (m mod 10) = digit_char (n mod 10)" by (simp only: toString_last)
  then have lastd: "m mod 10 = n mod 10" by (intro digit_char_inj) simp_all
  from "1.prems" have bl: "butlast (toString m) = butlast (toString n)" by simp
  show ?case
  proof (cases "m < 10")
    case True
    then have "butlast (toString n) = []" using bl by (simp add: toString_butlast)
    then have "n < 10" using toString_nonempty [of "n div 10"]
      by (cases "n < 10") (simp_all add: toString_butlast)
    with True lastd show ?thesis by simp
  next
    case False
    then have m: "butlast (toString m) = toString (m div 10)" by (simp add: toString_butlast)
    have n: "\<not> n < 10"
    proof
      assume "n < 10"
      then have "butlast (toString n) = []" by (simp add: toString_butlast)
      with bl m toString_nonempty [of "m div 10"] show False by simp
    qed
    then have "butlast (toString n) = toString (n div 10)" by (simp add: toString_butlast)
    with bl m have "toString (m div 10) = toString (n div 10)" by simp
    with False "1.IH" have "m div 10 = n div 10" by simp
    with lastd show ?thesis by (metis div_mult_mod_eq)
  qed
qed

lemma upload_sessions:
  assumes "getImageDimensions b f = Inr dims" and "readAsDataURL b f = Inr url"
  shows "sessions (handleSceneImageUpload b now_id now_ts f st)
           = \<lparr>session_id = toString now_id,
              session_name = ''Design '' @ toString (length (sessions st) + 1),
              session_timestamp = now_ts, session_thumbnail = url, session_sceneImage = f,
              session_originalDimensions = dims, session_generations = []\<rparr> # sessions st"
  using assms by (simp add: handleSceneImageUpload_def Let_def)

lemma upload_sessions_failed:
  assumes "getImageDimensions b f = Inl e \<or> readAsDataURL b f = Inl e"
  shows "sessions (handleSceneImageUpload b now_id now_ts f st) = sessions st"
  using assms by (auto simp add: handleSceneImageUpload_def Let_def split: sum.splits)

text \<open>
  Claim C8, as stated, fails: nothing in \<open>handleSceneImageUpload\<close> compares the new id
  with the ids that exist. Two uploads for which \<open>Date.now()\<close> gives the same reading,
  with \<open>handleNewProject\<close> in between, leave two sessions with the same id.
\<close>

theorem duplicate_session_id:
  "map session_id (sessions
        (handleSceneImageUpload (example_boundary example_image_response)
           1762160400000 1762160400000 example_product
           (handleNewProject
              (handleSceneImageUpload (example_boundary example_image_response)
                 1762160400000 1762160400000 example_scene initial_state))))
     = [''1762160400000'', ''1762160400000'']
   \<and> \<not> distinct (map session_id (sessions
        (handleSceneImageUpload (example_boundary example_image_response)
           1762160400000 1762160400000 example_product
           (handleNewProject
              (handleSceneImageUpload (example_boundary example_image_response)
                 1762160400000 1762160400000 example_scene initial_state)))))"
  by (simp add: handleSceneImageUpload_def handleNewProject_def clearWorkingState_def
      initial_state_def example_boundary_simps Let_def toString.simps digit_char_def)

text \<open>
  Claim C8, amended: a session created by \<open>handleSceneImageUpload\<close> is put in front of
  the list with the decimal string of the clock reading as its id. The ids of the new list
  are pairwise distinct exactly when the old ids were and that string is not among them;
  when the old ids are the strings of earlier clock readings, exactly when those readings
  are pairwise distinct and the new reading is none of them.
\<close>

theorem new_session_id:
  assumes "getImageDimensions b f = Inr dims" and "readAsDataURL b f = Inr url"
  shows "map session_id (sessions (handleSceneImageUpload b now_id now_ts f st))
           = toString now_id # map session_id (sessions st)
       \<and> (distinct (map session_id (sessions (handleSceneImageUpload b now_id now_ts f st)))
            \<longleftrightarrow> toString now_id \<notin> set (map session_id (sessions st))
                \<and> distinct (map session_id (sessions st)))
       \<and> (\<forall>readings. map session_id (sessions st) = map toString readings \<longrightarrow>
            (distinct (map session_id (sessions (handleSceneImageUpload b now_id now_ts f st)))
               \<longleftrightarrow> now_id \<notin> set readings \<and> distinct readings))"
proof -
  have ids: "map session_id (sessions (handleSceneImageUpload b now_id now_ts f st))
           = toString now_id # map session_id (sessions st)"
    by (simp only: upload_sessions [OF assms] list.map designSession.simps)
  have inj: "inj toString" by (rule injI) (rule toString_inj)
  have "distinct (toString now_id # map toString readings)
          \<longleftrightarrow> now_id \<notin> set readings \<and> distinct readings" for readings
    using distinct_map [of toString "now_id # readings"] inj
    by (auto simp add: inj_on_def dest: toString_inj)
  then show ?thesis unfolding ids by auto
qed

theorem new_session_id_witness:
  "getImageDimensions (example_boundary example_image_response) example_product
     = Inr \<lparr>width = 512, height = 256\<rparr>
   \<and> readAsDataURL (example_boundary example_image_response) example_product
     = Inr ''data:image/png;base64,BBBB''
   \<and> map session_id (sessions example_state) = map toString [1762160400000]
   \<and> map session_id (sessions (handleSceneImageUpload (example_boundary example_image_response)
        1762160460000 1762160460000 example_product example_state))
       = [''1762160460000'', ''1762160400000'']
   \<and> distinct (map session_id (sessions (handleSceneImageUpload
        (example_boundary example_image_response)
        1762160460000 1762160460000 example_product example_state)))"
proof -
  have d: "getImageDimensions (example_boundary example_image_response) example_product
     = Inr \<lparr>width = 512, height = 256\<rparr>"
    by (simp add: example_boundary_simps)
  have u: "readAsDataURL (example_boundary example_image_response) example_product
     = Inr ''data:image/png;base64,BBBB''"
    by (simp add: example_boundary_simps example_product_def)
  have old: "toString 1762160400000 = ''1762160400000''"
    by (simp add: toString.simps digit_char_def)
  have new: "toString 1762160460000 = ''1762160460000''"
    by (simp add: toString.simps digit_char_def)
  have lit: "map session_id (sessions example_state) = [''1762160400000'']"
    by (simp add: example_state_fields example_session_def)
  have ids: "map session_id (sessions example_state) = map toString [1762160400000]"
    unfolding lit by (simp add: old)
  from new_session_id [OF d u, of 1762160460000 1762160460000 example_state]
  have "map session_id (sessions (handleSceneImageUpload (example_boundary example_image_response)
        1762160460000 1762160460000 example_product example_state))
       = [''1762160460000'', ''1762160400000'']"
    and "distinct (map session_id (sessions (handleSceneImageUpload
        (example_boundary example_image_response)
        1762160460000 1762160460000 example_product example_state)))"
    unfolding lit new by simp_all
  with d u ids show ?thesis by simp
qed

section \<open>Loading the sessions\<close>

text \<open>
  Claim C9, as stated, fails: in a browser without IndexedDB \<open>openDB\<close> rejects, and
  \<open>loadSessionsFromDB\<close> returns the empty list as a normal result.
\<close>

theorem load_swallows_counterexample:
  "openDB \<lparr>indexedDB = None\<rparr> = Inl (Error ''IndexedDB is not supported by this browser.'')
   \<and> loadSessionsFromDB \<lparr>indexedDB = None\<rparr> = Inr []"
  by (simp add: loadSessionsFromDB_def openDB_def)

text \<open>
  Claim C9, amended: \<open>loadSessionsFromDB\<close> catches a failure to open the store, and a
  failure to start the transaction, and returns the empty session list; only a failure of
  the \<open>getAll\<close> request reaches the caller, as the error of that request.
\<close>

theorem load_error_handling:
  "(openDB w1 = Inl e1 \<longrightarrow> loadSessionsFromDB w1 = Inr [])
   \<and> (openDB w2 = Inr db2 \<and> transaction db2 = Inl e2 \<longrightarrow> loadSessionsFromDB w2 = Inr [])
   \<and> (openDB w3 = Inr db3 \<and> transaction db3 = Inr store3 \<and> getAll store3 = Inl e3 \<longrightarrow>
        loadSessionsFromDB w3 = Inl e3)"
  by (simp add: loadSessionsFromDB_def)

theorem load_error_handling_witness:
  "openDB \<lparr>indexedDB = Some (Inl (Error ''VersionError''))\<rparr> = Inl (Error ''VersionError'')
   \<and> loadSessionsFromDB \<lparr>indexedDB = Some (Inl (Error ''VersionError''))\<rparr> = Inr []
   \<and> openDB \<lparr>indexedDB = Some (Inr \<lparr>transaction = Inl (Error ''NotFoundError'')\<rparr>)\<rparr>
       = Inr \<lparr>transaction = Inl (Error ''NotFoundError'')\<rparr>
   \<and> loadSessionsFromDB \<lparr>indexedDB = Some (Inr \<lparr>transaction = Inl (Error ''NotFoundError'')\<rparr>)\<rparr>
       = Inr []
   \<and> openDB \<lparr>indexedDB = Some (Inr \<lparr>transaction = Inr \<lparr>getAll = Inl (Error ''UnknownError'')\<rparr>\<rparr>)\<rparr>
       = Inr \<lparr>transaction = Inr \<lparr>getAll = Inl (Error ''UnknownError'')\<rparr>\<rparr>
   \<and> loadSessionsFromDB
        \<lparr>indexedDB = Some (Inr \<lparr>transaction = Inr \<lparr>getAll = Inl (Error ''UnknownError'')\<rparr>\<rparr>)\<rparr>
       = Inl (Error ''UnknownError'')"
  using load_error_handling
    [of "\<lparr>indexedDB = Some (Inl (Error ''VersionError''))\<rparr>" "Error ''VersionError''"
        "\<lparr>indexedDB = Some (Inr \<lparr>transaction = Inl (Error ''NotFoundError'')\<rparr>)\<rparr>"
        "\<lparr>transaction = Inl (Error ''NotFoundError'')\<rparr>" "Error ''NotFoundError''"
        "\<lparr>indexedDB = Some (Inr \<lparr>transaction = Inr \<lparr>getAll = Inl (Error ''UnknownError'')\<rparr>\<rparr>)\<rparr>"
        "\<lparr>transaction = Inr \<lparr>getAll = Inl (Error ''UnknownError'')\<rparr>\<rparr>"
        "\<lparr>getAll = Inl (Error ''UnknownError'')\<rparr>" "Error ''UnknownError''"]
  by (simp add: openDB_def)

section \<open>Revert to the original\<close>

lemma revert_fields:
  "history (handleRevertToOriginal st) = []"
  "historyIndex (handleRevertToOriginal st) = - 1"
  "sketchedImage (handleRevertToOriginal st) = None"
  "productImage (handleRevertToOriginal st) = productImage st"
  "backgroundImage (handleRevertToOriginal st) = backgroundImage st"
  "sceneImage (handleRevertToOriginal st) = sceneImage st"
  "originalDimensions (handleRevertToOriginal st) = originalDimensions st"
  "prompt (handleRevertToOriginal st) = prompt st"
  by (simp_all add: handleRevertToOriginal_def)

lemma revert_working_image: "currentWorkingImage (handleRevertToOriginal st) = sceneImage st"
  by (simp add: currentWorkingImage_def currentGeneratedImage_def index_at_def revert_fields)

lemma redesign_request_product:
  assumes "redesign_request b room u (Some product) bg sk = Inr (ps, t)"
  shows "\<exists>d. fileToPart b product = Inr (InlineDataPart d) \<and> InlineDataPart d \<in> set ps"
    and "sublist prompt_product t"
proof -
  from redesign_request_Inr(1) [OF assms] obtain p0 pp pb where
    pp: "fileToPart b product = Inr (hd pp)" "length pp = 1"
    and ps: "ps = [p0] @ pp @ pb @ [TextPart t]"
    by auto
  from pp(2) have "hd pp \<in> set pp" by (cases pp) simp_all
  with ps have "hd pp \<in> set ps" by simp
  with pp(1) fileToPart_inline [OF pp(1)]
  show "\<exists>d. fileToPart b product = Inr (InlineDataPart d) \<and> InlineDataPart d \<in> set ps"
    by auto
  have "t = (prompt_base u @ (if sk then prompt_sketch else [])) @ prompt_product
             @ ((if bg = None then [] else prompt_background u) @ prompt_final)"
    using redesign_request_Inr(2) [OF assms] by simp
  then show "sublist prompt_product t" by (metis sublist_appendI)
qed

lemma redesign_request_background:
  assumes "redesign_request b room u p (Some background) sk = Inr (ps, t)"
  shows "\<exists>d. fileToPart b background = Inr (InlineDataPart d) \<and> InlineDataPart d \<in> set ps"
    and "sublist (prompt_background u) t"
proof -
  from redesign_request_Inr(1) [OF assms] obtain p0 pp pb where
    pb: "fileToPart b background = Inr (hd pb)" "length pb = 1"
    and ps: "ps = [p0] @ pp @ pb @ [TextPart t]"
    by auto
  from pb(2) have "hd pb \<in> set pb" by (cases pb) simp_all
  with ps have "hd pb \<in> set ps" by simp
  with pb(1) fileToPart_inline [OF pb(1)]
  show "\<exists>d. fileToPart b background = Inr (InlineDataPart d) \<and> InlineDataPart d \<in> set ps"
    by auto
  have "t = (prompt_base u @ (if sk then prompt_sketch else [])
             @ (if p = None then [] else prompt_product)) @ prompt_background u @ prompt_final"
    using redesign_request_Inr(2) [OF assms] by simp
  then show "sublist (prompt_background u) t" by (metis sublist_appendI)
qed

text \<open>What a successful \<open>redesignRoom\<close> has done: the request that it sent to the model is
  the one composed from the resized image, the prompt and the two selections that it was
  called with, and the prompt that it reports is the text of that request.\<close>

lemma redesignRoom_Inr:
  assumes "redesignRoom b img w h u p bg sk = Inr r"
  shows "\<exists>resized request resp.
           resizeImage b img MAX_DIMENSION = Inr resized
         \<and> redesign_request b resized u p bg sk = Inr (request, finalPrompt r)
         \<and> generateContent b request = Inr resp
         \<and> imagePartFromResponse resp \<noteq> None"
proof -
  from assms obtain dbg t resp where
    s: "redesign_submit b img u p bg sk = Inr (dbg, t, resp)"
    and rest: "(case imagePartFromResponse resp of
        Some p \<Rightarrow>
          (case inlineData p of
             Some d \<Rightarrow>
               await (cropToOriginalAspectRatio b
                        (''data:'' @ mimeType d @ '';base64,'' @ data d) w h MAX_DIMENSION)
                 (\<lambda>finalUrl. Inr \<lparr>finalImageUrl = finalUrl, debugImageUrl = dbg,
                                   finalPrompt = t\<rparr>)
           | None \<Rightarrow> Inl (Error ''The AI model did not return an image. Please try again.''))
      | None \<Rightarrow> Inl (Error ''The AI model did not return an image. Please try again.'')) = Inr r"
    by (auto simp add: redesignRoom_def await_Inr_iff)
  from rest have t: "finalPrompt r = t" and i: "imagePartFromResponse resp \<noteq> None"
    by (auto simp add: await_Inr_iff split: option.splits)
  from s obtain resized request where
    "resizeImage b img MAX_DIMENSION = Inr resized"
    "redesign_request b resized u p bg sk = Inr (request, t)"
    "generateContent b request = Inr resp"
    by (auto simp add: redesign_submit_def await_Inr_iff)
  with t i show ?thesis by auto
qed

lemma redesignRoom_example:
  "redesignRoom (example_boundary example_image_response) example_scene 512 256
       ''add a stone path'' (Some example_product) (Some example_background) False
     = Inr \<lparr>finalImageUrl = ''data:image/png;base64,iVBORw0KGgo='',
            debugImageUrl = ''data:image/jpeg;base64,AAAA'',
            finalPrompt = prompt_base ''add a stone path'' @ prompt_product
              @ prompt_background ''add a stone path'' @ prompt_final\<rparr>"
  by (simp add: redesignRoom_def redesign_submit_def redesign_request_def fileToDataUrl_def
      fileToPart_example example_boundary_simps await_Inr imagePart_example Let_def
      example_scene_def example_product_def example_background_def)

lemma redesign_request_stone_path:
  "redesign_request (example_boundary example_image_response)
       (File ''AAAA'' ''house.png'' ''image/jpeg'') ''add a stone path''
       (Some example_product) (Some example_background) False
     = Inr ([InlineDataPart \<lparr>mimeType = ''image/jpeg'', data = ''AAAA''\<rparr>,
             InlineDataPart \<lparr>mimeType = ''image/png'', data = ''BBBB''\<rparr>,
             InlineDataPart \<lparr>mimeType = ''image/jpeg'', data = ''CCCC''\<rparr>,
             TextPart (prompt_base ''add a stone path'' @ prompt_product
                         @ prompt_background ''add a stone path'' @ prompt_final)],
            prompt_base ''add a stone path'' @ prompt_product
              @ prompt_background ''add a stone path'' @ prompt_final)"
  by (simp add: redesign_request_def fileToPart_example await_Inr Let_def
      example_product_def example_background_def)

text \<open>
  Claim C10: \<open>handleRevertToOriginal\<close> empties the history, puts the cursor at \<open>-1\<close> and
  clears the sketch, and leaves the selected product image and background image as they
  are. The next \<open>handleGenerate\<close> works on the base image and hands both selections to
  \<open>redesignRoom\<close>. Whenever \<open>redesignRoom\<close>, called with the selections of the reverted
  state, succeeds, the request that it sent to the model was composed with the selections
  made before the revert: it carries the part of each selected image, and its text, which
  is the reported prompt, contains the instruction block of each. The same holds of every
  request composed with them.
\<close>

theorem revert_keeps_product_and_background:
  "history (handleRevertToOriginal st) = []
   \<and> historyIndex (handleRevertToOriginal st) = - 1
   \<and> sketchedImage (handleRevertToOriginal st) = None
   \<and> productImage (handleRevertToOriginal st) = productImage st
   \<and> backgroundImage (handleRevertToOriginal st) = backgroundImage st
   \<and> (sceneImage st = Some img \<and> originalDimensions st = Some dims \<and> prompt st \<noteq> [] \<longrightarrow>
        handleGenerate b now (handleRevertToOriginal st)
          = handleGenerate_settled b now (handleRevertToOriginal st)
              (redesignRoom b img (width dims) (height dims) (prompt st)
                 (productImage st) (backgroundImage st) False))
   \<and> (redesignRoom b img w h u (productImage (handleRevertToOriginal st))
          (backgroundImage (handleRevertToOriginal st)) sk = Inr r \<longrightarrow>
        (\<exists>resized request resp.
           resizeImage b img MAX_DIMENSION = Inr resized
         \<and> redesign_request b resized u (productImage st) (backgroundImage st) sk
             = Inr (request, finalPrompt r)
         \<and> generateContent b request = Inr resp
         \<and> imagePartFromResponse resp \<noteq> None
         \<and> (\<forall>product. productImage st = Some product \<longrightarrow>
              (\<exists>d. fileToPart b product = Inr (InlineDataPart d)
                   \<and> InlineDataPart d \<in> set request)
              \<and> sublist prompt_product (finalPrompt r))
         \<and> (\<forall>background. backgroundImage st = Some background \<longrightarrow>
              (\<exists>d. fileToPart b background = Inr (InlineDataPart d)
                   \<and> InlineDataPart d \<in> set request)
              \<and> sublist (prompt_background u) (finalPrompt r))))
   \<and> (redesign_request b room u (productImage (handleRevertToOriginal st))
          (backgroundImage (handleRevertToOriginal st)) sk = Inr (ps, t) \<longrightarrow>
        (\<forall>product. productImage st = Some product \<longrightarrow>
           (\<exists>d. fileToPart b product = Inr (InlineDataPart d) \<and> InlineDataPart d \<in> set ps)
           \<and> sublist prompt_product t)
        \<and> (\<forall>background. backgroundImage st = Some background \<longrightarrow>
           (\<exists>d. fileToPart b background = Inr (InlineDataPart d) \<and> InlineDataPart d \<in> set ps)
           \<and> sublist (prompt_background u) t))"
proof -
  have fields: "history (handleRevertToOriginal st) = []"
    "historyIndex (handleRevertToOriginal st) = - 1"
    "sketchedImage (handleRevertToOriginal st) = None"
    "productImage (handleRevertToOriginal st) = productImage st"
    "backgroundImage (handleRevertToOriginal st) = backgroundImage st"
    by (simp_all add: revert_fields)
  have request: "(\<forall>product. productImage st = Some product \<longrightarrow>
           (\<exists>d. fileToPart b product = Inr (InlineDataPart d) \<and> InlineDataPart d \<in> set ps)
           \<and> sublist prompt_product t)
        \<and> (\<forall>background. backgroundImage st = Some background \<longrightarrow>
           (\<exists>d. fileToPart b background = Inr (InlineDataPart d) \<and> InlineDataPart d \<in> set ps)
           \<and> sublist (prompt_background u) t)"
    if "redesign_request b room u (productImage st) (backgroundImage st) sk = Inr (ps, t)"
    for room ps t
    using that redesign_request_product [of b room u _ "backgroundImage st" sk ps t]
      redesign_request_background [of b room u "productImage st" _ sk ps t]
    by auto
  have call: "handleGenerate b now (handleRevertToOriginal st)
          = handleGenerate_settled b now (handleRevertToOriginal st)
              (redesignRoom b img (width dims) (height dims) (prompt st)
                 (productImage st) (backgroundImage st) False)"
    if "sceneImage st = Some img \<and> originalDimensions st = Some dims \<and> prompt st \<noteq> []"
    using that handleGenerate_call [of "handleRevertToOriginal st" img dims b now]
    by (simp add: revert_fields revert_working_image)
  have room: "\<exists>resized request resp.
           resizeImage b img MAX_DIMENSION = Inr resized
         \<and> redesign_request b resized u (productImage st) (backgroundImage st) sk
             = Inr (request, finalPrompt r)
         \<and> generateContent b request = Inr resp
         \<and> imagePartFromResponse resp \<noteq> None
         \<and> (\<forall>product. productImage st = Some product \<longrightarrow>
              (\<exists>d. fileToPart b product = Inr (InlineDataPart d)
                   \<and> InlineDataPart d \<in> set request)
              \<and> sublist prompt_product (finalPrompt r))
         \<and> (\<forall>background. backgroundImage st = Some background \<longrightarrow>
              (\<exists>d. fileToPart b background = Inr (InlineDataPart d)
                   \<and> InlineDataPart d \<in> set request)
              \<and> sublist (prompt_background u) (finalPrompt r))"
    if "redesignRoom b img w h u (productImage st) (backgroundImage st) sk = Inr r"
  proof -
    from redesignRoom_Inr [OF that] obtain resized request resp where
      x: "resizeImage b img MAX_DIMENSION = Inr resized"
        "redesign_request b resized u (productImage st) (backgroundImage st) sk
           = Inr (request, finalPrompt r)"
        "generateContent b request = Inr resp"
        "imagePartFromResponse resp \<noteq> None"
      by blast
    from request [OF x(2)] x show ?thesis by blast
  qed
  show ?thesis
    using call room request by (simp only: fields) blast
qed

theorem revert_keeps_product_and_background_witness:
  "sceneImage (example_state\<lparr>productImage := Some example_product,
        backgroundImage := Some example_background, sketchedImage := Some example_sketch\<rparr>)
     = Some example_scene
   \<and> productImage (handleRevertToOriginal
        (example_state\<lparr>productImage := Some example_product,
           backgroundImage := Some example_background, sketchedImage := Some example_sketch\<rparr>))
       = Some example_product
   \<and> backgroundImage (handleRevertToOriginal
        (example_state\<lparr>productImage := Some example_product,
           backgroundImage := Some example_background, sketchedImage := Some example_sketch\<rparr>))
       = Some example_background
   \<and> history (handleRevertToOriginal
        (example_state\<lparr>productImage := Some example_product,
           backgroundImage := Some example_background, sketchedImage := Some example_sketch\<rparr>))
       = []
   \<and> handleGenerate (example_boundary example_image_response) 9
        (handleRevertToOriginal
           (example_state\<lparr>productImage := Some example_product,
              backgroundImage := Some example_background,
              sketchedImage := Some example_sketch\<rparr>))
       = handleGenerate_settled (example_boundary example_image_response) 9
           (handleRevertToOriginal
              (example_state\<lparr>productImage := Some example_product,
                 backgroundImage := Some example_background,
                 sketchedImage := Some example_sketch\<rparr>))
           (redesignRoom (example_boundary example_image_response) example_scene 512 256
              ''add a stone path'' (Some example_product) (Some example_background) False)
   \<and> redesignRoom (example_boundary example_image_response) example_scene 512 256
        ''add a stone path'' (Some example_product) (Some example_background) False
       = Inr \<lparr>finalImageUrl = ''data:image/png;base64,iVBORw0KGgo='',
              debugImageUrl = ''data:image/jpeg;base64,AAAA'',
              finalPrompt = prompt_base ''add a stone path'' @ prompt_product
                @ prompt_background ''add a stone path'' @ prompt_final\<rparr>
   \<and> (\<exists>request.
        redesign_request (example_boundary example_image_response)
          (File ''AAAA'' ''house.png'' ''image/jpeg'') ''add a stone path''
          (Some example_product) (Some example_background) False
         = Inr (request, prompt_base ''add a stone path'' @ prompt_product
                  @ prompt_background ''add a stone path'' @ prompt_final)
        \<and> generateContent (example_boundary example_image_response) request
            = Inr example_image_response
        \<and> InlineDataPart \<lparr>mimeType = ''image/png'', data = ''BBBB''\<rparr> \<in> set request
        \<and> InlineDataPart \<lparr>mimeType = ''image/jpeg'', data = ''CCCC''\<rparr> \<in> set request)
   \<and> sublist prompt_product
        (prompt_base ''add a stone path'' @ prompt_product
           @ prompt_background ''add a stone path'' @ prompt_final)
   \<and> sublist (prompt_background ''add a stone path'')
        (prompt_base ''add a stone path'' @ prompt_product
           @ prompt_background ''add a stone path'' @ prompt_final)"
proof -
  let ?st = "example_state\<lparr>productImage := Some example_product,
           backgroundImage := Some example_background, sketchedImage := Some example_sketch\<rparr>"
  let ?b = "example_boundary example_image_response"
  let ?t = "prompt_base ''add a stone path'' @ prompt_product
           @ prompt_background ''add a stone path'' @ prompt_final"
  let ?r = "\<lparr>finalImageUrl = ''data:image/png;base64,iVBORw0KGgo='',
              debugImageUrl = ''data:image/jpeg;base64,AAAA'', finalPrompt = ?t\<rparr>"
  note inst = revert_keeps_product_and_background
    [of ?st example_scene "\<lparr>width = 512, height = 256\<rparr>" ?b 9 512 256
        "''add a stone path''" False ?r
        "File ''AAAA'' ''house.png'' ''image/jpeg''"
        "[InlineDataPart \<lparr>mimeType = ''image/jpeg'', data = ''AAAA''\<rparr>,
          InlineDataPart \<lparr>mimeType = ''image/png'', data = ''BBBB''\<rparr>,
          InlineDataPart \<lparr>mimeType = ''image/jpeg'', data = ''CCCC''\<rparr>,
          TextPart ?t]" ?t]
  have f: "productImage ?st = Some example_product"
    "backgroundImage ?st = Some example_background"
    "sceneImage ?st = Some example_scene"
    "originalDimensions ?st = Some \<lparr>width = 512, height = 256\<rparr>"
    "prompt ?st = ''add a stone path''"
    by (simp_all add: example_state_fields)
  have kept: "productImage (handleRevertToOriginal ?st) = Some example_product"
    "backgroundImage (handleRevertToOriginal ?st) = Some example_background"
    "history (handleRevertToOriginal ?st) = []"
    using inst by (simp_all only: f)
  have "sceneImage ?st = Some example_scene
        \<and> originalDimensions ?st = Some \<lparr>width = 512, height = 256\<rparr> \<and> prompt ?st \<noteq> []"
    by (simp add: example_state_fields)
  with inst have call: "handleGenerate ?b 9 (handleRevertToOriginal ?st)
       = handleGenerate_settled ?b 9 (handleRevertToOriginal ?st)
           (redesignRoom ?b example_scene (width \<lparr>width = 512, height = 256\<rparr>)
              (height \<lparr>width = 512, height = 256\<rparr>) (prompt ?st)
              (productImage ?st) (backgroundImage ?st) False)"
    by blast
  have room: "redesignRoom ?b example_scene 512 256 ''add a stone path''
        (productImage (handleRevertToOriginal ?st)) (backgroundImage (handleRevertToOriginal ?st))
        False = Inr ?r"
    by (simp only: kept redesignRoom_example)
  with inst obtain resized request resp where
    x: "resizeImage ?b example_scene MAX_DIMENSION = Inr resized"
      "redesign_request ?b resized ''add a stone path'' (productImage ?st) (backgroundImage ?st)
         False = Inr (request, finalPrompt ?r)"
      "generateContent ?b request = Inr resp"
      "\<forall>product. productImage ?st = Some product \<longrightarrow>
              (\<exists>d. fileToPart ?b product = Inr (InlineDataPart d)
                   \<and> InlineDataPart d \<in> set request)
              \<and> sublist prompt_product (finalPrompt ?r)"
      "\<forall>background. backgroundImage ?st = Some background \<longrightarrow>
              (\<exists>d. fileToPart ?b background = Inr (InlineDataPart d)
                   \<and> InlineDataPart d \<in> set request)
              \<and> sublist (prompt_background ''add a stone path'') (finalPrompt ?r)"
    by blast
  have resized: "resized = File ''AAAA'' ''house.png'' ''image/jpeg''"
    using x(1) by (simp add: example_boundary_simps example_scene_def)
  have resp: "resp = example_image_response"
    using x(3) by (simp add: example_boundary_simps)
  from x(4) f(1) have "\<exists>d. fileToPart ?b example_product = Inr (InlineDataPart d)
      \<and> InlineDataPart d \<in> set request" by blast
  then have product: "InlineDataPart \<lparr>mimeType = ''image/png'', data = ''BBBB''\<rparr> \<in> set request"
    by (auto simp add: example_product_def fileToPart_example)
  from x(5) f(2) have "\<exists>d. fileToPart ?b example_background = Inr (InlineDataPart d)
      \<and> InlineDataPart d \<in> set request" by blast
  then have background:
    "InlineDataPart \<lparr>mimeType = ''image/jpeg'', data = ''CCCC''\<rparr> \<in> set request"
    by (auto simp add: example_background_def fileToPart_example)
  have "redesign_request ?b (File ''AAAA'' ''house.png'' ''image/jpeg'') ''add a stone path''
          (productImage (handleRevertToOriginal ?st))
          (backgroundImage (handleRevertToOriginal ?st)) False
        = Inr ([InlineDataPart \<lparr>mimeType = ''image/jpeg'', data = ''AAAA''\<rparr>,
                InlineDataPart \<lparr>mimeType = ''image/png'', data = ''BBBB''\<rparr>,
                InlineDataPart \<lparr>mimeType = ''image/jpeg'', data = ''CCCC''\<rparr>,
                TextPart ?t], ?t)"
    by (simp only: kept redesign_request_stone_path)
  with inst have "\<forall>product. productImage ?st = Some product \<longrightarrow>
           (\<exists>d. fileToPart ?b product = Inr (InlineDataPart d)
                \<and> InlineDataPart d
                    \<in> set [InlineDataPart \<lparr>mimeType = ''image/jpeg'', data = ''AAAA''\<rparr>,
                           InlineDataPart \<lparr>mimeType = ''image/png'', data = ''BBBB''\<rparr>,
                           InlineDataPart \<lparr>mimeType = ''image/jpeg'', data = ''CCCC''\<rparr>,
                           TextPart ?t])
           \<and> sublist prompt_product ?t"
    by blast
  with f(1) have s1: "sublist prompt_product ?t" by blast
  from x(5) f(2) have s2: "sublist (prompt_background ''add a stone path'') ?t" by auto
  have "redesign_request ?b (File ''AAAA'' ''house.png'' ''image/jpeg'') ''add a stone path''
          (Some example_product) (Some example_background) False = Inr (request, ?t)
        \<and> generateContent ?b request = Inr example_image_response
        \<and> InlineDataPart \<lparr>mimeType = ''image/png'', data = ''BBBB''\<rparr> \<in> set request
        \<and> InlineDataPart \<lparr>mimeType = ''image/jpeg'', data = ''CCCC''\<rparr> \<in> set request"
    using x(2,3) product background by (simp add: resized resp f)
  then have ex: "\<exists>request.
        redesign_request ?b (File ''AAAA'' ''house.png'' ''image/jpeg'') ''add a stone path''
          (Some example_product) (Some example_background) False = Inr (request, ?t)
        \<and> generateContent ?b request = Inr example_image_response
        \<and> InlineDataPart \<lparr>mimeType = ''image/png'', data = ''BBBB''\<rparr> \<in> set request
        \<and> InlineDataPart \<lparr>mimeType = ''image/jpeg'', data = ''CCCC''\<rparr> \<in> set request"
    by (rule exI)
  have call': "handleGenerate ?b 9 (handleRevertToOriginal ?st)
       = handleGenerate_settled ?b 9 (handleRevertToOriginal ?st)
           (redesignRoom ?b example_scene 512 256 ''add a stone path''
              (Some example_product) (Some example_background) False)"
    using call by (simp only: f dimensions.simps)
  show ?thesis
    using f(3) kept call' redesignRoom_example ex s1 s2 by (intro conjI)
qed

end
